theory Spec2Isabelle
  imports Main "HOL-Library.AList"
begin

section \<open>Common data: ready states, JSON payloads, the signaling envelope\<close>

text \<open>
  A JavaScript \<open>Map\<close> keeps its entries in insertion order: \<open>set\<close> on a present key
  replaces the value in place, \<open>set\<close> on a new key appends, \<open>delete\<close> removes the entry.
  It is modelled as an association list with \<open>AList.update\<close>, \<open>AList.delete\<close> and
  \<open>map_of\<close>; \<open>size\<close> is the length of the list, \<open>values()\<close> is \<open>map snd\<close>.
\<close>

abbreviation Map_get :: "('k \<times> 'v) list \<Rightarrow> 'k \<Rightarrow> 'v option" where
  "Map_get m k \<equiv> map_of m k"

abbreviation Map_set :: "'k \<Rightarrow> 'v \<Rightarrow> ('k \<times> 'v) list \<Rightarrow> ('k \<times> 'v) list" where
  "Map_set k v m \<equiv> AList.update k v m"

abbreviation Map_delete :: "'k \<Rightarrow> ('k \<times> 'v) list \<Rightarrow> ('k \<times> 'v) list" where
  "Map_delete k m \<equiv> AList.delete k m"

abbreviation Map_values :: "('k \<times> 'v) list \<Rightarrow> 'v list" where
  "Map_values m \<equiv> map snd m"

text \<open>The \<open>readyState\<close> of a WebSocket.\<close>

datatype ready_state = CONNECTING | OPEN | CLOSING | CLOSED

text \<open>
  The fields \<open>offer\<close>, \<open>answer\<close> and \<open>candidate\<close> are opaque JSON values; the relay only
  tests them for truthiness. Objects and arrays are kept as their text.
\<close>

datatype json = JNull | JBool bool | JNum int | JStr string | JObj string

fun truthy_json :: "json \<Rightarrow> bool" where
  "truthy_json JNull = False"
| "truthy_json (JBool b) = b"
| "truthy_json (JNum n) = (n \<noteq> 0)"
| "truthy_json (JStr s) = (s \<noteq> [])"
| "truthy_json (JObj s) = True"

text \<open>Truthiness of an optional string (\<open>undefined\<close>, \<open>null\<close> and \<open>''\<close> are falsy).\<close>

fun truthy_str :: "string option \<Rightarrow> bool" where
  "truthy_str None = False"
| "truthy_str (Some s) = (s \<noteq> [])"

fun truthy_any :: "json option \<Rightarrow> bool" where
  "truthy_any None = False"
| "truthy_any (Some j) = truthy_json j"

text \<open>
  \<open>SignalingMessage\<close>, the wire envelope of both \<open>signaling.ts\<close> files (the client's
  interface adds \<open>attempt\<close>, \<open>maxAttempts\<close> and \<open>delay\<close> for its local events).
\<close>

record SignalingMessage =
  msg_type :: string
  roomCode :: "string option"
  roomId :: "string option"
  playerId :: "string option"
  offer :: "json option"
  answer :: "json option"
  candidate :: "json option"
  error :: "string option"
  attempt :: "nat option"
  maxAttempts :: "nat option"
  delay :: "nat option"

definition message :: "string \<Rightarrow> SignalingMessage" where
  "message t = \<lparr>msg_type = t, roomCode = None, roomId = None, playerId = None,
     offer = None, answer = None, candidate = None, error = None,
     attempt = None, maxAttempts = None, delay = None\<rparr>"

section \<open>The room registry (\<open>RoomManager\<close>, server side)\<close>

datatype room_status = waiting | full | playing | disconnected

record Player =
  player_id :: string
  socket :: nat
  isHost :: bool

record Room =
  room_id :: string
  code :: string
  players :: "(string \<times> Player) list"
  status :: room_status
  createdAt :: int

record RoomManager =
  rooms :: "(string \<times> Room) list"
  playerRooms :: "(string \<times> string) list"

definition new_RoomManager :: RoomManager where
  "new_RoomManager = \<lparr>rooms = [], playerRooms = []\<rparr>"

subsection \<open>Room codes\<close>

text \<open>
  \<open>Math.random().toString(36).substring(2, 8).toUpperCase()\<close>. The random source enters
  the model as the text \<open>rnd\<close> that \<open>Math.random().toString(36)\<close> returns: \<open>0\<close> for the
  value zero, otherwise \<open>0.\<close> followed by the base-36 digits of the fraction
  (\<open>0.5\<close> is \<open>18/36\<close>, so its text is \<open>0.i\<close>).
\<close>

definition is_base36_digit :: "char \<Rightarrow> bool" where
  "is_base36_digit c = (let n = (of_char c :: nat) in (48 \<le> n \<and> n \<le> 57) \<or> (97 \<le> n \<and> n \<le> 122))"

definition random_toString36 :: "string \<Rightarrow> bool" where
  "random_toString36 s = (s = ''0'' \<or>
     (take 2 s = ''0.'' \<and> drop 2 s \<noteq> [] \<and> list_all is_base36_digit (drop 2 s)))"

definition substring :: "string \<Rightarrow> nat \<Rightarrow> nat \<Rightarrow> string" where
  "substring s i j = (let a = min (min i j) (length s); b = min (max i j) (length s)
     in take (b - a) (drop a s))"

definition char_toUpperCase :: "char \<Rightarrow> char" where
  "char_toUpperCase c = (let n = (of_char c :: nat) in
     if 97 \<le> n \<and> n \<le> 122 then char_of (n - 32) else c)"

definition toUpperCase :: "string \<Rightarrow> string" where
  "toUpperCase s = map char_toUpperCase s"

definition is_upper_alnum :: "char \<Rightarrow> bool" where
  "is_upper_alnum c = (let n = (of_char c :: nat) in (48 \<le> n \<and> n \<le> 57) \<or> (65 \<le> n \<and> n \<le> 90))"

definition roomCode_of :: "string \<Rightarrow> string" where
  "roomCode_of rnd = toUpperCase (substring rnd 2 8)"

subsection \<open>Operations\<close>

text \<open>
  \<open>createRoom\<close>: \<open>uuid\<close> is the value of \<open>uuidv4()\<close>, \<open>rnd\<close> the text of the random number,
  \<open>now\<close> the value of \<open>Date.now()\<close>.
\<close>

definition createRoom :: "string \<Rightarrow> string \<Rightarrow> int \<Rightarrow> RoomManager \<Rightarrow> Room \<times> RoomManager" where
  "createRoom uuid rnd now rm =
     (let room = \<lparr>room_id = uuid, code = roomCode_of rnd, players = [],
                   status = waiting, createdAt = now\<rparr>
      in (room, rm\<lparr>rooms := Map_set uuid room (rooms rm)\<rparr>))"

definition getRoomByCode :: "RoomManager \<Rightarrow> string \<Rightarrow> Room option" where
  "getRoomByCode rm c = find (\<lambda>room. code room = c) (Map_values (rooms rm))"

definition getRoom :: "RoomManager \<Rightarrow> string \<Rightarrow> Room option" where
  "getRoom rm rid = Map_get (rooms rm) rid"

text \<open>
  \<open>addPlayerToRoom\<close> mutates the room object held by the map; the model writes the
  changed room back under its key, which keeps the entry's position.
\<close>

definition addPlayerToRoom :: "string \<Rightarrow> Player \<Rightarrow> RoomManager \<Rightarrow> bool \<times> RoomManager" where
  "addPlayerToRoom rid player rm =
     (case Map_get (rooms rm) rid of
        None \<Rightarrow> (False, rm)
      | Some room \<Rightarrow>
          if length (players room) \<ge> 2 then (False, rm)
          else
            let ps = Map_set (player_id player) player (players room);
                room1 = room\<lparr>players := ps\<rparr>;
                room2 = (if length ps = 2 then room1\<lparr>status := full\<rparr> else room1)
            in (True, rm\<lparr>rooms := Map_set rid room2 (rooms rm),
                         playerRooms := Map_set (player_id player) rid (playerRooms rm)\<rparr>))"

definition removePlayer :: "string \<Rightarrow> RoomManager \<Rightarrow> Room option \<times> RoomManager" where
  "removePlayer pid rm =
     (case Map_get (playerRooms rm) pid of
        None \<Rightarrow> (None, rm)
      | Some rid \<Rightarrow>
          if rid = [] then (None, rm)
          else
            (case Map_get (rooms rm) rid of
               None \<Rightarrow> (None, rm\<lparr>playerRooms := Map_delete pid (playerRooms rm)\<rparr>)
             | Some room \<Rightarrow>
                 let ps = Map_delete pid (players room);
                     prs = Map_delete pid (playerRooms rm)
                 in if length ps = 0
                    then (None, rm\<lparr>rooms := Map_delete rid (rooms rm), playerRooms := prs\<rparr>)
                    else
                      let room' = room\<lparr>players := ps, status := waiting\<rparr>
                      in (Some room', rm\<lparr>rooms := Map_set rid room' (rooms rm),
                                           playerRooms := prs\<rparr>)))"

definition getPlayerRoom :: "RoomManager \<Rightarrow> string \<Rightarrow> Room option" where
  "getPlayerRoom rm pid =
     (case Map_get (playerRooms rm) pid of
        None \<Rightarrow> None
      | Some rid \<Rightarrow> if rid = [] then None else Map_get (rooms rm) rid)"

definition getPlayersInRoom :: "RoomManager \<Rightarrow> string \<Rightarrow> Player list" where
  "getPlayersInRoom rm rid =
     (case Map_get (rooms rm) rid of None \<Rightarrow> [] | Some room \<Rightarrow> Map_values (players room))"

definition getOtherPlayerInRoom :: "RoomManager \<Rightarrow> string \<Rightarrow> string \<Rightarrow> Player option" where
  "getOtherPlayerInRoom rm rid pid =
     (case Map_get (rooms rm) rid of
        None \<Rightarrow> None
      | Some room \<Rightarrow> map_option snd (find (\<lambda>e. fst e \<noteq> pid) (players room)))"

text \<open>
  \<open>cleanupOldRooms\<close> walks the entries of \<open>rooms\<close> and deletes the expired ones together
  with the \<open>playerRooms\<close> entries of their players. Only the entry being visited is
  deleted, so the walk over the live map visits the entries the map had at the start.
\<close>

definition cleanup_entry :: "int \<Rightarrow> int \<Rightarrow> string \<times> Room \<Rightarrow> RoomManager \<Rightarrow> RoomManager" where
  "cleanup_entry maxAgeMs now e rm =
     (if now - createdAt (snd e) > maxAgeMs
      then rm\<lparr>playerRooms := fold (\<lambda>player prs. Map_delete (player_id player) prs)
                                   (Map_values (players (snd e))) (playerRooms rm),
              rooms := Map_delete (fst e) (rooms rm)\<rparr>
      else rm)"

definition cleanupOldRooms :: "int \<Rightarrow> int \<Rightarrow> RoomManager \<Rightarrow> RoomManager" where
  "cleanupOldRooms maxAgeMs now rm = fold (cleanup_entry maxAgeMs now) (rooms rm) rm"

section \<open>The relay (\<open>SignalingServer\<close>)\<close>

text \<open>
  A socket is a handle; its \<open>readyState\<close> belongs to the network library and is read
  through \<open>rs\<close> at the moment of the send. The relay's output is the list of messages
  it hands to \<open>socket.send\<close>, each with the socket it goes to.
\<close>

type_synonym sends = "(nat \<times> SignalingMessage) list"

definition sendToSocket :: "(nat \<Rightarrow> ready_state) \<Rightarrow> nat \<Rightarrow> SignalingMessage \<Rightarrow> sends" where
  "sendToSocket rs sock m = (if rs sock = OPEN then [(sock, m)] else [])"

definition sendError :: "(nat \<Rightarrow> ready_state) \<Rightarrow> nat \<Rightarrow> string \<Rightarrow> sends" where
  "sendError rs sock e = sendToSocket rs sock ((message ''error'')\<lparr>error := Some e\<rparr>)"

definition handleCreateRoom ::
  "(nat \<Rightarrow> ready_state) \<Rightarrow> nat \<Rightarrow> string \<Rightarrow> string \<Rightarrow> string \<Rightarrow> int \<Rightarrow> RoomManager
     \<Rightarrow> sends \<times> RoomManager" where
  "handleCreateRoom rs sock pid uuid rnd now rm =
     (let (room, rm1) = createRoom uuid rnd now rm;
          player = \<lparr>player_id = pid, socket = sock, isHost = True\<rparr>;
          (ok, rm2) = addPlayerToRoom (room_id room) player rm1
      in (sendToSocket rs sock ((message ''room-created'')
            \<lparr>roomCode := Some (code room), roomId := Some (room_id room)\<rparr>), rm2))"

text \<open>
  In \<open>handleJoinRoom\<close> the host is looked up in \<open>room.players\<close> after
  \<open>addPlayerToRoom\<close> has changed that same object; the model reads the room again
  from the registry under \<open>room.id\<close>.
\<close>

definition handleJoinRoom ::
  "(nat \<Rightarrow> ready_state) \<Rightarrow> nat \<Rightarrow> string \<Rightarrow> string \<Rightarrow> RoomManager \<Rightarrow> sends \<times> RoomManager" where
  "handleJoinRoom rs sock pid c rm =
     (case getRoomByCode rm c of
        None \<Rightarrow> (sendError rs sock (''Room with code '' @ c @ '' not found''), rm)
      | Some room \<Rightarrow>
          if status room = full then (sendError rs sock (''Room '' @ c @ '' is full''), rm)
          else
            let player = \<lparr>player_id = pid, socket = sock, isHost = False\<rparr>;
                (success, rm1) = addPlayerToRoom (room_id room) player rm
            in if \<not> success then (sendError rs sock (''Failed to join room '' @ c), rm1)
               else
                 let joined = sendToSocket rs sock ((message ''room-joined'')
                                \<lparr>roomCode := Some (code room), roomId := Some (room_id room)\<rparr>);
                     host = (case Map_get (rooms rm1) (room_id room) of
                               None \<Rightarrow> None
                             | Some r \<Rightarrow> find isHost (Map_values (players r)))
                 in (joined @ (case host of
                                 None \<Rightarrow> []
                               | Some h \<Rightarrow> sendToSocket rs (socket h)
                                   ((message ''player-joined'')\<lparr>playerId := Some pid\<rparr>)), rm1))"

text \<open>\<open>handleOffer\<close>, \<open>handleAnswer\<close> and \<open>handleIceCandidate\<close> forward to the other occupant.\<close>

definition forward ::
  "(nat \<Rightarrow> ready_state) \<Rightarrow> string \<Rightarrow> string \<Rightarrow> SignalingMessage \<Rightarrow> RoomManager \<Rightarrow> sends" where
  "forward rs pid rid m rm =
     (case getRoom rm rid of
        None \<Rightarrow> []
      | Some room \<Rightarrow>
          (case getOtherPlayerInRoom rm rid pid of
             None \<Rightarrow> []
           | Some otherPlayer \<Rightarrow> sendToSocket rs (socket otherPlayer) m))"

definition handleOffer ::
  "(nat \<Rightarrow> ready_state) \<Rightarrow> string \<Rightarrow> string \<Rightarrow> json option \<Rightarrow> RoomManager \<Rightarrow> sends" where
  "handleOffer rs pid rid off rm =
     forward rs pid rid ((message ''offer'')\<lparr>playerId := Some pid, offer := off\<rparr>) rm"

definition handleAnswer ::
  "(nat \<Rightarrow> ready_state) \<Rightarrow> string \<Rightarrow> string \<Rightarrow> json option \<Rightarrow> RoomManager \<Rightarrow> sends" where
  "handleAnswer rs pid rid ans rm =
     forward rs pid rid ((message ''answer'')\<lparr>playerId := Some pid, answer := ans\<rparr>) rm"

definition handleIceCandidate ::
  "(nat \<Rightarrow> ready_state) \<Rightarrow> string \<Rightarrow> string \<Rightarrow> json option \<Rightarrow> RoomManager \<Rightarrow> sends" where
  "handleIceCandidate rs pid rid cand rm =
     forward rs pid rid ((message ''ice-candidate'')\<lparr>playerId := Some pid, candidate := cand\<rparr>) rm"

definition handleMessage ::
  "(nat \<Rightarrow> ready_state) \<Rightarrow> nat \<Rightarrow> string \<Rightarrow> SignalingMessage \<Rightarrow> string \<Rightarrow> string \<Rightarrow> int
     \<Rightarrow> RoomManager \<Rightarrow> sends \<times> RoomManager" where
  "handleMessage rs sock pid m uuid rnd now rm =
     (if msg_type m = ''create-room'' then handleCreateRoom rs sock pid uuid rnd now rm
      else if msg_type m = ''join-room'' then
        (if truthy_str (roomCode m) then handleJoinRoom rs sock pid (the (roomCode m)) rm
         else (sendError rs sock ''Room code is required'', rm))
      else if msg_type m = ''offer'' then
        (if truthy_str (roomId m) \<and> truthy_any (offer m)
         then (handleOffer rs pid (the (roomId m)) (offer m) rm, rm)
         else (sendError rs sock ''Room ID and offer are required'', rm))
      else if msg_type m = ''answer'' then
        (if truthy_str (roomId m) \<and> truthy_any (answer m)
         then (handleAnswer rs pid (the (roomId m)) (answer m) rm, rm)
         else (sendError rs sock ''Room ID and answer are required'', rm))
      else if msg_type m = ''ice-candidate'' then
        (if truthy_str (roomId m) \<and> truthy_any (candidate m)
         then (handleIceCandidate rs pid (the (roomId m)) (candidate m) rm, rm)
         else (sendError rs sock ''Room ID and candidate are required'', rm))
      else (sendError rs sock (''Unknown message type: '' @ msg_type m), rm))"

text \<open>
  What the relay reacts to. \<open>Connection sock pid\<close>: a client connects on \<open>sock\<close> and
  \<open>uuidv4()\<close> names it \<open>pid\<close>. \<open>Message sock pid m uuid rnd now\<close>: the text received on that
  connection parses to \<open>m\<close> (\<open>None\<close> when \<open>JSON.parse\<close> throws); \<open>uuid\<close>, \<open>rnd\<close> and
  \<open>now\<close> are what \<open>uuidv4()\<close>, the random source and \<open>Date.now()\<close> return should the
  handler ask. \<open>Close pid\<close>: the connection of \<open>pid\<close> closes. \<open>Cleanup now\<close>: the hourly
  timer calls \<open>cleanupOldRooms()\<close> with its default age of one hour.
\<close>

datatype event =
    Connection nat string
  | Message nat string "SignalingMessage option" string string int
  | Close string
  | Cleanup int

definition on_close :: "(nat \<Rightarrow> ready_state) \<Rightarrow> string \<Rightarrow> RoomManager \<Rightarrow> sends \<times> RoomManager" where
  "on_close rs pid rm =
     (let (room, rm1) = removePlayer pid rm
      in (case room of
            None \<Rightarrow> ([], rm1)
          | Some r \<Rightarrow>
              (case getOtherPlayerInRoom rm1 (room_id r) pid of
                 None \<Rightarrow> ([], rm1)
               | Some otherPlayer \<Rightarrow>
                   (sendToSocket rs (socket otherPlayer)
                      ((message ''player-disconnected'')\<lparr>playerId := Some pid\<rparr>), rm1))))"

fun server_step :: "(nat \<Rightarrow> ready_state) \<Rightarrow> event \<Rightarrow> RoomManager \<Rightarrow> sends \<times> RoomManager" where
  "server_step rs (Connection sock pid) rm =
     (sendToSocket rs sock ((message ''connection-established'')\<lparr>playerId := Some pid\<rparr>), rm)"
| "server_step rs (Message sock pid None uuid rnd now) rm =
     (sendToSocket rs sock ((message ''error'')\<lparr>error := Some ''Invalid message format''\<rparr>), rm)"
| "server_step rs (Message sock pid (Some m) uuid rnd now) rm =
     handleMessage rs sock pid m uuid rnd now rm"
| "server_step rs (Close pid) rm = on_close rs pid rm"
| "server_step rs (Cleanup now) rm = ([], cleanupOldRooms 3600000 now rm)"

text \<open>The registry after a sequence of events, each with the socket states of its moment.\<close>

fun run :: "((nat \<Rightarrow> ready_state) \<times> event) list \<Rightarrow> RoomManager \<Rightarrow> RoomManager" where
  "run [] rm = rm"
| "run (e # es) rm = run es (snd (server_step (fst e) (snd e) rm))"
section \<open>The signaling client (\<open>SignalingClient\<close>, browser side)\<close>

text \<open>
  The client is event driven. Its state is the object's fields (\<open>this_\<close>\<dots>) together
  with what the browser holds for it: the \<open>readyState\<close> of every WebSocket it has
  created, the promise each \<open>connect\<close> call has returned, the arguments captured by the
  handlers of each call, and the pending timers. Every call of \<open>connect\<close> gets the next
  handle \<open>k\<close>, which names the call, its promise and its socket; handles of
  \<open>window.setTimeout\<close> come from the same counter, which starts at 1 (timer handles are
  positive). The \<open>trace\<close> lists what the client does to the outside, in order.
  Listeners are opaque: a \<open>Call\<close> records that the listener was invoked with the message;
  listeners are taken to return normally and not to call back into the client.
\<close>

type_synonym callback = nat

datatype connect_error = ConnectionTimeout_error | ConnectionClosed string nat | ConstructorThrew

datatype promise_state = Pending | Resolved | Rejected connect_error

datatype timer = ConnectionTimeout nat | ReconnectTimeout nat string

datatype action =
    Emit string SignalingMessage
  | Call callback SignalingMessage
  | WsNew nat string
  | WsClose nat
  | WsSend nat SignalingMessage
  | SetTimeout timer nat

record SignalingClient =
  this_socket :: "nat option"
  this_eventListeners :: "(string \<times> callback list) list"
  this_playerId :: "string option"
  this_roomId :: "string option"
  this_roomCode :: "string option"
  this_reconnectAttempts :: nat
  this_reconnectTimeout :: "nat option"
  ws_readyState :: "nat \<Rightarrow> ready_state"
  promise :: "nat \<Rightarrow> promise_state"
  call_url :: "nat \<Rightarrow> string"
  call_retry :: "nat \<Rightarrow> bool"
  timers :: "timer list"
  next_handle :: nat
  trace :: "action list"

definition maxReconnectAttempts :: nat where
  "maxReconnectAttempts = 5"

definition new_SignalingClient :: SignalingClient where
  "new_SignalingClient =
     \<lparr>this_socket = None, this_eventListeners = [], this_playerId = None, this_roomId = None,
      this_roomCode = None, this_reconnectAttempts = 0, this_reconnectTimeout = None,
      ws_readyState = (\<lambda>k. CLOSED), promise = (\<lambda>k. Pending), call_url = (\<lambda>k. []),
      call_retry = (\<lambda>k. False), timers = [], next_handle = 1, trace = []\<rparr>"

definition log :: "action list \<Rightarrow> SignalingClient \<Rightarrow> SignalingClient" where
  "log as s = s\<lparr>trace := trace s @ as\<rparr>"

definition listeners_for :: "SignalingClient \<Rightarrow> string \<Rightarrow> callback list" where
  "listeners_for s ev = (case Map_get (this_eventListeners s) ev of None \<Rightarrow> [] | Some cbs \<Rightarrow> cbs)"

definition emit :: "string \<Rightarrow> SignalingMessage \<Rightarrow> SignalingClient \<Rightarrow> SignalingClient" where
  "emit ev m s = log (Emit ev m # map (\<lambda>cb. Call cb m) (listeners_for s ev)) s"

definition on :: "string \<Rightarrow> callback \<Rightarrow> SignalingClient \<Rightarrow> SignalingClient" where
  "on ev cb s = s\<lparr>this_eventListeners := Map_set ev (listeners_for s ev @ [cb]) (this_eventListeners s)\<rparr>"

definition off :: "string \<Rightarrow> callback \<Rightarrow> SignalingClient \<Rightarrow> SignalingClient" where
  "off ev cb s =
     (case Map_get (this_eventListeners s) ev of
        None \<Rightarrow> s
      | Some cbs \<Rightarrow> s\<lparr>this_eventListeners := Map_set ev (remove1 cb cbs) (this_eventListeners s)\<rparr>)"

text \<open>\<open>socket.close()\<close>: a socket that is connecting or open starts closing.\<close>

definition ws_close :: "nat \<Rightarrow> SignalingClient \<Rightarrow> SignalingClient" where
  "ws_close k s =
     (log [WsClose k] s)\<lparr>ws_readyState := (ws_readyState s)
        (k := (if ws_readyState s k = CLOSED then CLOSED else CLOSING))\<rparr>"

text \<open>\<open>send\<close>; on an open socket \<open>socket.send\<close> is taken to succeed.\<close>

definition send :: "SignalingMessage \<Rightarrow> SignalingClient \<Rightarrow> SignalingClient" where
  "send m s =
     (case this_socket s of
        None \<Rightarrow> s
      | Some k \<Rightarrow> if ws_readyState s k \<noteq> OPEN then s else log [WsSend k m] s)"

definition client_createRoom :: "SignalingClient \<Rightarrow> SignalingClient" where
  "client_createRoom s = send (message ''create-room'') s"

definition joinRoom :: "string \<Rightarrow> SignalingClient \<Rightarrow> SignalingClient" where
  "joinRoom c s = send ((message ''join-room'')\<lparr>roomCode := Some c\<rparr>) s"

definition sendOffer :: "json \<Rightarrow> SignalingClient \<Rightarrow> SignalingClient" where
  "sendOffer j s =
     (if \<not> truthy_str (this_roomId s) then s
      else send ((message ''offer'')\<lparr>roomId := this_roomId s, offer := Some j\<rparr>) s)"

definition sendAnswer :: "json \<Rightarrow> SignalingClient \<Rightarrow> SignalingClient" where
  "sendAnswer j s =
     (if \<not> truthy_str (this_roomId s) then s
      else send ((message ''answer'')\<lparr>roomId := this_roomId s, answer := Some j\<rparr>) s)"

definition sendIceCandidate :: "json \<Rightarrow> SignalingClient \<Rightarrow> SignalingClient" where
  "sendIceCandidate j s =
     (if \<not> truthy_str (this_roomId s) then s
      else send ((message ''ice-candidate'')\<lparr>roomId := this_roomId s, candidate := Some j\<rparr>) s)"

text \<open>Settling the promise of call \<open>k\<close>; only the first settlement counts.\<close>

definition reject :: "nat \<Rightarrow> connect_error \<Rightarrow> SignalingClient \<Rightarrow> SignalingClient" where
  "reject k e s = (if promise s k = Pending then s\<lparr>promise := (promise s)(k := Rejected e)\<rparr> else s)"

text \<open>
  The \<open>then\<close> handler that \<open>attemptReconnect\<close> chains on the promise of its \<open>connect\<close>
  call; the \<open>catch\<close> handler only logs.
\<close>

definition reconnected :: "SignalingClient \<Rightarrow> SignalingClient" where
  "reconnected s =
     (let s1 = emit ''reconnected'' (message ''reconnected'') s
      in if truthy_str (this_roomCode s1) then joinRoom (the (this_roomCode s1)) s1 else s1)"

definition resolve :: "nat \<Rightarrow> SignalingClient \<Rightarrow> SignalingClient" where
  "resolve k s =
     (if promise s k = Pending
      then (let s1 = s\<lparr>promise := (promise s)(k := Resolved)\<rparr>
            in if call_retry s k then reconnected s1 else s1)
      else s)"

definition clearTimeout :: "timer \<Rightarrow> SignalingClient \<Rightarrow> SignalingClient" where
  "clearTimeout t s = s\<lparr>timers := removeAll t (timers s)\<rparr>"

fun has_handle :: "nat \<Rightarrow> timer \<Rightarrow> bool" where
  "has_handle h (ReconnectTimeout h' u) = (h' = h)"
| "has_handle h (ConnectionTimeout k) = False"

definition clearTimeout_handle :: "nat \<Rightarrow> SignalingClient \<Rightarrow> SignalingClient" where
  "clearTimeout_handle h s = s\<lparr>timers := filter (\<lambda>t. \<not> has_handle h t) (timers s)\<rparr>"

text \<open>Truthiness of the field \<open>reconnectTimeout\<close> (a number or null).\<close>

fun truthy_handle :: "nat option \<Rightarrow> bool" where
  "truthy_handle None = False"
| "truthy_handle (Some h) = (h \<noteq> 0)"

text \<open>
  \<open>connect(serverUrl)\<close>, the body of the promise executor. \<open>ok serverUrl\<close> says whether
  \<open>new WebSocket(serverUrl)\<close> returns (it throws on a malformed URL, which the
  \<open>catch\<close> turns into a rejection); \<open>retry\<close> says whether the call comes from
  \<open>attemptReconnect\<close>.
\<close>

definition connect :: "(string \<Rightarrow> bool) \<Rightarrow> string \<Rightarrow> bool \<Rightarrow> SignalingClient \<Rightarrow> SignalingClient" where
  "connect ok serverUrl retry s =
     (let k = next_handle s;
          s1 = s\<lparr>next_handle := Suc k, promise := (promise s)(k := Pending),
                 call_url := (call_url s)(k := serverUrl),
                 call_retry := (call_retry s)(k := retry)\<rparr>;
          s2 = (case this_socket s1 of
                  None \<Rightarrow> s1
                | Some old \<Rightarrow> (ws_close old s1)\<lparr>this_socket := None\<rparr>)
      in if \<not> ok serverUrl then reject k ConstructorThrew s2
         else (log [WsNew k serverUrl, SetTimeout (ConnectionTimeout k) 10000] s2)
                \<lparr>this_socket := Some k,
                 ws_readyState := (ws_readyState s2)(k := CONNECTING),
                 timers := timers s2 @ [ConnectionTimeout k]\<rparr>)"

definition attemptReconnect :: "string \<Rightarrow> SignalingClient \<Rightarrow> SignalingClient" where
  "attemptReconnect serverUrl s =
     (if this_reconnectAttempts s \<ge> maxReconnectAttempts
      then emit ''max-reconnect-attempts'' (message ''max-reconnect-attempts'') s
      else
        let d = 2 ^ this_reconnectAttempts s * 1000;
            s1 = emit ''reconnecting'' ((message ''reconnecting'')
                   \<lparr>attempt := Some (this_reconnectAttempts s + 1),
                    maxAttempts := Some maxReconnectAttempts,
                    delay := Some d\<rparr>) s;
            s2 = (if truthy_handle (this_reconnectTimeout s1)
                  then clearTimeout_handle (the (this_reconnectTimeout s1)) s1 else s1);
            h = next_handle s2
        in (log [SetTimeout (ReconnectTimeout h serverUrl) d] s2)
             \<lparr>next_handle := Suc h,
              timers := timers s2 @ [ReconnectTimeout h serverUrl],
              this_reconnectTimeout := Some h\<rparr>)"

definition disconnect :: "SignalingClient \<Rightarrow> SignalingClient" where
  "disconnect s =
     (let s1 = (case this_socket s of
                  None \<Rightarrow> s
                | Some k \<Rightarrow> (ws_close k s)\<lparr>this_socket := None\<rparr>)
      in if truthy_handle (this_reconnectTimeout s1)
         then (clearTimeout_handle (the (this_reconnectTimeout s1)) s1)\<lparr>this_reconnectTimeout := None\<rparr>
         else s1)"

definition client_handleMessage :: "SignalingMessage \<Rightarrow> SignalingClient \<Rightarrow> SignalingClient" where
  "client_handleMessage m s =
     (let s1 = (if truthy_str (playerId m) then s\<lparr>this_playerId := playerId m\<rparr> else s);
          s2 = (if truthy_str (roomId m) then s1\<lparr>this_roomId := roomId m\<rparr> else s1);
          s3 = (if truthy_str (roomCode m) then s2\<lparr>this_roomCode := roomCode m\<rparr> else s2);
          s4 = (if msg_type m = ''connection-established'' then emit ''connected'' m s3 else s3);
          s5 = (if msg_type m = ''room-created'' then emit ''room-created'' m s4 else s4);
          s6 = (if msg_type m = ''room-joined'' then emit ''room-joined'' m s5 else s5);
          s7 = (if msg_type m = ''player-joined'' then emit ''player-joined'' m s6 else s6);
          s8 = (if msg_type m = ''player-disconnected'' then emit ''player-disconnected'' m s7 else s7);
          s9 = (if msg_type m = ''error'' then emit ''error'' m s8 else s8)
      in emit (msg_type m) m s9)"

text \<open>
  The handlers that \<open>connect\<close> call \<open>k\<close> installs on its socket. \<open>onopen\<close> and \<open>onclose\<close>
  read \<open>this.socket!.readyState\<close> for a log line before anything else, which throws when
  \<open>this.socket\<close> is null; the rest of the handler is then skipped.
\<close>

definition onopen :: "nat \<Rightarrow> SignalingClient \<Rightarrow> SignalingClient" where
  "onopen k s =
     (case this_socket s of
        None \<Rightarrow> s
      | Some cur \<Rightarrow> resolve k ((clearTimeout (ConnectionTimeout k) s)\<lparr>this_reconnectAttempts := 0\<rparr>))"

definition onmessage :: "SignalingMessage option \<Rightarrow> SignalingClient \<Rightarrow> SignalingClient" where
  "onmessage parsed s = (case parsed of None \<Rightarrow> s | Some m \<Rightarrow> client_handleMessage m s)"

definition onclose :: "nat \<Rightarrow> bool \<Rightarrow> nat \<Rightarrow> string \<Rightarrow> SignalingClient \<Rightarrow> SignalingClient" where
  "onclose k wasClean cd reason s =
     (case this_socket s of
        None \<Rightarrow> s
      | Some cur \<Rightarrow>
          let s1 = clearTimeout (ConnectionTimeout k) s
          in if truthy_str (this_playerId s1) then attemptReconnect (call_url s1 k) s1
             else if \<not> wasClean
               then reject k (ConnectionClosed (if reason = [] then ''Unknown reason'' else reason) cd) s1
               else s1)"

text \<open>The two timer callbacks.\<close>

definition connectionTimeout_fired :: "nat \<Rightarrow> SignalingClient \<Rightarrow> SignalingClient" where
  "connectionTimeout_fired k s =
     (case this_socket s of
        None \<Rightarrow> s
      | Some cur \<Rightarrow>
          if ws_readyState s cur \<noteq> OPEN then reject k ConnectionTimeout_error (ws_close cur s) else s)"

definition reconnectTimeout_fired :: "(string \<Rightarrow> bool) \<Rightarrow> string \<Rightarrow> SignalingClient \<Rightarrow> SignalingClient" where
  "reconnectTimeout_fired ok serverUrl s =
     connect ok serverUrl True (s\<lparr>this_reconnectAttempts := Suc (this_reconnectAttempts s)\<rparr>)"

text \<open>
  What happens to the client: calls of its public methods, the events of its sockets
  (the browser delivers \<open>open\<close> only to a connecting socket, \<open>message\<close> only to an open
  one, \<open>close\<close> once, and it sets \<open>readyState\<close> before it runs the handler), and the
  firing of a pending timer.
\<close>

datatype client_event =
    ApiConnect string
  | ApiDisconnect
  | ApiOn string callback
  | ApiOff string callback
  | ApiCreateRoom
  | ApiJoinRoom string
  | ApiSendOffer json
  | ApiSendAnswer json
  | ApiSendIceCandidate json
  | WsOpen nat
  | WsMessage nat "SignalingMessage option"
  | WsClosed nat bool nat string
  | WsError nat
  | TimerFired timer

fun client_step :: "(string \<Rightarrow> bool) \<Rightarrow> client_event \<Rightarrow> SignalingClient \<Rightarrow> SignalingClient" where
  "client_step ok (ApiConnect serverUrl) s = connect ok serverUrl False s"
| "client_step ok ApiDisconnect s = disconnect s"
| "client_step ok (ApiOn ev cb) s = on ev cb s"
| "client_step ok (ApiOff ev cb) s = off ev cb s"
| "client_step ok ApiCreateRoom s = client_createRoom s"
| "client_step ok (ApiJoinRoom c) s = joinRoom c s"
| "client_step ok (ApiSendOffer j) s = sendOffer j s"
| "client_step ok (ApiSendAnswer j) s = sendAnswer j s"
| "client_step ok (ApiSendIceCandidate j) s = sendIceCandidate j s"
| "client_step ok (WsOpen k) s =
     (if ws_readyState s k = CONNECTING
      then onopen k (s\<lparr>ws_readyState := (ws_readyState s)(k := OPEN)\<rparr>) else s)"
| "client_step ok (WsMessage k parsed) s =
     (if ws_readyState s k = OPEN then onmessage parsed s else s)"
| "client_step ok (WsClosed k wasClean cd reason) s =
     (if ws_readyState s k \<noteq> CLOSED
      then onclose k wasClean cd reason (s\<lparr>ws_readyState := (ws_readyState s)(k := CLOSED)\<rparr>) else s)"
| "client_step ok (WsError k) s = s"
| "client_step ok (TimerFired t) s =
     (if t \<notin> set (timers s) then s
      else (case t of
              ConnectionTimeout k \<Rightarrow> connectionTimeout_fired k (clearTimeout t s)
            | ReconnectTimeout h serverUrl \<Rightarrow> reconnectTimeout_fired ok serverUrl (clearTimeout t s)))"

fun client_run :: "(string \<Rightarrow> bool) \<Rightarrow> client_event list \<Rightarrow> SignalingClient \<Rightarrow> SignalingClient" where
  "client_run ok [] s = s"
| "client_run ok (ev # evs) s = client_run ok evs (client_step ok ev s)"

section \<open>The peer session (\<open>WebRTCConnection\<close>, browser side)\<close>

text \<open>
  The session is event driven like the signaling client. Its state is the object's
  fields together with the \<open>readyState\<close> of the data channels and the
  \<open>iceConnectionState\<close> of the peer connections it has seen; peer connections, data
  channels and interval timers are handles from one counter that starts at 1. The
  signaling client it was constructed with is seen through its interface only:
  \<open>getPlayerId()\<close> is the argument \<open>pid\<close> of a step and the calls \<open>sendOffer\<close>,
  \<open>sendAnswer\<close> and \<open>sendIceCandidate\<close> are recorded among the effects. \<open>Date.now()\<close> is
  the argument \<open>now\<close> of a step (one reading per event). An \<open>async\<close> method runs up to
  its first \<open>await\<close>; what follows the \<open>await\<close> runs when the browser reports the
  awaited operation as done, which is an event of its own. Message listeners are opaque,
  as the listeners of the signaling client are.
\<close>

datatype MessageType = POSITION_UPDATE | GAME_STATE | PLAYER_ACTION | HEARTBEAT | HEARTBEAT_ACK

record GameMessage =
  gm_type :: MessageType
  gm_playerId :: string
  gm_timestamp :: int
  gm_sequence :: nat
  gm_position :: "(int \<times> int) option"
  gm_action :: "string option"
  gm_gameState :: "json option"
  gm_data :: "json option"

definition game_message :: "MessageType \<Rightarrow> string \<Rightarrow> int \<Rightarrow> nat \<Rightarrow> GameMessage" where
  "game_message t p ts sq =
     \<lparr>gm_type = t, gm_playerId = p, gm_timestamp = ts, gm_sequence = sq,
      gm_position = None, gm_action = None, gm_gameState = None, gm_data = None\<rparr>"

datatype channel_state = ch_connecting | ch_open | ch_closing | ch_closed

datatype ice_state =
  ice_new | ice_checking | ice_connected | ice_completed | ice_failed | ice_disconnected | ice_closed

datatype effect =
    PcNew nat
  | PcClose nat
  | ChannelNew nat nat
  | ChannelClose nat
  | ChannelSend nat GameMessage
  | Notify callback GameMessage
  | PcCreateOffer nat
  | PcCreateAnswer nat
  | PcSetLocalDescription nat json
  | PcSetRemoteDescription nat "json option"
  | PcAddIceCandidate nat "json option"
  | SigSendOffer json
  | SigSendAnswer json
  | SigSendIceCandidate json
  | SetInterval nat nat
  | ClearInterval nat
  | WindowDispatch string

record WebRTCConnection =
  peerConnection :: "nat option"
  dataChannel :: "nat option"
  remoteDataChannel :: "nat option"
  rtc_isHost :: bool
  isConnected :: bool
  messageListeners :: "callback list"
  sequence :: nat
  heartbeatInterval :: "nat option"
  heartbeatTimeout :: "nat option"
  lastHeartbeatAck :: int
  reconnecting :: bool
  channel_readyState :: "nat \<Rightarrow> channel_state"
  iceConnectionState :: "nat \<Rightarrow> ice_state"
  next_id :: nat
  effects :: "effect list"

definition new_WebRTCConnection :: WebRTCConnection where
  "new_WebRTCConnection =
     \<lparr>peerConnection = None, dataChannel = None, remoteDataChannel = None, rtc_isHost = False,
      isConnected = False, messageListeners = [], sequence = 0, heartbeatInterval = None,
      heartbeatTimeout = None, lastHeartbeatAck = 0, reconnecting = False,
      channel_readyState = (\<lambda>c. ch_closed), iceConnectionState = (\<lambda>p. ice_closed),
      next_id = 1, effects = []\<rparr>"

definition effect :: "effect list \<Rightarrow> WebRTCConnection \<Rightarrow> WebRTCConnection" where
  "effect es s = s\<lparr>effects := effects s @ es\<rparr>"

text \<open>\<open>this.signalingClient.getPlayerId() || 'unknown'\<close>.\<close>

definition playerId_or_unknown :: "string option \<Rightarrow> string" where
  "playerId_or_unknown pid = (if truthy_str pid then the pid else ''unknown'')"

definition notifyMessageListeners :: "GameMessage \<Rightarrow> WebRTCConnection \<Rightarrow> WebRTCConnection" where
  "notifyMessageListeners m s = effect (map (\<lambda>cb. Notify cb m) (messageListeners s)) s"

definition onMessage :: "callback \<Rightarrow> WebRTCConnection \<Rightarrow> WebRTCConnection" where
  "onMessage cb s = s\<lparr>messageListeners := messageListeners s @ [cb]\<rparr>"

definition offMessage :: "callback \<Rightarrow> WebRTCConnection \<Rightarrow> WebRTCConnection" where
  "offMessage cb s = s\<lparr>messageListeners := remove1 cb (messageListeners s)\<rparr>"

definition stopHeartbeat :: "WebRTCConnection \<Rightarrow> WebRTCConnection" where
  "stopHeartbeat s =
     (let s1 = (if truthy_handle (heartbeatInterval s)
                then (effect [ClearInterval (the (heartbeatInterval s))] s)\<lparr>heartbeatInterval := None\<rparr>
                else s)
      in if truthy_handle (heartbeatTimeout s1) then s1\<lparr>heartbeatTimeout := None\<rparr> else s1)"

text \<open>
  \<open>sendMessage\<close> returns its success flag together with the new state; on an open
  channel \<open>channel.send\<close> is taken to succeed. The counter \<open>sequence\<close> is a natural
  number (a JavaScript number counts exactly far beyond any run of the session).
\<close>

definition sendMessage :: "GameMessage \<Rightarrow> WebRTCConnection \<Rightarrow> bool \<times> WebRTCConnection" where
  "sendMessage m s =
     (if \<not> isConnected s then (False, s)
      else
        (case (if rtc_isHost s then dataChannel s else remoteDataChannel s) of
           None \<Rightarrow> (False, s)
         | Some c \<Rightarrow>
             if channel_readyState s c \<noteq> ch_open then (False, s)
             else (True, effect [ChannelSend c m] s)))"

definition sendPositionUpdate ::
  "string option \<Rightarrow> int \<Rightarrow> int \<Rightarrow> int \<Rightarrow> WebRTCConnection \<Rightarrow> bool \<times> WebRTCConnection" where
  "sendPositionUpdate pid now x y s =
     sendMessage ((game_message POSITION_UPDATE (playerId_or_unknown pid) now (sequence s))
                    \<lparr>gm_position := Some (x, y)\<rparr>)
       (s\<lparr>sequence := Suc (sequence s)\<rparr>)"

definition sendPlayerAction ::
  "string option \<Rightarrow> int \<Rightarrow> string \<Rightarrow> json \<Rightarrow> WebRTCConnection \<Rightarrow> bool \<times> WebRTCConnection" where
  "sendPlayerAction pid now a d s =
     sendMessage ((game_message PLAYER_ACTION (playerId_or_unknown pid) now (sequence s))
                    \<lparr>gm_action := Some a, gm_data := Some d\<rparr>)
       (s\<lparr>sequence := Suc (sequence s)\<rparr>)"

definition closePeerConnection :: "WebRTCConnection \<Rightarrow> WebRTCConnection" where
  "closePeerConnection s =
     (let s1 = stopHeartbeat s;
          s2 = (case dataChannel s1 of
                  None \<Rightarrow> s1
                | Some c \<Rightarrow> (effect [ChannelClose c] s1)
                    \<lparr>dataChannel := None,
                     channel_readyState := (channel_readyState s1)
                       (c := (if channel_readyState s1 c = ch_closed then ch_closed else ch_closing))\<rparr>);
          s3 = s2\<lparr>remoteDataChannel := None\<rparr>;
          s4 = (case peerConnection s3 of
                  None \<Rightarrow> s3
                | Some p \<Rightarrow> (effect [PcClose p] s3)
                    \<lparr>peerConnection := None,
                     iceConnectionState := (iceConnectionState s3)(p := ice_closed)\<rparr>)
      in s4\<lparr>isConnected := False\<rparr>)"

text \<open>
  \<open>createPeerConnection\<close>; the handlers it installs are the events \<open>IceCandidate\<close>,
  \<open>IceConnectionStateChange\<close> and \<open>DataChannel\<close> below, those of \<open>setupDataChannel\<close> are
  \<open>ChannelOpen\<close>, \<open>ChannelClosed\<close>, \<open>ChannelError\<close> and \<open>ChannelMessage\<close>.
\<close>

definition createPeerConnection :: "WebRTCConnection \<Rightarrow> WebRTCConnection" where
  "createPeerConnection s =
     (let s1 = closePeerConnection s;
          p = next_id s1;
          s2 = (effect [PcNew p] s1)
                 \<lparr>peerConnection := Some p, next_id := Suc p,
                  iceConnectionState := (iceConnectionState s1)(p := ice_new)\<rparr>
      in if rtc_isHost s2
         then (let c = next_id s2
               in (effect [ChannelNew p c] s2)
                    \<lparr>dataChannel := Some c, next_id := Suc c,
                     channel_readyState := (channel_readyState s2)(c := ch_connecting)\<rparr>)
         else s2)"

text \<open>The \<open>async\<close> methods, each up to its first \<open>await\<close>.\<close>

definition createOffer :: "WebRTCConnection \<Rightarrow> WebRTCConnection" where
  "createOffer s = (case peerConnection s of None \<Rightarrow> s | Some p \<Rightarrow> effect [PcCreateOffer p] s)"

definition rtc_handleOffer :: "json option \<Rightarrow> WebRTCConnection \<Rightarrow> WebRTCConnection" where
  "rtc_handleOffer j s =
     (case peerConnection s of None \<Rightarrow> s | Some p \<Rightarrow> effect [PcSetRemoteDescription p j] s)"

definition rtc_handleAnswer :: "json option \<Rightarrow> WebRTCConnection \<Rightarrow> WebRTCConnection" where
  "rtc_handleAnswer j s =
     (case peerConnection s of None \<Rightarrow> s | Some p \<Rightarrow> effect [PcSetRemoteDescription p j] s)"

definition rtc_handleIceCandidate :: "json option \<Rightarrow> WebRTCConnection \<Rightarrow> WebRTCConnection" where
  "rtc_handleIceCandidate j s =
     (case peerConnection s of None \<Rightarrow> s | Some p \<Rightarrow> effect [PcAddIceCandidate p j] s)"

text \<open>
  What follows an \<open>await\<close>. The continuation reads \<open>this.peerConnection\<close> again; when it is
  null by then the call throws and the \<open>catch\<close> only logs.
\<close>

definition offer_created :: "json \<Rightarrow> WebRTCConnection \<Rightarrow> WebRTCConnection" where
  "offer_created j s =
     (case peerConnection s of None \<Rightarrow> s | Some p \<Rightarrow> effect [PcSetLocalDescription p j] s)"

definition offer_description_set :: "json \<Rightarrow> WebRTCConnection \<Rightarrow> WebRTCConnection" where
  "offer_description_set j s = effect [SigSendOffer j] s"

definition remote_offer_set :: "WebRTCConnection \<Rightarrow> WebRTCConnection" where
  "remote_offer_set s = (case peerConnection s of None \<Rightarrow> s | Some p \<Rightarrow> effect [PcCreateAnswer p] s)"

definition answer_created :: "json \<Rightarrow> WebRTCConnection \<Rightarrow> WebRTCConnection" where
  "answer_created j s =
     (case peerConnection s of None \<Rightarrow> s | Some p \<Rightarrow> effect [PcSetLocalDescription p j] s)"

definition answer_description_set :: "json \<Rightarrow> WebRTCConnection \<Rightarrow> WebRTCConnection" where
  "answer_description_set j s = effect [SigSendAnswer j] s"

definition restartConnection :: "WebRTCConnection \<Rightarrow> WebRTCConnection" where
  "restartConnection s = (if rtc_isHost s then createOffer (createPeerConnection s) else s)"

definition disconnected_event :: json where
  "disconnected_event = JObj ''{\"event\":\"disconnected\"}''"

definition reconnected_event :: json where
  "reconnected_event = JObj ''{\"event\":\"reconnected\"}''"

definition handleDisconnection :: "int \<Rightarrow> WebRTCConnection \<Rightarrow> WebRTCConnection" where
  "handleDisconnection now s =
     (let s1 = stopHeartbeat (s\<lparr>isConnected := False\<rparr>);
          s2 = notifyMessageListeners
                 ((game_message GAME_STATE ''system'' now (sequence s1))\<lparr>gm_data := Some disconnected_event\<rparr>)
                 (s1\<lparr>sequence := Suc (sequence s1)\<rparr>)
      in if \<not> reconnecting s2 then restartConnection s2 else s2)"

definition handleSuccessfulReconnection :: "int \<Rightarrow> WebRTCConnection \<Rightarrow> WebRTCConnection" where
  "handleSuccessfulReconnection now s =
     effect [WindowDispatch ''game:reconnected'']
       (notifyMessageListeners
          ((game_message GAME_STATE ''system'' now (sequence s))\<lparr>gm_data := Some reconnected_event\<rparr>)
          (s\<lparr>sequence := Suc (sequence s)\<rparr>))"

text \<open>\<open>startHeartbeat\<close> registers the interval; its callback is \<open>heartbeat_tick\<close>.\<close>

definition startHeartbeat :: "int \<Rightarrow> WebRTCConnection \<Rightarrow> WebRTCConnection" where
  "startHeartbeat now s =
     (let s1 = (stopHeartbeat s)\<lparr>lastHeartbeatAck := now\<rparr>;
          h = next_id s1
      in (effect [SetInterval h 2000] s1)\<lparr>heartbeatInterval := Some h, next_id := Suc h\<rparr>)"

definition heartbeat_tick :: "string option \<Rightarrow> int \<Rightarrow> WebRTCConnection \<Rightarrow> WebRTCConnection" where
  "heartbeat_tick pid now s =
     (let s1 = snd (sendMessage (game_message HEARTBEAT (playerId_or_unknown pid) now (sequence s))
                      (s\<lparr>sequence := Suc (sequence s)\<rparr>))
      in if now - lastHeartbeatAck s1 > 10000 then handleDisconnection now s1 else s1)"

text \<open>The handlers of a data channel.\<close>

definition channel_onopen :: "int \<Rightarrow> WebRTCConnection \<Rightarrow> WebRTCConnection" where
  "channel_onopen now s =
     (let s1 = startHeartbeat now (s\<lparr>isConnected := True\<rparr>)
      in if reconnecting s1 then handleSuccessfulReconnection now (s1\<lparr>reconnecting := False\<rparr>) else s1)"

definition channel_onclose :: "WebRTCConnection \<Rightarrow> WebRTCConnection" where
  "channel_onclose s = stopHeartbeat (s\<lparr>isConnected := False\<rparr>)"

definition channel_onmessage ::
  "string option \<Rightarrow> int \<Rightarrow> GameMessage option \<Rightarrow> WebRTCConnection \<Rightarrow> WebRTCConnection" where
  "channel_onmessage pid now parsed s =
     (case parsed of
        None \<Rightarrow> s
      | Some m \<Rightarrow>
          if gm_type m = HEARTBEAT
          then snd (sendMessage (game_message HEARTBEAT_ACK (playerId_or_unknown pid) now (sequence s))
                      (s\<lparr>sequence := Suc (sequence s)\<rparr>))
          else if gm_type m = HEARTBEAT_ACK then s\<lparr>lastHeartbeatAck := now\<rparr>
          else notifyMessageListeners m s)"

text \<open>
  The handler of \<open>iceconnectionstatechange\<close> reads the state of \<open>this.peerConnection\<close>,
  whichever connection the event comes from.
\<close>

definition oniceconnectionstatechange :: "int \<Rightarrow> WebRTCConnection \<Rightarrow> WebRTCConnection" where
  "oniceconnectionstatechange now s =
     (case peerConnection s of
        None \<Rightarrow> s
      | Some p \<Rightarrow>
          if iceConnectionState s p = ice_disconnected \<or> iceConnectionState s p = ice_failed
          then handleDisconnection now s
          else if iceConnectionState s p = ice_connected then s\<lparr>isConnected := True\<rparr>
          else s)"

definition ondatachannel :: "WebRTCConnection \<Rightarrow> WebRTCConnection" where
  "ondatachannel s =
     (let c = next_id s
      in s\<lparr>remoteDataChannel := Some c, next_id := Suc c,
            channel_readyState := (channel_readyState s)(c := ch_connecting)\<rparr>)"

text \<open>
  What happens to the session: the events the signaling client delivers to the
  listeners registered in \<open>setupSignalingListeners\<close>, the events of the current and of
  earlier peer connections and data channels (the browser sets the state before it runs
  the handler; a data channel the peer has created is announced by \<open>DataChannel\<close> and
  its open event follows), the tick of the heartbeat interval, the completions of
  awaited operations, and calls of the public methods.
\<close>

datatype rtc_event =
    SigPlayerJoined
  | SigOffer "json option"
  | SigAnswer "json option"
  | SigIceCandidate "json option"
  | SigPlayerDisconnected
  | SigReconnecting
  | SigReconnected
  | IceCandidate nat "json option"
  | IceConnectionStateChange nat ice_state
  | DataChannel nat
  | ChannelOpen nat
  | ChannelClosed nat
  | ChannelError nat
  | ChannelMessage nat "GameMessage option"
  | HeartbeatTick nat
  | OfferCreated json
  | OfferDescriptionSet json
  | RemoteOfferSet
  | AnswerCreated json
  | AnswerDescriptionSet json
  | CallSendMessage GameMessage
  | CallSendPositionUpdate int int
  | CallSendPlayerAction string json
  | CallOnMessage callback
  | CallOffMessage callback
  | CallDisconnect

fun rtc_step :: "string option \<Rightarrow> int \<Rightarrow> rtc_event \<Rightarrow> WebRTCConnection \<Rightarrow> WebRTCConnection" where
  "rtc_step pid now SigPlayerJoined s = createOffer (createPeerConnection (s\<lparr>rtc_isHost := True\<rparr>))"
| "rtc_step pid now (SigOffer j) s = rtc_handleOffer j (createPeerConnection (s\<lparr>rtc_isHost := False\<rparr>))"
| "rtc_step pid now (SigAnswer j) s = rtc_handleAnswer j s"
| "rtc_step pid now (SigIceCandidate j) s = rtc_handleIceCandidate j s"
| "rtc_step pid now SigPlayerDisconnected s = handleDisconnection now s"
| "rtc_step pid now SigReconnecting s = s\<lparr>reconnecting := True\<rparr>"
| "rtc_step pid now SigReconnected s =
     (let s1 = s\<lparr>reconnecting := False\<rparr> in if isConnected s1 then restartConnection s1 else s1)"
| "rtc_step pid now (IceCandidate p cand) s =
     (if iceConnectionState s p = ice_closed then s
      else (case cand of None \<Rightarrow> s | Some j \<Rightarrow> effect [SigSendIceCandidate j] s))"
| "rtc_step pid now (IceConnectionStateChange p st) s =
     (if iceConnectionState s p = ice_closed then s
      else oniceconnectionstatechange now (s\<lparr>iceConnectionState := (iceConnectionState s)(p := st)\<rparr>))"
| "rtc_step pid now (DataChannel p) s =
     (if iceConnectionState s p = ice_closed then s else ondatachannel s)"
| "rtc_step pid now (ChannelOpen c) s =
     (if channel_readyState s c = ch_connecting
      then channel_onopen now (s\<lparr>channel_readyState := (channel_readyState s)(c := ch_open)\<rparr>) else s)"
| "rtc_step pid now (ChannelClosed c) s =
     (if channel_readyState s c \<noteq> ch_closed
      then channel_onclose (s\<lparr>channel_readyState := (channel_readyState s)(c := ch_closed)\<rparr>) else s)"
| "rtc_step pid now (ChannelError c) s = s"
| "rtc_step pid now (ChannelMessage c parsed) s =
     (if channel_readyState s c = ch_open then channel_onmessage pid now parsed s else s)"
| "rtc_step pid now (HeartbeatTick h) s =
     (if heartbeatInterval s = Some h then heartbeat_tick pid now s else s)"
| "rtc_step pid now (OfferCreated j) s = offer_created j s"
| "rtc_step pid now (OfferDescriptionSet j) s = offer_description_set j s"
| "rtc_step pid now RemoteOfferSet s = remote_offer_set s"
| "rtc_step pid now (AnswerCreated j) s = answer_created j s"
| "rtc_step pid now (AnswerDescriptionSet j) s = answer_description_set j s"
| "rtc_step pid now (CallSendMessage m) s = snd (sendMessage m s)"
| "rtc_step pid now (CallSendPositionUpdate x y) s = snd (sendPositionUpdate pid now x y s)"
| "rtc_step pid now (CallSendPlayerAction a d) s = snd (sendPlayerAction pid now a d s)"
| "rtc_step pid now (CallOnMessage cb) s = onMessage cb s"
| "rtc_step pid now (CallOffMessage cb) s = offMessage cb s"
| "rtc_step pid now CallDisconnect s = closePeerConnection s"

text \<open>A run: each event comes with the player id the signaling client reports and the time.\<close>

fun rtc_run :: "(string option \<times> int \<times> rtc_event) list \<Rightarrow> WebRTCConnection \<Rightarrow> WebRTCConnection" where
  "rtc_run [] s = s"
| "rtc_run (e # es) s = rtc_run es (rtc_step (fst e) (fst (snd e)) (snd (snd e)) s)"

section \<open>Invariants and scenarios\<close>

definition rooms_ok :: "(Room \<Rightarrow> bool) \<Rightarrow> RoomManager \<Rightarrow> bool" where
  "rooms_ok P rm = list_all (\<lambda>e. P (snd e)) (rooms rm)"

definition size_ok :: "Room \<Rightarrow> bool" where
  "size_ok r = (length (players r) \<le> 2)"

definition wf_rooms :: "RoomManager \<Rightarrow> bool" where
  "wf_rooms rm = (distinct (map fst (rooms rm)) \<and> list_all (\<lambda>e. room_id (snd e) = fst e) (rooms rm))"

text \<open>The hosts of a room: the players whose \<open>isHost\<close> flag is set.\<close>

definition hosts :: "Room \<Rightarrow> string list" where
  "hosts r = map player_id (filter isHost (Map_values (players r)))"

definition host_count_ok :: "Room \<Rightarrow> bool" where
  "host_count_ok r = (length (hosts r) \<le> 1)"

definition hosts_of :: "RoomManager \<Rightarrow> string \<Rightarrow> string list" where
  "hosts_of rm rid = (case getRoom rm rid of None \<Rightarrow> [] | Some r \<Rightarrow> hosts r)"

text \<open>Every entry of a room's player table is filed under the player's own id.\<close>

definition keys_ok :: "Room \<Rightarrow> bool" where
  "keys_ok r = list_all (\<lambda>e. player_id (snd e) = fst e) (players r)"

text \<open>Whether an event is a \<open>create-room\<close> request whose new room gets the id \<open>rid\<close>.\<close>

fun creates :: "string \<Rightarrow> event \<Rightarrow> bool" where
  "creates rid (Message sock pid (Some m) uuid rnd now) = (msg_type m = ''create-room'' \<and> uuid = rid)"
| "creates rid _ = False"

text \<open>Concrete runs of the relay, with every socket open.\<close>

definition all_open :: "nat \<Rightarrow> ready_state" where
  "all_open sock = OPEN"

definition create_msg :: SignalingMessage where
  "create_msg = message ''create-room''"

definition join_msg :: "string \<Rightarrow> SignalingMessage" where
  "join_msg c = (message ''join-room'')\<lparr>roomCode := Some c\<rparr>"

text \<open>X creates a room (code AB12CD), Y joins it.\<close>

definition paired_events :: "((nat \<Rightarrow> ready_state) \<times> event) list" where
  "paired_events =
     [(all_open, Connection 1 ''X''),
      (all_open, Message 1 ''X'' (Some create_msg) ''r1'' ''0.ab12cdxyz'' 1000),
      (all_open, Connection 2 ''Y''),
      (all_open, Message 2 ''Y'' (Some (join_msg ''AB12CD'')) ''u2'' ''0.5'' 2000)]"

text \<open>Then the host X leaves and Z joins the room that Y still occupies.\<close>

definition host_left_events :: "((nat \<Rightarrow> ready_state) \<times> event) list" where
  "host_left_events = paired_events @
     [(all_open, Close ''X''),
      (all_open, Connection 3 ''Z''),
      (all_open, Message 3 ''Z'' (Some (join_msg ''AB12CD'')) ''u3'' ''0.5'' 3000)]"

text \<open>X creates two rooms, one after the other, and then its connection closes.\<close>

definition two_rooms_events :: "((nat \<Rightarrow> ready_state) \<times> event) list" where
  "two_rooms_events =
     [(all_open, Connection 1 ''X''),
      (all_open, Message 1 ''X'' (Some create_msg) ''r1'' ''0.ab12cdxyz'' 1000),
      (all_open, Message 1 ''X'' (Some create_msg) ''r2'' ''0.zz99yyxyz'' 1500),
      (all_open, Close ''X'')]"

text \<open>X and Y each create a room and the random source returns the same number twice.\<close>

definition twin_code_events :: "((nat \<Rightarrow> ready_state) \<times> event) list" where
  "twin_code_events =
     [(all_open, Connection 1 ''X''),
      (all_open, Message 1 ''X'' (Some create_msg) ''r1'' ''0.ab12cdxyz'' 1000),
      (all_open, Connection 2 ''Y''),
      (all_open, Message 2 ''Y'' (Some create_msg) ''r2'' ''0.ab12cdxyz'' 2000)]"

text \<open>Observations on the client's trace.\<close>

definition twice_types :: "string list" where
  "twice_types = [''room-created'', ''room-joined'', ''player-joined'', ''player-disconnected'', ''error'']"

definition new_actions :: "SignalingClient \<Rightarrow> SignalingClient \<Rightarrow> action list" where
  "new_actions s s' = drop (length (trace s)) (trace s')"

text \<open>The actions that belong to the reconnect cycle: events emitted, retry timers set, sockets created.\<close>

fun retry_action :: "action \<Rightarrow> bool" where
  "retry_action (Emit ev m) = True"
| "retry_action (SetTimeout (ReconnectTimeout h u) d) = True"
| "retry_action (WsNew k u) = True"
| "retry_action _ = False"

definition reconnecting_msg :: "nat \<Rightarrow> nat \<Rightarrow> nat \<Rightarrow> SignalingMessage" where
  "reconnecting_msg k mx d =
     (message ''reconnecting'')\<lparr>attempt := Some k, maxAttempts := Some mx, delay := Some d\<rparr>"

text \<open>
  \<open>j\<close> failed retries in a row, the first timer having handle \<open>h\<close>: the pending retry
  timer fires, \<open>connect\<close> creates the socket with the next handle, and that socket
  closes abnormally without having opened.
\<close>

fun retry_events :: "nat \<Rightarrow> string \<Rightarrow> nat \<Rightarrow> client_event list" where
  "retry_events h serverUrl 0 = []"
| "retry_events h serverUrl (Suc j) =
     TimerFired (ReconnectTimeout h serverUrl) # WsClosed (Suc h) False 1006 [] #
     retry_events (Suc (Suc h)) serverUrl j"

text \<open>What the trace shows for the \<open>i\<close>-th retry when the first retry timer has handle \<open>h\<close>.\<close>

definition retry_round :: "nat \<Rightarrow> string \<Rightarrow> nat \<Rightarrow> action list" where
  "retry_round h serverUrl i =
     [Emit ''reconnecting'' (reconnecting_msg i 5 (2 ^ (i - 1) * 1000)),
      SetTimeout (ReconnectTimeout (h + 2 * (i - 1)) serverUrl) (2 ^ (i - 1) * 1000),
      WsNew (h + 2 * (i - 1) + 1) serverUrl]"

text \<open>A client that has connected and received its player id, with one listener.\<close>

definition any_url :: "string \<Rightarrow> bool" where
  "any_url u = True"

definition established_msg :: SignalingMessage where
  "established_msg = (message ''connection-established'')\<lparr>playerId := Some ''p1''\<rparr>"

definition connected_client :: SignalingClient where
  "connected_client = client_run any_url
     [ApiOn ''reconnecting'' 7, ApiConnect ''ws://relay'', WsOpen 1, WsMessage 1 (Some established_msg)]
     new_SignalingClient"

text \<open>Bookkeeping for a chain of \<open>emit\<close> calls: since the state \<open>s0\<close> the listeners are unchanged and the listener \<open>c\<close> has been invoked \<open>n\<close> times with \<open>m\<close>.\<close>

definition dispatched :: "SignalingClient \<Rightarrow> SignalingMessage \<Rightarrow> callback \<Rightarrow> SignalingClient \<Rightarrow> nat \<Rightarrow> bool" where
  "dispatched s0 m c s n =
     (length (trace s0) \<le> length (trace s) \<and>
      this_eventListeners s = this_eventListeners s0 \<and>
      count_list (drop (length (trace s0)) (trace s)) (Call c m) = n)"

text \<open>A client whose first \<open>connect\<close> call is under way, and whether an event is a message.\<close>

definition connecting_client :: SignalingClient where
  "connecting_client = client_run any_url [ApiConnect ''ws://relay''] new_SignalingClient"

text \<open>
  A client that has called \<open>disconnect\<close> while its first \<open>connect\<close> call was under way,
  and an environment in which \<open>new WebSocket\<close> throws for every URL.
\<close>

definition dropped_client :: SignalingClient where
  "dropped_client = client_run any_url [ApiConnect ''ws://relay'', ApiDisconnect] new_SignalingClient"

definition no_url :: "string \<Rightarrow> bool" where
  "no_url u = False"

fun is_message :: "client_event \<Rightarrow> bool" where
  "is_message (WsMessage k parsed) = True"
| "is_message _ = False"

text \<open>
  The client between two retries: it knows its player id, its \<open>j\<close> retries so far have
  failed, and the only pending timer is the retry timer with handle \<open>h\<close>, the last
  handle handed out.
\<close>

definition awaiting_retry :: "string \<Rightarrow> nat \<Rightarrow> nat \<Rightarrow> SignalingClient \<Rightarrow> bool" where
  "awaiting_retry serverUrl h j s =
     (truthy_str (this_playerId s) \<and> this_socket s \<noteq> None \<and> this_reconnectAttempts s = j \<and>
      timers s = [ReconnectTimeout h serverUrl] \<and> next_handle s = Suc h)"

text \<open>
  Observations on the peer session: the effects by which a session starts a (re)negotiation,
  and the events that report a disconnection of the data path or follow one.
\<close>

fun initiates :: "effect \<Rightarrow> bool" where
  "initiates (PcNew p) = True"
| "initiates (ChannelNew p c) = True"
| "initiates (PcCreateOffer p) = True"
| "initiates _ = False"

fun is_disconnection :: "rtc_event \<Rightarrow> bool" where
  "is_disconnection SigPlayerDisconnected = True"
| "is_disconnection SigReconnected = True"
| "is_disconnection (IceConnectionStateChange p st) = True"
| "is_disconnection (ChannelClosed c) = True"
| "is_disconnection (HeartbeatTick h) = True"
| "is_disconnection _ = False"

text \<open>The channel \<open>sendMessage\<close> writes to, and the effects a step has added.\<close>

definition send_channel :: "WebRTCConnection \<Rightarrow> nat option" where
  "send_channel s = (if rtc_isHost s then dataChannel s else remoteDataChannel s)"

definition new_effects :: "WebRTCConnection \<Rightarrow> WebRTCConnection \<Rightarrow> effect list" where
  "new_effects s s' = drop (length (effects s)) (effects s')"

text \<open>
  Concrete sessions. An Answerer: an offer arrives, the peer's data channel is announced
  and opens. An Offerer: a player joins and the data channel opens. The Answerer after
  the ICE state of its connection has changed to disconnected.
\<close>

definition guest_session :: WebRTCConnection where
  "guest_session = rtc_run
     [(Some ''p2'', 0, SigOffer (Some (JObj ''sdp''))),
      (Some ''p2'', 10, DataChannel 1),
      (Some ''p2'', 20, ChannelOpen 2)] new_WebRTCConnection"

definition host_session :: WebRTCConnection where
  "host_session = rtc_run
     [(Some ''p1'', 0, SigPlayerJoined),
      (Some ''p1'', 20, ChannelOpen 2)] new_WebRTCConnection"

definition ice_dropped_guest :: WebRTCConnection where
  "ice_dropped_guest = rtc_step (Some ''p2'') 30 (IceConnectionStateChange 1 ice_disconnected) guest_session"

section \<open>Properties of the registry and the relay\<close>

lemma set_update_subset: "set (AList.update k v al) \<subseteq> insert (k, v) (set al)"
  by (induction al) auto

lemma set_delete_subset: "set (AList.delete k al) \<subseteq> set al"
  by (induction al) auto

lemma length_update_le: "length (AList.update k v al) \<le> Suc (length al)"
  by (induction al) auto

lemma rooms_okI: "(\<And>k r. (k, r) \<in> set (rooms rm) \<Longrightarrow> P r) \<Longrightarrow> rooms_ok P rm"
  by (auto simp: rooms_ok_def list_all_iff)

lemma rooms_okD: "rooms_ok P rm \<Longrightarrow> (k, r) \<in> set (rooms rm) \<Longrightarrow> P r"
  by (auto simp: rooms_ok_def list_all_iff)

lemma rooms_ok_set:
  assumes "rooms_ok P rm" "P r"
  shows "rooms_ok P (rm\<lparr>rooms := Map_set k r (rooms rm)\<rparr>)"
  using assms set_update_subset[of k r "rooms rm"]
  by (auto simp: rooms_ok_def list_all_iff)

lemma rooms_ok_delete:
  assumes "rooms_ok P rm"
  shows "rooms_ok P (rm\<lparr>rooms := Map_delete k (rooms rm)\<rparr>)"
  using assms set_delete_subset[of k "rooms rm"]
  by (auto simp: rooms_ok_def list_all_iff)

lemma rooms_ok_playerRooms [simp]: "rooms_ok P (rm\<lparr>playerRooms := x\<rparr>) = rooms_ok P rm"
  by (simp add: rooms_ok_def)

lemma rooms_ok_get: "rooms_ok P rm \<Longrightarrow> Map_get (rooms rm) k = Some r \<Longrightarrow> P r"
  by (auto dest: map_of_SomeD rooms_okD)

lemma size_ok_createRoom: "rooms_ok size_ok rm \<Longrightarrow> rooms_ok size_ok (snd (createRoom uuid rnd now rm))"
  by (simp add: createRoom_def Let_def rooms_ok_set size_ok_def)

lemma size_ok_addPlayerToRoom:
  assumes "rooms_ok size_ok rm"
  shows "rooms_ok size_ok (snd (addPlayerToRoom rid p rm))"
proof (cases "Map_get (rooms rm) rid")
  case None
  then show ?thesis using assms by (simp add: addPlayerToRoom_def)
next
  case (Some room)
  show ?thesis
  proof (cases "length (players room) \<ge> 2")
    case True
    then show ?thesis using assms Some by (simp add: addPlayerToRoom_def)
  next
    case False
    have "length (Map_set (player_id p) p (players room)) \<le> 2"
      using False length_update_le[of "player_id p" p "players room"] by simp
    then show ?thesis using assms Some False
      by (simp add: addPlayerToRoom_def Let_def rooms_ok_set size_ok_def)
  qed
qed

lemma rooms_ok_removePlayer:
  assumes ok: "rooms_ok P rm"
    and step: "\<And>room. P room \<Longrightarrow> P (room\<lparr>players := Map_delete pid (players room), status := waiting\<rparr>)"
  shows "rooms_ok P (snd (removePlayer pid rm))"
proof (cases "Map_get (playerRooms rm) pid")
  case None
  then show ?thesis using ok by (simp add: removePlayer_def)
next
  case (Some rid)
  show ?thesis
  proof (cases "Map_get (rooms rm) rid")
    case None
    then show ?thesis using ok Some by (simp add: removePlayer_def)
  next
    case room: (Some room)
    have "P room" using ok room by (rule rooms_ok_get)
    then have "P (room\<lparr>players := Map_delete pid (players room), status := waiting\<rparr>)"
      by (rule step)
    then show ?thesis using ok Some room
      by (simp add: removePlayer_def Let_def rooms_ok_set rooms_ok_delete)
  qed
qed

lemma size_ok_removePlayer:
  assumes "rooms_ok size_ok rm"
  shows "rooms_ok size_ok (snd (removePlayer pid rm))"
proof (rule rooms_ok_removePlayer[OF assms])
  fix room assume "size_ok room"
  then show "size_ok (room\<lparr>players := Map_delete pid (players room), status := waiting\<rparr>)"
    using AList.length_delete_le[of pid "players room"] by (simp add: size_ok_def)
qed

lemma size_ok_cleanup_entry: "rooms_ok P rm \<Longrightarrow> rooms_ok P (cleanup_entry a now e rm)"
  using rooms_ok_delete[of P rm "fst e"] by (simp add: cleanup_entry_def rooms_ok_def)

lemma rooms_ok_fold_cleanup: "rooms_ok P rm \<Longrightarrow> rooms_ok P (fold (cleanup_entry a now) es rm)"
  by (induction es arbitrary: rm) (simp_all add: size_ok_cleanup_entry)

lemma rooms_ok_cleanupOldRooms: "rooms_ok P rm \<Longrightarrow> rooms_ok P (cleanupOldRooms a now rm)"
  by (simp add: cleanupOldRooms_def rooms_ok_fold_cleanup)

lemma size_ok_handleCreateRoom:
  "rooms_ok size_ok rm \<Longrightarrow> rooms_ok size_ok (snd (handleCreateRoom rs sock pid uuid rnd now rm))"
  using size_ok_addPlayerToRoom[OF size_ok_createRoom, of rm]
  by (simp add: handleCreateRoom_def split_beta Let_def)

lemma size_ok_handleJoinRoom:
  "rooms_ok size_ok rm \<Longrightarrow> rooms_ok size_ok (snd (handleJoinRoom rs sock pid c rm))"
  using size_ok_addPlayerToRoom[of rm]
  by (simp add: handleJoinRoom_def split_beta Let_def split: option.splits)

lemma size_ok_handleMessage:
  "rooms_ok size_ok rm \<Longrightarrow> rooms_ok size_ok (snd (handleMessage rs sock pid m uuid rnd now rm))"
  by (simp add: handleMessage_def size_ok_handleCreateRoom size_ok_handleJoinRoom)

lemma size_ok_on_close:
  "rooms_ok size_ok rm \<Longrightarrow> rooms_ok size_ok (snd (on_close rs pid rm))"
  using size_ok_removePlayer[of rm pid]
  by (simp add: on_close_def split_beta Let_def split: option.splits)

lemma size_ok_server_step:
  "rooms_ok size_ok rm \<Longrightarrow> rooms_ok size_ok (snd (server_step rs ev rm))"
  by (induction rs ev rm rule: server_step.induct)
     (simp_all add: size_ok_handleMessage size_ok_on_close rooms_ok_cleanupOldRooms)

lemma size_ok_run: "rooms_ok size_ok rm \<Longrightarrow> rooms_ok size_ok (run evs rm)"
  by (induction evs arbitrary: rm) (simp_all add: size_ok_server_step)


lemma wf_rooms_playerRooms [simp]: "wf_rooms (rm\<lparr>playerRooms := x\<rparr>) = wf_rooms rm"
  by (simp add: wf_rooms_def)

lemma wf_rooms_set:
  assumes "wf_rooms rm" "room_id r = k"
  shows "wf_rooms (rm\<lparr>rooms := Map_set k r (rooms rm)\<rparr>)"
  using assms set_update_subset[of k r "rooms rm"]
  by (auto simp: wf_rooms_def list_all_iff AList.distinct_update)

lemma wf_rooms_delete:
  assumes "wf_rooms rm"
  shows "wf_rooms (rm\<lparr>rooms := Map_delete k (rooms rm)\<rparr>)"
  using assms set_delete_subset[of k "rooms rm"]
  by (auto simp: wf_rooms_def list_all_iff AList.distinct_delete)

lemma wf_rooms_get: "wf_rooms rm \<Longrightarrow> Map_get (rooms rm) k = Some r \<Longrightarrow> room_id r = k"
  by (auto simp: wf_rooms_def list_all_iff dest!: map_of_SomeD)

lemma wf_rooms_member: "wf_rooms rm \<Longrightarrow> r \<in> set (Map_values (rooms rm)) \<Longrightarrow> Map_get (rooms rm) (room_id r) = Some r"
  by (auto simp: wf_rooms_def list_all_iff)

lemma wf_createRoom: "wf_rooms rm \<Longrightarrow> wf_rooms (snd (createRoom uuid rnd now rm))"
  by (simp add: createRoom_def Let_def wf_rooms_set)

lemma wf_addPlayerToRoom:
  assumes "wf_rooms rm"
  shows "wf_rooms (snd (addPlayerToRoom rid p rm))"
proof (cases "Map_get (rooms rm) rid")
  case None
  then show ?thesis using assms by (simp add: addPlayerToRoom_def)
next
  case (Some room)
  then have "room_id room = rid" using assms by (simp add: wf_rooms_get)
  then show ?thesis using assms Some
    by (simp add: addPlayerToRoom_def Let_def wf_rooms_set)
qed

lemma wf_removePlayer:
  assumes "wf_rooms rm"
  shows "wf_rooms (snd (removePlayer pid rm))"
proof (cases "Map_get (playerRooms rm) pid")
  case None
  then show ?thesis using assms by (simp add: removePlayer_def)
next
  case (Some rid)
  show ?thesis
  proof (cases "Map_get (rooms rm) rid")
    case None
    then show ?thesis using assms Some by (simp add: removePlayer_def)
  next
    case room: (Some room)
    then have "room_id room = rid" using assms by (simp add: wf_rooms_get)
    then show ?thesis using assms Some room
      by (simp add: removePlayer_def Let_def wf_rooms_set wf_rooms_delete)
  qed
qed

lemma wf_cleanup_entry: "wf_rooms rm \<Longrightarrow> wf_rooms (cleanup_entry a now e rm)"
  using wf_rooms_delete[of rm "fst e"] by (simp add: cleanup_entry_def wf_rooms_def)

lemma wf_fold_cleanup: "wf_rooms rm \<Longrightarrow> wf_rooms (fold (cleanup_entry a now) es rm)"
  by (induction es arbitrary: rm) (simp_all add: wf_cleanup_entry)

lemma wf_handleMessage:
  assumes "wf_rooms rm"
  shows "wf_rooms (snd (handleMessage rs sock pid m uuid rnd now rm))"
proof -
  have c: "wf_rooms (snd (handleCreateRoom rs sock pid uuid rnd now rm))"
    using wf_addPlayerToRoom[OF wf_createRoom[OF assms]]
    by (simp add: handleCreateRoom_def split_beta Let_def)
  have j: "wf_rooms (snd (handleJoinRoom rs sock pid c rm))" for c
    using wf_addPlayerToRoom[OF assms] assms
    by (simp add: handleJoinRoom_def split_beta Let_def split: option.splits)
  show ?thesis using assms by (simp add: handleMessage_def c j)
qed

lemma wf_server_step: "wf_rooms rm \<Longrightarrow> wf_rooms (snd (server_step rs ev rm))"
proof (induction rs ev rm rule: server_step.induct)
  case (4 rs pid rm)
  then show ?case using wf_removePlayer[of rm pid]
    by (simp add: on_close_def split_beta Let_def split: option.splits)
qed (simp_all add: wf_handleMessage cleanupOldRooms_def wf_fold_cleanup)

lemma wf_run: "wf_rooms rm \<Longrightarrow> wf_rooms (run evs rm)"
  by (induction evs arbitrary: rm) (simp_all add: wf_server_step)

lemma wf_new: "wf_rooms new_RoomManager"
  by (simp add: wf_rooms_def new_RoomManager_def)

lemma join_full_room:
  assumes wf: "wf_rooms rm"
    and found: "getRoomByCode rm c = Some room"
    and two: "length (players room) \<ge> 2"
    and op: "rs sock = OPEN"
  shows "handleJoinRoom rs sock pid c rm =
           ([(sock, (message ''error'')\<lparr>error := Some
               (if status room = full then ''Room '' @ c @ '' is full''
                else ''Failed to join room '' @ c)\<rparr>)], rm)"
proof -
  from found have "room \<in> set (Map_values (rooms rm))"
    by (auto simp: getRoomByCode_def find_Some_iff)
  with wf have get: "Map_get (rooms rm) (room_id room) = Some room"
    by (rule wf_rooms_member)
  show ?thesis
  proof (cases "status room = full")
    case True
    then show ?thesis using found op
      by (simp add: handleJoinRoom_def sendError_def sendToSocket_def)
  next
    case False
    then show ?thesis using found op get two
      by (simp add: handleJoinRoom_def addPlayerToRoom_def sendError_def sendToSocket_def)
  qed
qed

text \<open>
  Claim C1. After every sequence of events handled by the relay (connections, messages
  of any kind, closes and cleanups, so in particular every sequence of create-room and
  join-room requests) each room holds at most two players. A join-room request whose
  code resolves to a room that already has two occupants sends exactly one message, an
  error, to the requester (whose socket is open, as \<open>sendToSocket\<close> requires), and
  leaves the whole registry as it was. The error says that the room is full; when the
  room's status is not full it says that the join failed, and when the code is the empty
  text it says that a code is required.
\<close>

theorem room_never_exceeds_two_players:
  "list_all (\<lambda>e. length (players (snd e)) \<le> 2) (rooms (run evs new_RoomManager)) \<and>
   (msg_type m = ''join-room'' \<and> roomCode m = Some c \<and>
    getRoomByCode (run evs new_RoomManager) c = Some room \<and> length (players room) \<ge> 2 \<and>
    rs sock = OPEN \<longrightarrow>
      server_step rs (Message sock pid (Some m) uuid rnd now) (run evs new_RoomManager)
        = ([(sock, (message ''error'')\<lparr>error := Some
             (if c = [] then ''Room code is required''
              else if status room = full then ''Room '' @ c @ '' is full''
              else ''Failed to join room '' @ c)\<rparr>)], run evs new_RoomManager))"
proof
  have "rooms_ok size_ok new_RoomManager"
    by (simp add: rooms_ok_def new_RoomManager_def)
  then have "rooms_ok size_ok (run evs new_RoomManager)"
    by (rule size_ok_run)
  then show "list_all (\<lambda>e. length (players (snd e)) \<le> 2) (rooms (run evs new_RoomManager))"
    by (simp add: rooms_ok_def size_ok_def)
next
  have wf: "wf_rooms (run evs new_RoomManager)"
    using wf_new by (rule wf_run)
  show "msg_type m = ''join-room'' \<and> roomCode m = Some c \<and>
    getRoomByCode (run evs new_RoomManager) c = Some room \<and> length (players room) \<ge> 2 \<and>
    rs sock = OPEN \<longrightarrow>
      server_step rs (Message sock pid (Some m) uuid rnd now) (run evs new_RoomManager)
        = ([(sock, (message ''error'')\<lparr>error := Some
             (if c = [] then ''Room code is required''
              else if status room = full then ''Room '' @ c @ '' is full''
              else ''Failed to join room '' @ c)\<rparr>)], run evs new_RoomManager)"
    using join_full_room[OF wf, of c room rs sock pid]
    by (auto simp: handleMessage_def sendError_def sendToSocket_def)
qed

lemma paired_state:
  "run paired_events new_RoomManager =
     \<lparr>rooms = [(''r1'', \<lparr>room_id = ''r1'', code = ''AB12CD'',
         players = [(''X'', \<lparr>player_id = ''X'', socket = 1, isHost = True\<rparr>),
                    (''Y'', \<lparr>player_id = ''Y'', socket = 2, isHost = False\<rparr>)],
         status = full, createdAt = 1000\<rparr>)],
      playerRooms = [(''X'', ''r1''), (''Y'', ''r1'')]\<rparr>"
  by code_simp

theorem room_never_exceeds_two_players_witness:
  "getRoomByCode (run paired_events new_RoomManager) ''AB12CD'' =
     Some \<lparr>room_id = ''r1'', code = ''AB12CD'',
         players = [(''X'', \<lparr>player_id = ''X'', socket = 1, isHost = True\<rparr>),
                    (''Y'', \<lparr>player_id = ''Y'', socket = 2, isHost = False\<rparr>)],
         status = full, createdAt = 1000\<rparr> \<and>
   all_open 3 = OPEN \<and>
   list_all (\<lambda>e. length (players (snd e)) \<le> 2) (rooms (run paired_events new_RoomManager)) \<and>
   server_step all_open (Message 3 ''Z'' (Some (join_msg ''AB12CD'')) ''u3'' ''0.5'' 3000)
       (run paired_events new_RoomManager)
     = ([(3, (message ''error'')\<lparr>error := Some ''Room AB12CD is full''\<rparr>)], run paired_events new_RoomManager)"
proof -
  let ?room = "\<lparr>room_id = ''r1'', code = ''AB12CD'',
         players = [(''X'', \<lparr>player_id = ''X'', socket = 1, isHost = True\<rparr>),
                    (''Y'', \<lparr>player_id = ''Y'', socket = 2, isHost = False\<rparr>)],
         status = full, createdAt = 1000\<rparr>"
  have h1: "getRoomByCode (run paired_events new_RoomManager) ''AB12CD'' = Some ?room"
    by (simp add: paired_state getRoomByCode_def)
  have h2: "all_open 3 = OPEN"
    by (simp add: all_open_def)
  have h3: "msg_type (join_msg ''AB12CD'') = ''join-room''" "roomCode (join_msg ''AB12CD'') = Some ''AB12CD''"
    by (simp_all add: join_msg_def message_def)
  show ?thesis
    using h1 h2 h3
      room_never_exceeds_two_players[where evs = paired_events and m = "join_msg ''AB12CD''"
        and c = "''AB12CD''" and room = ?room and rs = all_open and sock = 3 and pid = "''Z''"
        and uuid = "''u3''" and rnd = "''0.5''" and now = 3000]
    by simp
qed

subsection \<open>Hosts\<close>

lemma filter_update_subset:
  "\<not> P v \<Longrightarrow> set (filter P (Map_values (Map_set k v al))) \<subseteq> set (filter P (Map_values al))"
  by (induction al) auto

lemma filter_update_length:
  "\<not> P v \<Longrightarrow> length (filter P (Map_values (Map_set k v al))) \<le> length (filter P (Map_values al))"
  by (induction al) auto

lemma filter_delete_subset:
  "set (filter P (Map_values (Map_delete k al))) \<subseteq> set (filter P (Map_values al))"
  by (induction al) auto

lemma filter_delete_length:
  "length (filter P (Map_values (Map_delete k al))) \<le> length (filter P (Map_values al))"
  by (induction al) (auto intro: le_SucI)

lemma hosts_add_nonhost:
  "\<not> isHost p \<Longrightarrow> set (hosts (r\<lparr>players := Map_set k p (players r)\<rparr>)) \<subseteq> set (hosts r)"
  unfolding hosts_def set_map
  by (rule image_mono) (use filter_update_subset[of isHost p k "players r"] in simp)

lemma hosts_delete:
  "set (hosts (r\<lparr>players := Map_delete k (players r), status := st\<rparr>)) \<subseteq> set (hosts r)"
  unfolding hosts_def set_map
  by (rule image_mono) (use filter_delete_subset[of isHost k "players r"] in simp)

lemma hosts_status [simp]: "hosts (r\<lparr>status := st\<rparr>) = hosts r"
  by (simp add: hosts_def)

lemma host_count_add_nonhost:
  "\<not> isHost p \<Longrightarrow> host_count_ok r \<Longrightarrow> host_count_ok (r\<lparr>players := Map_set k p (players r)\<rparr>)"
  using filter_update_length[of isHost p k "players r"] by (simp add: host_count_ok_def hosts_def)

lemma host_count_delete:
  "host_count_ok r \<Longrightarrow> host_count_ok (r\<lparr>players := Map_delete k (players r), status := st\<rparr>)"
  using filter_delete_length[of isHost k "players r"] by (simp add: host_count_ok_def hosts_def)

lemma host_count_status [simp]: "host_count_ok (r\<lparr>status := st\<rparr>) = host_count_ok r"
  by (simp add: host_count_ok_def)

lemma host_count_addPlayerToRoom:
  assumes ok: "rooms_ok host_count_ok rm" and nh: "\<not> isHost p"
  shows "rooms_ok host_count_ok (snd (addPlayerToRoom rid p rm))"
proof (cases "Map_get (rooms rm) rid")
  case None
  then show ?thesis using ok by (simp add: addPlayerToRoom_def)
next
  case (Some room)
  have "host_count_ok room" using ok Some by (rule rooms_ok_get)
  then have "host_count_ok (room\<lparr>players := Map_set (player_id p) p (players room)\<rparr>)"
    using nh by (simp add: host_count_add_nonhost)
  then show ?thesis using ok Some
    by (simp add: addPlayerToRoom_def Let_def rooms_ok_set)
qed

lemma handleCreateRoom_rooms:
  "rooms (snd (handleCreateRoom rs sock pid uuid rnd now rm)) =
     Map_set uuid \<lparr>room_id = uuid, code = roomCode_of rnd,
                   players = [(pid, \<lparr>player_id = pid, socket = sock, isHost = True\<rparr>)],
                   status = waiting, createdAt = now\<rparr> (rooms rm)"
  by (simp add: handleCreateRoom_def createRoom_def addPlayerToRoom_def Let_def AList.update_conv')

lemma host_count_handleCreateRoom:
  assumes "rooms_ok host_count_ok rm"
  shows "rooms_ok host_count_ok (snd (handleCreateRoom rs sock pid uuid rnd now rm))"
proof -
  let ?r = "\<lparr>room_id = uuid, code = roomCode_of rnd,
              players = [(pid, \<lparr>player_id = pid, socket = sock, isHost = True\<rparr>)],
              status = waiting, createdAt = now\<rparr>"
  have "host_count_ok ?r" by (simp add: host_count_ok_def hosts_def)
  with assms have "rooms_ok host_count_ok (rm\<lparr>rooms := Map_set uuid ?r (rooms rm)\<rparr>)"
    by (rule rooms_ok_set)
  then show ?thesis
    by (simp add: rooms_ok_def handleCreateRoom_rooms)
qed

lemma host_count_handleJoinRoom:
  "rooms_ok host_count_ok rm \<Longrightarrow> rooms_ok host_count_ok (snd (handleJoinRoom rs sock pid c rm))"
  using host_count_addPlayerToRoom[of rm "\<lparr>player_id = pid, socket = sock, isHost = False\<rparr>"]
  by (simp add: handleJoinRoom_def split_beta Let_def split: option.splits)

lemma host_count_server_step:
  "rooms_ok host_count_ok rm \<Longrightarrow> rooms_ok host_count_ok (snd (server_step rs ev rm))"
proof (induction rs ev rm rule: server_step.induct)
  case (3 rs sock pid m uuid rnd now rm)
  then show ?case
    by (simp add: handleMessage_def host_count_handleCreateRoom host_count_handleJoinRoom)
next
  case (4 rs pid rm)
  have "rooms_ok host_count_ok (snd (removePlayer pid rm))"
    using 4 by (rule rooms_ok_removePlayer) (rule host_count_delete)
  then show ?case
    by (simp add: on_close_def split_beta Let_def split: option.splits)
qed (simp_all add: rooms_ok_cleanupOldRooms)

lemma host_count_run: "rooms_ok host_count_ok rm \<Longrightarrow> rooms_ok host_count_ok (run evs rm)"
  by (induction evs arbitrary: rm) (simp_all add: host_count_server_step)

subsection \<open>No step installs a host in an existing room\<close>

lemma hosts_of_addPlayerToRoom:
  assumes "\<not> isHost p"
  shows "set (hosts_of (snd (addPlayerToRoom k p rm)) rid) \<subseteq> set (hosts_of rm rid)"
proof (cases "Map_get (rooms rm) k")
  case None
  then show ?thesis by (simp add: addPlayerToRoom_def)
next
  case (Some room)
  show ?thesis
  proof (cases "rid = k")
    case True
    then show ?thesis using Some hosts_add_nonhost[OF assms, where r = room and k = "player_id p"]
      by (simp add: addPlayerToRoom_def Let_def hosts_of_def getRoom_def AList.update_conv')
  next
    case False
    then show ?thesis using Some
      by (simp add: addPlayerToRoom_def Let_def hosts_of_def getRoom_def AList.update_conv')
  qed
qed

lemma hosts_of_removePlayer:
  "set (hosts_of (snd (removePlayer pid rm)) rid) \<subseteq> set (hosts_of rm rid)"
proof (cases "Map_get (playerRooms rm) pid")
  case None
  then show ?thesis by (simp add: removePlayer_def)
next
  case (Some k)
  show ?thesis
  proof (cases "k = [] \<or> Map_get (rooms rm) k = None")
    case True
    then show ?thesis using Some by (auto simp: removePlayer_def hosts_of_def getRoom_def)
  next
    case False
    then obtain room where room: "Map_get (rooms rm) k = Some room" and k: "k \<noteq> []"
      by auto
    show ?thesis
    proof (cases "rid = k")
      case True
      then show ?thesis using Some room k hosts_delete[where r = room and k = pid and st = waiting]
        by (simp add: removePlayer_def Let_def hosts_of_def getRoom_def
                      AList.update_conv' AList.delete_conv')
    next
      case False
      then show ?thesis using Some room k
        by (simp add: removePlayer_def Let_def hosts_of_def getRoom_def
                      AList.update_conv' AList.delete_conv')
    qed
  qed
qed

lemma getRoom_cleanup_entry:
  "getRoom (cleanup_entry a now e rm) rid = None \<or> getRoom (cleanup_entry a now e rm) rid = getRoom rm rid"
  by (simp add: cleanup_entry_def getRoom_def AList.delete_conv')

lemma getRoom_fold_cleanup:
  "getRoom (fold (cleanup_entry a now) es rm) rid = None \<or>
   getRoom (fold (cleanup_entry a now) es rm) rid = getRoom rm rid"
proof (induction es arbitrary: rm)
  case Nil
  then show ?case by simp
next
  case (Cons e es)
  show ?case using Cons[of "cleanup_entry a now e rm"] getRoom_cleanup_entry[of a now e rm rid]
    by auto
qed

lemma hosts_of_cleanupOldRooms:
  "set (hosts_of (cleanupOldRooms a now rm) rid) \<subseteq> set (hosts_of rm rid)"
  using getRoom_fold_cleanup[of a now "rooms rm" rm rid]
  by (auto simp: cleanupOldRooms_def hosts_of_def)

lemma hosts_of_handleCreateRoom_other:
  "uuid \<noteq> rid \<Longrightarrow> hosts_of (snd (handleCreateRoom rs sock pid uuid rnd now rm)) rid = hosts_of rm rid"
  by (simp add: hosts_of_def getRoom_def handleCreateRoom_rooms AList.update_conv')

lemma hosts_of_handleCreateRoom_same:
  "hosts_of (snd (handleCreateRoom rs sock pid uuid rnd now rm)) uuid = [pid]"
  by (simp add: hosts_of_def getRoom_def handleCreateRoom_rooms AList.update_conv' hosts_def)

lemma hosts_of_handleJoinRoom:
  "set (hosts_of (snd (handleJoinRoom rs sock pid c rm)) rid) \<subseteq> set (hosts_of rm rid)"
  using hosts_of_addPlayerToRoom[of "\<lparr>player_id = pid, socket = sock, isHost = False\<rparr>" _ rm rid]
  by (simp add: handleJoinRoom_def split_beta Let_def split: option.splits)

lemma hosts_of_server_step:
  "\<not> creates rid ev \<Longrightarrow> set (hosts_of (snd (server_step rs ev rm)) rid) \<subseteq> set (hosts_of rm rid)"
proof (induction rs ev rm rule: server_step.induct)
  case (3 rs sock pid m uuid rnd now rm)
  then show ?case
    using hosts_of_handleJoinRoom[of rs sock pid _ rm rid]
    by (simp add: handleMessage_def hosts_of_handleCreateRoom_other)
next
  case (4 rs pid rm)
  then show ?case using hosts_of_removePlayer[of pid rm rid]
    by (simp add: on_close_def split_beta Let_def split: option.splits)
qed (simp_all add: hosts_of_cleanupOldRooms)

subsection \<open>The three outcomes of \<open>removePlayer\<close>\<close>

lemma removePlayer_not_mapped:
  "Map_get (playerRooms rm) pid = None \<Longrightarrow> removePlayer pid rm = (None, rm)"
  by (simp add: removePlayer_def)

lemma removePlayer_last:
  assumes "Map_get (playerRooms rm) pid = Some rid" "rid \<noteq> []"
    "Map_get (rooms rm) rid = Some room" "Map_delete pid (players room) = []"
  shows "removePlayer pid rm =
           (None, rm\<lparr>rooms := Map_delete rid (rooms rm),
                      playerRooms := Map_delete pid (playerRooms rm)\<rparr>)"
  using assms by (simp add: removePlayer_def)

lemma removePlayer_survivor:
  assumes "Map_get (playerRooms rm) pid = Some rid" "rid \<noteq> []"
    "Map_get (rooms rm) rid = Some room" "Map_delete pid (players room) \<noteq> []"
  shows "removePlayer pid rm =
           (Some (room\<lparr>players := Map_delete pid (players room), status := waiting\<rparr>),
            rm\<lparr>rooms := Map_set rid (room\<lparr>players := Map_delete pid (players room), status := waiting\<rparr>) (rooms rm),
               playerRooms := Map_delete pid (playerRooms rm)\<rparr>)"
  using assms by (simp add: removePlayer_def Let_def)

subsection \<open>Invariants of every room, in general\<close>

lemma rooms_ok_addPlayerToRoom:
  assumes ok: "rooms_ok P rm"
    and step: "\<And>room. P room \<Longrightarrow>
      P (room\<lparr>players := Map_set (player_id p) p (players room)\<rparr>) \<and>
      P (room\<lparr>players := Map_set (player_id p) p (players room), status := full\<rparr>)"
  shows "rooms_ok P (snd (addPlayerToRoom rid p rm))"
proof (cases "Map_get (rooms rm) rid")
  case None
  then show ?thesis using ok by (simp add: addPlayerToRoom_def)
next
  case (Some room)
  have "P room" using ok Some by (rule rooms_ok_get)
  then have "P (room\<lparr>players := Map_set (player_id p) p (players room)\<rparr>)"
    and "P (room\<lparr>players := Map_set (player_id p) p (players room), status := full\<rparr>)"
    using step by blast+
  then show ?thesis using ok Some
    by (simp add: addPlayerToRoom_def Let_def rooms_ok_set)
qed

lemma rooms_ok_server_step:
  assumes ok: "rooms_ok P rm"
    and new: "\<And>uuid rnd now pid sock.
      P \<lparr>room_id = uuid, code = roomCode_of rnd,
         players = [(pid, \<lparr>player_id = pid, socket = sock, isHost = True\<rparr>)],
         status = waiting, createdAt = now\<rparr>"
    and add: "\<And>room pid sock. P room \<Longrightarrow>
      P (room\<lparr>players := Map_set pid \<lparr>player_id = pid, socket = sock, isHost = False\<rparr> (players room)\<rparr>) \<and>
      P (room\<lparr>players := Map_set pid \<lparr>player_id = pid, socket = sock, isHost = False\<rparr> (players room),
               status := full\<rparr>)"
    and del: "\<And>room pid. P room \<Longrightarrow> P (room\<lparr>players := Map_delete pid (players room), status := waiting\<rparr>)"
  shows "rooms_ok P (snd (server_step rs ev rm))"
  using ok
proof (induction rs ev rm rule: server_step.induct)
  case (3 rs sock pid m uuid rnd now rm)
  have c: "rooms_ok P (snd (handleCreateRoom rs sock pid uuid rnd now rm))"
    using rooms_ok_set[OF 3 new, of uuid uuid rnd pid sock now]
    by (simp add: rooms_ok_def handleCreateRoom_rooms)
  have j: "rooms_ok P (snd (handleJoinRoom rs sock pid c rm))" for c
    using rooms_ok_addPlayerToRoom[of P rm "\<lparr>player_id = pid, socket = sock, isHost = False\<rparr>"] 3 add
    by (simp add: handleJoinRoom_def split_beta Let_def split: option.splits)
  show ?case using 3 by (simp add: handleMessage_def c j)
next
  case (4 rs pid rm)
  have "rooms_ok P (snd (removePlayer pid rm))"
    using 4 by (rule rooms_ok_removePlayer) (rule del)
  then show ?case
    by (simp add: on_close_def split_beta Let_def split: option.splits)
qed (simp_all add: rooms_ok_cleanupOldRooms)

lemma rooms_ok_run:
  assumes "rooms_ok P rm"
    and "\<And>uuid rnd now pid sock.
      P \<lparr>room_id = uuid, code = roomCode_of rnd,
         players = [(pid, \<lparr>player_id = pid, socket = sock, isHost = True\<rparr>)],
         status = waiting, createdAt = now\<rparr>"
    and "\<And>room pid sock. P room \<Longrightarrow>
      P (room\<lparr>players := Map_set pid \<lparr>player_id = pid, socket = sock, isHost = False\<rparr> (players room)\<rparr>) \<and>
      P (room\<lparr>players := Map_set pid \<lparr>player_id = pid, socket = sock, isHost = False\<rparr> (players room),
               status := full\<rparr>)"
    and "\<And>room pid. P room \<Longrightarrow> P (room\<lparr>players := Map_delete pid (players room), status := waiting\<rparr>)"
  shows "rooms_ok P (run evs rm)"
  using assms(1)
proof (induction evs arbitrary: rm)
  case Nil
  then show ?case by simp
next
  case (Cons e evs)
  have "rooms_ok P (snd (server_step (fst e) (snd e) rm))"
    using Cons.prems assms(2-4) by (rule rooms_ok_server_step)
  then show ?case using Cons.IH by simp
qed

lemma keys_ok_run: "rooms_ok keys_ok (run evs new_RoomManager)"
proof (rule rooms_ok_run)
  show "rooms_ok keys_ok new_RoomManager"
    by (simp add: rooms_ok_def new_RoomManager_def)
next
  fix room pid sock assume "keys_ok room"
  then show "keys_ok (room\<lparr>players := Map_set pid \<lparr>player_id = pid, socket = sock, isHost = False\<rparr> (players room)\<rparr>) \<and>
      keys_ok (room\<lparr>players := Map_set pid \<lparr>player_id = pid, socket = sock, isHost = False\<rparr> (players room),
               status := full\<rparr>)"
    using set_update_subset[of pid "\<lparr>player_id = pid, socket = sock, isHost = False\<rparr>" "players room"]
    by (auto simp: keys_ok_def list_all_iff)
next
  fix room pid assume "keys_ok room"
  then show "keys_ok (room\<lparr>players := Map_delete pid (players room), status := waiting\<rparr>)"
    using set_delete_subset[of pid "players room"]
    by (auto simp: keys_ok_def list_all_iff)
qed (simp add: keys_ok_def)

subsection \<open>The hosts of a room when a player is removed\<close>

lemma hosts_delete_filter:
  "list_all (\<lambda>e. player_id (snd e) = fst e) ps \<Longrightarrow>
   map player_id (filter isHost (Map_values (Map_delete k ps))) =
     filter (\<lambda>h. h \<noteq> k) (map player_id (filter isHost (Map_values ps)))"
  by (induction ps) auto

lemma hosts_removed:
  "keys_ok r \<Longrightarrow> hosts (r\<lparr>players := Map_delete k (players r), status := st\<rparr>) = filter (\<lambda>h. h \<noteq> k) (hosts r)"
  by (simp add: hosts_def keys_ok_def hosts_delete_filter)

lemma hosts_of_removePlayer_mapped:
  assumes keys: "rooms_ok keys_ok rm"
    and m: "Map_get (playerRooms rm) pid = Some rid" "rid \<noteq> []"
  shows "hosts_of (snd (removePlayer pid rm)) rid = filter (\<lambda>h. h \<noteq> pid) (hosts_of rm rid)"
proof (cases "Map_get (rooms rm) rid")
  case None
  then show ?thesis using m by (simp add: removePlayer_def hosts_of_def getRoom_def)
next
  case (Some room)
  have k: "keys_ok room" using keys Some by (rule rooms_ok_get)
  note h = hosts_removed[OF k, where k = pid and st = waiting]
  show ?thesis
  proof (cases "Map_delete pid (players room) = []")
    case True
    then have "hosts (room\<lparr>players := Map_delete pid (players room), status := waiting\<rparr>) = []"
      by (simp add: hosts_def)
    then have "filter (\<lambda>h. h \<noteq> pid) (hosts room) = []" using h by simp
    then show ?thesis using m Some True
      by (simp add: removePlayer_last hosts_of_def getRoom_def AList.delete_conv')
  next
    case False
    then show ?thesis using m Some h
      by (simp add: removePlayer_survivor hosts_of_def getRoom_def AList.update_conv')
  qed
qed

lemma hosts_of_on_close:
  "hosts_of (snd (on_close rs pid rm)) rid = hosts_of (snd (removePlayer pid rm)) rid"
  by (simp add: on_close_def split_beta Let_def split: option.splits)

lemma hosts_of_run:
  "list_all (\<lambda>e. \<not> creates rid (snd e)) evs \<Longrightarrow>
   set (hosts_of (run evs rm) rid) \<subseteq> set (hosts_of rm rid)"
proof (induction evs arbitrary: rm)
  case Nil
  then show ?case by simp
next
  case (Cons e evs)
  have "set (hosts_of (run evs (snd (server_step (fst e) (snd e) rm))) rid)
          \<subseteq> set (hosts_of (snd (server_step (fst e) (snd e) rm)) rid)"
    using Cons by simp
  moreover have "set (hosts_of (snd (server_step (fst e) (snd e) rm)) rid) \<subseteq> set (hosts_of rm rid)"
    using Cons.prems hosts_of_server_step[of rid "snd e" "fst e" rm] by simp
  ultimately show ?case by simp
qed

lemma hosts_of_le_one: "length (hosts_of (run evs new_RoomManager) rid) \<le> 1"
proof (cases "getRoom (run evs new_RoomManager) rid")
  case None
  then show ?thesis by (simp add: hosts_of_def)
next
  case (Some r)
  have "rooms_ok host_count_ok new_RoomManager"
    by (simp add: rooms_ok_def new_RoomManager_def)
  then have "rooms_ok host_count_ok (run evs new_RoomManager)"
    by (rule host_count_run)
  then have "host_count_ok r"
    using Some rooms_ok_get[of host_count_ok "run evs new_RoomManager" rid r] by (simp add: getRoom_def)
  then show ?thesis using Some by (simp add: hosts_of_def host_count_ok_def)
qed

lemma filter_only_host: "length hs \<le> 1 \<Longrightarrow> h \<in> set hs \<Longrightarrow> filter (\<lambda>x. x \<noteq> h) hs = []"
  by (cases hs) auto

lemma host_departed:
  assumes "Map_get (playerRooms (run evs new_RoomManager)) pid = Some rid" "rid \<noteq> []"
    and "pid \<in> set (hosts_of (run evs new_RoomManager) rid)"
    and "list_all (\<lambda>e. \<not> creates rid (snd e)) evs'"
  shows "hosts_of (run evs' (snd (server_step rs (Close pid) (run evs new_RoomManager)))) rid = []"
proof -
  have "hosts_of (snd (server_step rs (Close pid) (run evs new_RoomManager))) rid =
        filter (\<lambda>h. h \<noteq> pid) (hosts_of (run evs new_RoomManager) rid)"
    using hosts_of_removePlayer_mapped[OF keys_ok_run assms(1,2)] by (simp add: hosts_of_on_close)
  then have "hosts_of (snd (server_step rs (Close pid) (run evs new_RoomManager))) rid = []"
    using filter_only_host[OF hosts_of_le_one assms(3)] by simp
  then show ?thesis
    using hosts_of_run[OF assms(4), of "snd (server_step rs (Close pid) (run evs new_RoomManager))"]
    by simp
qed

text \<open>
  Claim C6, as amended. In every reachable registry state each room has at most one
  player whose \<open>isHost\<close> flag is set. A \<open>create-room\<close> request makes the requester the
  only host of the new room. No other event makes anybody host of a room: whoever is
  host of room \<open>rid\<close> after an event, or after a sequence of events, none of which creates
  a room with the id \<open>rid\<close>, was its host before. When the connection of a player closes
  in a reachable state, the room that \<open>playerRooms\<close> maps the player to (under a non-empty
  id) keeps exactly its other hosts; so when the player was the host of that room, the
  room has no host from then on, whatever joins follow, as long as no room is created
  with its id.
\<close>

theorem at_most_one_host_never_replaced:
  "list_all (\<lambda>e. length (hosts (snd e)) \<le> 1) (rooms (run evs new_RoomManager)) \<and>
   (msg_type m = ''create-room'' \<longrightarrow>
      hosts_of (snd (server_step rs (Message sock pid (Some m) uuid rnd now) rm)) uuid = [pid]) \<and>
   (\<not> creates rid ev \<longrightarrow> set (hosts_of (snd (server_step rs ev rm)) rid) \<subseteq> set (hosts_of rm rid)) \<and>
   (list_all (\<lambda>e. \<not> creates rid (snd e)) evs' \<longrightarrow>
      set (hosts_of (run evs' rm) rid) \<subseteq> set (hosts_of rm rid)) \<and>
   (Map_get (playerRooms (run evs new_RoomManager)) leaver = Some rid \<and> rid \<noteq> [] \<longrightarrow>
      hosts_of (snd (server_step rs (Close leaver) (run evs new_RoomManager))) rid =
        filter (\<lambda>h. h \<noteq> leaver) (hosts_of (run evs new_RoomManager) rid)) \<and>
   (Map_get (playerRooms (run evs new_RoomManager)) leaver = Some rid \<and> rid \<noteq> [] \<and>
    leaver \<in> set (hosts_of (run evs new_RoomManager) rid) \<and>
    list_all (\<lambda>e. \<not> creates rid (snd e)) evs' \<longrightarrow>
      hosts_of (run evs' (snd (server_step rs (Close leaver) (run evs new_RoomManager)))) rid = [])"
proof (intro conjI)
  have "rooms_ok host_count_ok new_RoomManager"
    by (simp add: rooms_ok_def new_RoomManager_def)
  then have "rooms_ok host_count_ok (run evs new_RoomManager)"
    by (rule host_count_run)
  then show "list_all (\<lambda>e. length (hosts (snd e)) \<le> 1) (rooms (run evs new_RoomManager))"
    by (simp add: rooms_ok_def host_count_ok_def)
next
  show "msg_type m = ''create-room'' \<longrightarrow>
      hosts_of (snd (server_step rs (Message sock pid (Some m) uuid rnd now) rm)) uuid = [pid]"
    by (simp add: handleMessage_def hosts_of_handleCreateRoom_same)
next
  show "\<not> creates rid ev \<longrightarrow> set (hosts_of (snd (server_step rs ev rm)) rid) \<subseteq> set (hosts_of rm rid)"
    using hosts_of_server_step by blast
next
  show "list_all (\<lambda>e. \<not> creates rid (snd e)) evs' \<longrightarrow>
      set (hosts_of (run evs' rm) rid) \<subseteq> set (hosts_of rm rid)"
    using hosts_of_run by blast
next
  show "Map_get (playerRooms (run evs new_RoomManager)) leaver = Some rid \<and> rid \<noteq> [] \<longrightarrow>
      hosts_of (snd (server_step rs (Close leaver) (run evs new_RoomManager))) rid =
        filter (\<lambda>h. h \<noteq> leaver) (hosts_of (run evs new_RoomManager) rid)"
    using hosts_of_removePlayer_mapped[OF keys_ok_run, of evs leaver rid]
    by (simp add: hosts_of_on_close)
next
  show "Map_get (playerRooms (run evs new_RoomManager)) leaver = Some rid \<and> rid \<noteq> [] \<and>
    leaver \<in> set (hosts_of (run evs new_RoomManager) rid) \<and>
    list_all (\<lambda>e. \<not> creates rid (snd e)) evs' \<longrightarrow>
      hosts_of (run evs' (snd (server_step rs (Close leaver) (run evs new_RoomManager)))) rid = []"
    using host_departed[of evs leaver rid evs' rs] by blast
qed

lemma host_left_state:
  "run host_left_events new_RoomManager =
     \<lparr>rooms = [(''r1'', \<lparr>room_id = ''r1'', code = ''AB12CD'',
         players = [(''Y'', \<lparr>player_id = ''Y'', socket = 2, isHost = False\<rparr>),
                    (''Z'', \<lparr>player_id = ''Z'', socket = 3, isHost = False\<rparr>)],
         status = full, createdAt = 1000\<rparr>)],
      playerRooms = [(''Y'', ''r1''), (''Z'', ''r1'')]\<rparr>"
  by code_simp

text \<open>
  Claim C6 as stated fails: X creates a room, Y joins, X leaves, Z joins. The room then
  holds Y and Z and neither is host.
\<close>

theorem exactly_one_host_counterexample:
  "\<not> list_all (\<lambda>e. length (hosts (snd e)) = 1) (rooms (run host_left_events new_RoomManager))"
  by (simp add: host_left_state hosts_def)

theorem at_most_one_host_never_replaced_witness:
  "\<not> creates ''r1'' (Close ''X'') \<and> msg_type create_msg = ''create-room'' \<and>
   list_all (\<lambda>e. \<not> creates ''r1'' (snd e)) (drop 4 host_left_events) \<and>
   run (drop 4 host_left_events) (run paired_events new_RoomManager) = run host_left_events new_RoomManager \<and>
   Map_get (playerRooms (run paired_events new_RoomManager)) ''X'' = Some ''r1'' \<and>
   hosts_of (run paired_events new_RoomManager) ''r1'' = [''X''] \<and>
   list_all (\<lambda>e. length (hosts (snd e)) \<le> 1) (rooms (run paired_events new_RoomManager)) \<and>
   hosts_of (snd (server_step all_open (Message 4 ''W'' (Some create_msg) ''r4'' ''0.zzzzzz'' 4000)
                    (run paired_events new_RoomManager))) ''r4'' = [''W''] \<and>
   set (hosts_of (snd (server_step all_open (Close ''X'') (run paired_events new_RoomManager))) ''r1'')
     \<subseteq> set (hosts_of (run paired_events new_RoomManager) ''r1'') \<and>
   set (hosts_of (run host_left_events new_RoomManager) ''r1'') \<subseteq> {''X''} \<and>
   hosts_of (snd (server_step all_open (Close ''X'') (run paired_events new_RoomManager))) ''r1'' = [] \<and>
   hosts_of (run (drop 5 host_left_events)
              (snd (server_step all_open (Close ''X'') (run paired_events new_RoomManager)))) ''r1'' = [] \<and>
   map_option (map fst \<circ> players) (getRoom (run host_left_events new_RoomManager) ''r1'') = Some [''Y'', ''Z'']"
proof -
  have h: "\<not> creates ''r1'' (Close ''X'')" "msg_type create_msg = ''create-room''"
    "list_all (\<lambda>e. \<not> creates ''r1'' (snd e)) (drop 4 host_left_events)"
    "list_all (\<lambda>e. \<not> creates ''r1'' (snd e)) (drop 5 host_left_events)"
    by (simp_all add: create_msg_def message_def host_left_events_def paired_events_def join_msg_def)
  have split: "run (drop 4 host_left_events) (run paired_events new_RoomManager)
                 = run host_left_events new_RoomManager"
    by (simp add: host_left_events_def paired_events_def)
  have p: "Map_get (playerRooms (run paired_events new_RoomManager)) ''X'' = Some ''r1''"
    "hosts_of (run paired_events new_RoomManager) ''r1'' = [''X'']" "''r1'' \<noteq> []"
    "''X'' \<in> set (hosts_of (run paired_events new_RoomManager) ''r1'')"
    by (simp_all add: paired_state hosts_of_def getRoom_def hosts_def)
  have q: "map_option (map fst \<circ> players) (getRoom (run host_left_events new_RoomManager) ''r1'')
             = Some [''Y'', ''Z'']"
    by (simp add: host_left_state getRoom_def)
  note t1 = at_most_one_host_never_replaced[where evs = paired_events and rs = all_open and sock = 4
              and pid = "''W''" and m = create_msg and uuid = "''r4''" and rnd = "''0.zzzzzz''" and now = 4000
              and rm = "run paired_events new_RoomManager" and rid = "''r1''" and ev = "Close ''X''"
              and evs' = "drop 4 host_left_events" and leaver = "''X''"]
  note t2 = at_most_one_host_never_replaced[where evs = paired_events and rs = all_open and sock = 4
              and pid = "''W''" and m = create_msg and uuid = "''r4''" and rnd = "''0.zzzzzz''" and now = 4000
              and rm = "run paired_events new_RoomManager" and rid = "''r1''" and ev = "Close ''X''"
              and evs' = "drop 5 host_left_events" and leaver = "''X''"]
  have r1: "list_all (\<lambda>e. length (hosts (snd e)) \<le> 1) (rooms (run paired_events new_RoomManager))"
    using t1 by blast
  have r2: "hosts_of (snd (server_step all_open (Message 4 ''W'' (Some create_msg) ''r4'' ''0.zzzzzz'' 4000)
                    (run paired_events new_RoomManager))) ''r4'' = [''W'']"
    using t1 h(2) by blast
  have r3: "set (hosts_of (snd (server_step all_open (Close ''X'') (run paired_events new_RoomManager))) ''r1'')
     \<subseteq> set (hosts_of (run paired_events new_RoomManager) ''r1'')"
    using t1 h(1) by blast
  have r4: "set (hosts_of (run host_left_events new_RoomManager) ''r1'') \<subseteq> {''X''}"
    using t1 h(3) p(2) unfolding split by simp
  have r5: "hosts_of (snd (server_step all_open (Close ''X'') (run paired_events new_RoomManager))) ''r1'' = []"
    using t1 p by simp
  have r6: "hosts_of (run (drop 5 host_left_events)
              (snd (server_step all_open (Close ''X'') (run paired_events new_RoomManager)))) ''r1'' = []"
    using t2 p h(4) by blast
  show ?thesis
    using h(1,2,3) split p(1,2) q r1 r2 r3 r4 r5 r6 by blast
qed

text \<open>
  The room has to be the one that \<open>playerRooms\<close> maps the player to. A player who creates
  a second room is mapped to the second only; when the connection closes the first room
  is left as it is, with the player still entered as its host.
\<close>

lemma host_of_earlier_room_stays:
  "Map_get (playerRooms (run (take 3 two_rooms_events) new_RoomManager)) ''X'' = Some ''r2'' \<and>
   hosts_of (run (take 3 two_rooms_events) new_RoomManager) ''r1'' = [''X''] \<and>
   hosts_of (run two_rooms_events new_RoomManager) ''r1'' = [''X''] \<and>
   hosts_of (run two_rooms_events new_RoomManager) ''r2'' = []"
  by code_simp

subsection \<open>Removing a player\<close>

lemma find_delete_key:
  "find P (Map_values (Map_delete k al)) = Some r \<Longrightarrow> \<exists>j. j \<noteq> k \<and> (j, r) \<in> set al"
  by (induction al) (auto split: if_splits)

lemma find_delete_none:
  "\<forall>e\<in>set al. fst e \<noteq> k \<longrightarrow> \<not> P (snd e) \<Longrightarrow> find P (Map_values (Map_delete k al)) = None"
  by (induction al) auto

text \<open>
  Claim C7, as amended. \<open>removePlayer\<close> of a player without an entry in \<open>playerRooms\<close>
  returns none and leaves the registry unchanged. Otherwise the player is removed from
  its room and from \<open>playerRooms\<close>. If the room is then empty it is deleted and none is
  returned: a lookup by its id returns none, a lookup by any code never returns a room
  stored under that id, and a lookup by the deleted room's code returns none when no
  other room carries the same code. If the room is not empty its status is reset to
  waiting and the surviving room is returned.
\<close>

theorem removePlayer_effect:
  "(Map_get (playerRooms rm) pid = None \<longrightarrow> removePlayer pid rm = (None, rm)) \<and>
   (Map_get (playerRooms rm) pid = Some rid \<and> rid \<noteq> [] \<and> Map_get (rooms rm) rid = Some room \<longrightarrow>
      Map_get (playerRooms (snd (removePlayer pid rm))) pid = None \<and>
      (Map_delete pid (players room) = [] \<longrightarrow>
         fst (removePlayer pid rm) = None \<and>
         getRoom (snd (removePlayer pid rm)) rid = None \<and>
         (\<forall>c r. getRoomByCode (snd (removePlayer pid rm)) c = Some r \<longrightarrow>
                 (\<exists>k. k \<noteq> rid \<and> (k, r) \<in> set (rooms rm))) \<and>
         ((\<forall>e\<in>set (rooms rm). fst e \<noteq> rid \<longrightarrow> code (snd e) \<noteq> code room) \<longrightarrow>
            getRoomByCode (snd (removePlayer pid rm)) (code room) = None)) \<and>
      (Map_delete pid (players room) \<noteq> [] \<longrightarrow>
         fst (removePlayer pid rm) =
           Some (room\<lparr>players := Map_delete pid (players room), status := waiting\<rparr>) \<and>
         getRoom (snd (removePlayer pid rm)) rid = fst (removePlayer pid rm) \<and>
         Map_get (players (the (fst (removePlayer pid rm)))) pid = None))"
proof (intro conjI impI)
  assume "Map_get (playerRooms rm) pid = None"
  then show "removePlayer pid rm = (None, rm)" by (rule removePlayer_not_mapped)
next
  assume h: "Map_get (playerRooms rm) pid = Some rid \<and> rid \<noteq> [] \<and> Map_get (rooms rm) rid = Some room"
  show "Map_get (playerRooms (snd (removePlayer pid rm))) pid = None"
    using h by (simp add: removePlayer_def Let_def AList.delete_conv')
next
  assume h: "Map_get (playerRooms rm) pid = Some rid \<and> rid \<noteq> [] \<and> Map_get (rooms rm) rid = Some room"
    and e: "Map_delete pid (players room) = []"
  have eq: "removePlayer pid rm =
           (None, rm\<lparr>rooms := Map_delete rid (rooms rm),
                      playerRooms := Map_delete pid (playerRooms rm)\<rparr>)"
    using h e by (simp add: removePlayer_last)
  show "fst (removePlayer pid rm) = None" by (simp add: eq)
  show "getRoom (snd (removePlayer pid rm)) rid = None"
    by (simp add: eq getRoom_def AList.delete_conv')
  show "\<forall>c r. getRoomByCode (snd (removePlayer pid rm)) c = Some r \<longrightarrow>
                 (\<exists>k. k \<noteq> rid \<and> (k, r) \<in> set (rooms rm))"
    using find_delete_key[of _ rid "rooms rm"] by (simp add: eq getRoomByCode_def)
  show "getRoomByCode (snd (removePlayer pid rm)) (code room) = None"
    if "\<forall>e\<in>set (rooms rm). fst e \<noteq> rid \<longrightarrow> code (snd e) \<noteq> code room"
    using that find_delete_none[of "rooms rm" rid "\<lambda>r. code r = code room"]
    by (simp add: eq getRoomByCode_def)
next
  assume h: "Map_get (playerRooms rm) pid = Some rid \<and> rid \<noteq> [] \<and> Map_get (rooms rm) rid = Some room"
    and e: "Map_delete pid (players room) \<noteq> []"
  note eq = removePlayer_survivor[of rm pid rid room]
  show "fst (removePlayer pid rm) =
           Some (room\<lparr>players := Map_delete pid (players room), status := waiting\<rparr>)"
    using h e by (simp add: eq)
  show "getRoom (snd (removePlayer pid rm)) rid = fst (removePlayer pid rm)"
    using h e by (simp add: eq getRoom_def AList.update_conv')
  show "Map_get (players (the (fst (removePlayer pid rm)))) pid = None"
    using h e by (simp add: eq AList.delete_conv')
qed

lemma twin_code_state:
  "run twin_code_events new_RoomManager =
     \<lparr>rooms = [(''r1'', \<lparr>room_id = ''r1'', code = ''AB12CD'',
                  players = [(''X'', \<lparr>player_id = ''X'', socket = 1, isHost = True\<rparr>)],
                  status = waiting, createdAt = 1000\<rparr>),
               (''r2'', \<lparr>room_id = ''r2'', code = ''AB12CD'',
                  players = [(''Y'', \<lparr>player_id = ''Y'', socket = 2, isHost = True\<rparr>)],
                  status = waiting, createdAt = 2000\<rparr>)],
      playerRooms = [(''X'', ''r1''), (''Y'', ''r2'')]\<rparr>"
  by code_simp

text \<open>
  Claim C7 as stated fails where two rooms carry the same code: X is the only occupant
  of room r1 (code AB12CD); removing X deletes r1, yet the lookup by that code still
  returns a room, the one Y created.
\<close>

theorem removePlayer_lookup_by_code_counterexample:
  "map_option code (getPlayerRoom (run twin_code_events new_RoomManager) ''X'') = Some ''AB12CD'' \<and>
   map_option (map fst \<circ> players) (getPlayerRoom (run twin_code_events new_RoomManager) ''X'') = Some [''X''] \<and>
   getRoom (snd (removePlayer ''X'' (run twin_code_events new_RoomManager))) ''r1'' = None \<and>
   getRoomByCode (snd (removePlayer ''X'' (run twin_code_events new_RoomManager))) ''AB12CD'' \<noteq> None"
  by (simp add: twin_code_state getPlayerRoom_def removePlayer_def getRoom_def getRoomByCode_def)

theorem removePlayer_effect_witness:
  "Map_get (playerRooms (run paired_events new_RoomManager)) ''Y'' = Some ''r1'' \<and>
   Map_get (playerRooms (run paired_events new_RoomManager)) ''W'' = None \<and>
   removePlayer ''W'' (run paired_events new_RoomManager) = (None, run paired_events new_RoomManager) \<and>
   fst (removePlayer ''Y'' (run paired_events new_RoomManager)) =
     Some \<lparr>room_id = ''r1'', code = ''AB12CD'',
            players = [(''X'', \<lparr>player_id = ''X'', socket = 1, isHost = True\<rparr>)],
            status = waiting, createdAt = 1000\<rparr> \<and>
   Map_get (playerRooms (run twin_code_events new_RoomManager)) ''X'' = Some ''r1'' \<and>
   getRoom (snd (removePlayer ''X'' (run twin_code_events new_RoomManager))) ''r1'' = None"
proof -
  let ?room = "\<lparr>room_id = ''r1'', code = ''AB12CD'',
         players = [(''X'', \<lparr>player_id = ''X'', socket = 1, isHost = True\<rparr>),
                    (''Y'', \<lparr>player_id = ''Y'', socket = 2, isHost = False\<rparr>)],
         status = full, createdAt = 1000\<rparr>"
  let ?solo = "\<lparr>room_id = ''r1'', code = ''AB12CD'',
                  players = [(''X'', \<lparr>player_id = ''X'', socket = 1, isHost = True\<rparr>)],
                  status = waiting, createdAt = 1000\<rparr>"
  have a: "Map_get (playerRooms (run paired_events new_RoomManager)) ''Y'' = Some ''r1'' \<and> ''r1'' \<noteq> [] \<and>
           Map_get (rooms (run paired_events new_RoomManager)) ''r1'' = Some ?room"
    by (simp add: paired_state)
  have b: "Map_delete ''Y'' (players ?room) \<noteq> []" by simp
  have c: "Map_get (playerRooms (run paired_events new_RoomManager)) ''W'' = None"
    by (simp add: paired_state)
  have d: "Map_get (playerRooms (run twin_code_events new_RoomManager)) ''X'' = Some ''r1'' \<and> ''r1'' \<noteq> [] \<and>
           Map_get (rooms (run twin_code_events new_RoomManager)) ''r1'' = Some ?solo"
    by (simp add: twin_code_state)
  have e: "Map_delete ''X'' (players ?solo) = []" by simp
  show ?thesis
    using a b c d e
      removePlayer_effect[of "run paired_events new_RoomManager" "''Y''" "''r1''" ?room]
      removePlayer_effect[of "run paired_events new_RoomManager" "''W''" "''r1''" ?room]
      removePlayer_effect[of "run twin_code_events new_RoomManager" "''X''" "''r1''" ?solo]
    by simp
qed

subsection \<open>Room status\<close>

lemma length_update_new:
  "Map_get al k = None \<Longrightarrow> length (Map_set k v al) = Suc (length al)"
  by (induction al) (auto split: if_splits)

lemma status_run:
  "rooms_ok (\<lambda>r. status r = waiting \<or> status r = full) (run evs new_RoomManager)"
proof (rule rooms_ok_run)
  show "rooms_ok (\<lambda>r. status r = waiting \<or> status r = full) new_RoomManager"
    by (simp add: rooms_ok_def new_RoomManager_def)
qed simp_all

lemma not_disconnected_ops:
  assumes "rooms_ok (\<lambda>r. status r \<noteq> disconnected) rm"
  shows "rooms_ok (\<lambda>r. status r \<noteq> disconnected) (snd (createRoom uuid rnd now rm))"
    and "rooms_ok (\<lambda>r. status r \<noteq> disconnected) (snd (addPlayerToRoom rid p rm))"
    and "rooms_ok (\<lambda>r. status r \<noteq> disconnected) (snd (removePlayer pid rm))"
    and "rooms_ok (\<lambda>r. status r \<noteq> disconnected) (cleanupOldRooms age now rm)"
proof -
  show "rooms_ok (\<lambda>r. status r \<noteq> disconnected) (snd (createRoom uuid rnd now rm))"
    using assms by (simp add: createRoom_def Let_def rooms_ok_set)
  show "rooms_ok (\<lambda>r. status r \<noteq> disconnected) (snd (addPlayerToRoom rid p rm))"
    using assms by (rule rooms_ok_addPlayerToRoom) simp
  show "rooms_ok (\<lambda>r. status r \<noteq> disconnected) (snd (removePlayer pid rm))"
    using assms by (rule rooms_ok_removePlayer) simp
  show "rooms_ok (\<lambda>r. status r \<noteq> disconnected) (cleanupOldRooms age now rm)"
    using assms by (rule rooms_ok_cleanupOldRooms)
qed

text \<open>
  Claim C8, as amended. Adding a player to a room that holds exactly one other player
  succeeds and sets the room's status to full. Removing a player from the room that
  \<open>playerRooms\<close> maps the player to (under a non-empty id) sets the room's status to
  waiting when at least one occupant remains. The status disconnected is never assigned:
  in every reachable registry state the status of every room is waiting or full, and
  none of the registry's operations yields a room with the status disconnected from a
  registry that has none.
\<close>

theorem status_full_on_second_join_waiting_on_departure:
  "(Map_get (rooms rm) rid = Some room \<and> length (players room) = 1 \<and>
    Map_get (players room) (player_id p) = None \<longrightarrow>
      fst (addPlayerToRoom rid p rm) \<and>
      map_option status (getRoom (snd (addPlayerToRoom rid p rm)) rid) = Some full \<and>
      map_option (length \<circ> players) (getRoom (snd (addPlayerToRoom rid p rm)) rid) = Some 2) \<and>
   (Map_get (playerRooms rm) pid = Some rid \<and> rid \<noteq> [] \<and> Map_get (rooms rm) rid = Some room \<and>
    Map_delete pid (players room) \<noteq> [] \<longrightarrow>
      map_option status (fst (removePlayer pid rm)) = Some waiting \<and>
      map_option status (getRoom (snd (removePlayer pid rm)) rid) = Some waiting) \<and>
   list_all (\<lambda>e. status (snd e) = waiting \<or> status (snd e) = full) (rooms (run evs new_RoomManager)) \<and>
   (list_all (\<lambda>e. status (snd e) \<noteq> disconnected) (rooms rm) \<longrightarrow>
      list_all (\<lambda>e. status (snd e) \<noteq> disconnected) (rooms (snd (createRoom uuid rnd now rm))) \<and>
      list_all (\<lambda>e. status (snd e) \<noteq> disconnected) (rooms (snd (addPlayerToRoom rid p rm))) \<and>
      list_all (\<lambda>e. status (snd e) \<noteq> disconnected) (rooms (snd (removePlayer pid rm))) \<and>
      list_all (\<lambda>e. status (snd e) \<noteq> disconnected) (rooms (cleanupOldRooms age now rm)))"
proof (intro conjI impI)
  assume h: "Map_get (rooms rm) rid = Some room \<and> length (players room) = 1 \<and>
    Map_get (players room) (player_id p) = None"
  then have len: "length (Map_set (player_id p) p (players room)) = 2"
    by (simp add: length_update_new)
  show "fst (addPlayerToRoom rid p rm)"
    using h by (simp add: addPlayerToRoom_def Let_def)
  show "map_option status (getRoom (snd (addPlayerToRoom rid p rm)) rid) = Some full"
    using h len by (simp add: addPlayerToRoom_def Let_def getRoom_def AList.update_conv')
  show "map_option (length \<circ> players) (getRoom (snd (addPlayerToRoom rid p rm)) rid) = Some 2"
    using h len by (simp add: addPlayerToRoom_def Let_def getRoom_def AList.update_conv')
next
  assume h: "Map_get (playerRooms rm) pid = Some rid \<and> rid \<noteq> [] \<and> Map_get (rooms rm) rid = Some room \<and>
    Map_delete pid (players room) \<noteq> []"
  note eq = removePlayer_survivor[of rm pid rid room]
  show "map_option status (fst (removePlayer pid rm)) = Some waiting"
    using h by (simp add: eq)
  show "map_option status (getRoom (snd (removePlayer pid rm)) rid) = Some waiting"
    using h by (simp add: eq getRoom_def AList.update_conv')
next
  show "list_all (\<lambda>e. status (snd e) = waiting \<or> status (snd e) = full) (rooms (run evs new_RoomManager))"
    using status_run[of evs] by (simp add: rooms_ok_def)
next
  assume "list_all (\<lambda>e. status (snd e) \<noteq> disconnected) (rooms rm)"
  then have ok: "rooms_ok (\<lambda>r. status r \<noteq> disconnected) rm"
    by (simp add: rooms_ok_def)
  show "list_all (\<lambda>e. status (snd e) \<noteq> disconnected) (rooms (snd (createRoom uuid rnd now rm)))"
    using not_disconnected_ops(1)[OF ok] by (simp add: rooms_ok_def)
  show "list_all (\<lambda>e. status (snd e) \<noteq> disconnected) (rooms (snd (addPlayerToRoom rid p rm)))"
    using not_disconnected_ops(2)[OF ok] by (simp add: rooms_ok_def)
  show "list_all (\<lambda>e. status (snd e) \<noteq> disconnected) (rooms (snd (removePlayer pid rm)))"
    using not_disconnected_ops(3)[OF ok] by (simp add: rooms_ok_def)
  show "list_all (\<lambda>e. status (snd e) \<noteq> disconnected) (rooms (cleanupOldRooms age now rm))"
    using not_disconnected_ops(4)[OF ok] by (simp add: rooms_ok_def)
qed

text \<open>
  Claim C8 as stated fails in its second half: X and Y share a full room; when Y leaves,
  one occupant remains and the status is waiting, not disconnected.
\<close>

theorem status_disconnected_counterexample:
  "map_option status (getPlayerRoom (run paired_events new_RoomManager) ''Y'') = Some full \<and>
   map_option (length \<circ> players) (fst (removePlayer ''Y'' (run paired_events new_RoomManager))) = Some 1 \<and>
   map_option status (fst (removePlayer ''Y'' (run paired_events new_RoomManager))) \<noteq> Some disconnected \<and>
   map_option status (getRoom (snd (removePlayer ''Y'' (run paired_events new_RoomManager))) ''r1'')
     \<noteq> Some disconnected"
  by (simp add: paired_state getPlayerRoom_def removePlayer_def getRoom_def Let_def)

lemma solo_state:
  "run (take 2 paired_events) new_RoomManager =
     \<lparr>rooms = [(''r1'', \<lparr>room_id = ''r1'', code = ''AB12CD'',
                  players = [(''X'', \<lparr>player_id = ''X'', socket = 1, isHost = True\<rparr>)],
                  status = waiting, createdAt = 1000\<rparr>)],
      playerRooms = [(''X'', ''r1'')]\<rparr>"
  by code_simp

theorem status_full_on_second_join_waiting_on_departure_witness:
  "map_option status (getRoom (run (take 2 paired_events) new_RoomManager) ''r1'') = Some waiting \<and>
   map_option status (getRoom (snd (addPlayerToRoom ''r1'' \<lparr>player_id = ''Y'', socket = 2, isHost = False\<rparr>
        (run (take 2 paired_events) new_RoomManager))) ''r1'') = Some full \<and>
   Map_get (playerRooms (run paired_events new_RoomManager)) ''Y'' = Some ''r1'' \<and>
   map_option status (fst (removePlayer ''Y'' (run paired_events new_RoomManager))) = Some waiting \<and>
   map (status \<circ> snd) (rooms (run paired_events new_RoomManager)) = [full] \<and>
   list_all (\<lambda>e. status (snd e) \<noteq> disconnected) (rooms (run paired_events new_RoomManager)) \<and>
   list_all (\<lambda>e. status (snd e) \<noteq> disconnected)
     (rooms (snd (removePlayer ''Y'' (run paired_events new_RoomManager)))) \<and>
   rooms (snd (removePlayer ''Y'' (run paired_events new_RoomManager))) \<noteq> []"
proof -
  let ?solo = "\<lparr>room_id = ''r1'', code = ''AB12CD'',
                  players = [(''X'', \<lparr>player_id = ''X'', socket = 1, isHost = True\<rparr>)],
                  status = waiting, createdAt = 1000\<rparr>"
  let ?room = "\<lparr>room_id = ''r1'', code = ''AB12CD'',
         players = [(''X'', \<lparr>player_id = ''X'', socket = 1, isHost = True\<rparr>),
                    (''Y'', \<lparr>player_id = ''Y'', socket = 2, isHost = False\<rparr>)],
         status = full, createdAt = 1000\<rparr>"
  let ?p = "\<lparr>player_id = ''Y'', socket = 2, isHost = False\<rparr>"
  have a: "Map_get (rooms (run (take 2 paired_events) new_RoomManager)) ''r1'' = Some ?solo \<and>
           length (players ?solo) = 1 \<and> Map_get (players ?solo) (player_id ?p) = None"
    by (simp add: solo_state)
  have b: "Map_get (playerRooms (run paired_events new_RoomManager)) ''Y'' = Some ''r1'' \<and> ''r1'' \<noteq> [] \<and>
           Map_get (rooms (run paired_events new_RoomManager)) ''r1'' = Some ?room \<and>
           Map_delete ''Y'' (players ?room) \<noteq> []"
    by (simp add: paired_state)
  have c: "map_option status (getRoom (run (take 2 paired_events) new_RoomManager) ''r1'') = Some waiting"
    by (simp add: solo_state getRoom_def)
  have d: "list_all (\<lambda>e. status (snd e) \<noteq> disconnected) (rooms (run paired_events new_RoomManager))"
    "map (status \<circ> snd) (rooms (run paired_events new_RoomManager)) = [full]"
    by (simp_all add: paired_state)
  have e: "rooms (snd (removePlayer ''Y'' (run paired_events new_RoomManager))) \<noteq> []"
    by (simp add: paired_state removePlayer_def Let_def)
  note t1 = status_full_on_second_join_waiting_on_departure[where rm = "run (take 2 paired_events) new_RoomManager"
      and rid = "''r1''" and room = ?solo and p = ?p and pid = "''none''" and evs = paired_events
      and uuid = "''r9''" and rnd = "''0.5''" and now = 5000 and age = 3600000]
  note t2 = status_full_on_second_join_waiting_on_departure[where rm = "run paired_events new_RoomManager"
      and rid = "''r1''" and room = ?room and p = ?p and pid = "''Y''" and evs = paired_events
      and uuid = "''r9''" and rnd = "''0.5''" and now = 5000 and age = 3600000]
  have r1: "map_option status (getRoom (snd (addPlayerToRoom ''r1'' ?p
        (run (take 2 paired_events) new_RoomManager))) ''r1'') = Some full"
    using a t1 by blast
  have r2: "map_option status (fst (removePlayer ''Y'' (run paired_events new_RoomManager))) = Some waiting"
    using b t2 by blast
  have r3: "list_all (\<lambda>e. status (snd e) \<noteq> disconnected)
     (rooms (snd (removePlayer ''Y'' (run paired_events new_RoomManager))))"
    using d(1) t2 by blast
  show ?thesis
    using b c d e r1 r2 r3 by blast
qed

subsection \<open>Room codes\<close>

lemma char_toUpperCase_alnum: "is_base36_digit c \<Longrightarrow> is_upper_alnum (char_toUpperCase c)"
  by (auto simp: is_base36_digit_def is_upper_alnum_def char_toUpperCase_def Let_def)

text \<open>
  When the text of the random number has at least six digits after the point, the code
  has six characters, each an uppercase letter or a digit.
\<close>

lemma roomCode_six_when_long:
  assumes "random_toString36 s" "length s \<ge> 8"
  shows "length (roomCode_of s) = 6 \<and> list_all is_upper_alnum (roomCode_of s)"
proof -
  have sub: "substring s 2 8 = take 6 (drop 2 s)"
    using assms(2) by (simp add: substring_def Let_def min_def max_def)
  have "s \<noteq> ''0''" using assms(2) by auto
  then have digs: "list_all is_base36_digit (drop 2 s)"
    using assms(1) by (simp add: random_toString36_def)
  then have "list_all is_base36_digit (take 6 (drop 2 s))"
    by (auto simp: list_all_iff dest: in_set_takeD)
  then have "list_all is_upper_alnum (roomCode_of s)"
    by (auto simp: roomCode_of_def toUpperCase_def sub list_all_iff char_toUpperCase_alnum)
  moreover have "length (roomCode_of s) = 6"
    using assms(2) by (simp add: roomCode_of_def toUpperCase_def sub)
  ultimately show ?thesis by simp
qed

text \<open>
  Claim C9 holds of the documented intent (the source comments the line as generating
  a 6-character code) but not of the code: when the random number is 0.5 its base-36
  text is \<open>0.i\<close>, and the room code is the single character \<open>I\<close>.
\<close>

theorem room_code_of_one_half:
  "random_toString36 ''0.i'' \<and>
   code (fst (createRoom ''r1'' ''0.i'' 1000 new_RoomManager)) = ''I'' \<and>
   length (code (fst (createRoom ''r1'' ''0.i'' 1000 new_RoomManager))) \<noteq> 6"
  by code_simp
section \<open>Properties of the signaling client\<close>

text \<open>The definitions to unfold when a step of the client is computed.\<close>

lemmas client_defs =
  connect_def onopen_def onclose_def onmessage_def client_handleMessage_def attemptReconnect_def
  resolve_def reject_def emit_def log_def listeners_for_def on_def clearTimeout_def
  clearTimeout_handle_def ws_close_def reconnected_def connectionTimeout_fired_def
  reconnectTimeout_fired_def maxReconnectAttempts_def

subsection \<open>Two concrete client states\<close>

lemma connected_state:
  "connected_client =
     \<lparr>this_socket = Some 1, this_eventListeners = [(''reconnecting'', [7])],
      this_playerId = Some ''p1'', this_roomId = None, this_roomCode = None,
      this_reconnectAttempts = 0, this_reconnectTimeout = None,
      ws_readyState = (\<lambda>k. CLOSED)(1 := OPEN), promise = (\<lambda>k. Pending)(1 := Resolved),
      call_url = (\<lambda>k. [])(1 := ''ws://relay''), call_retry = (\<lambda>k. False)(1 := False),
      timers = [], next_handle = 2,
      trace = [WsNew 1 ''ws://relay'', SetTimeout (ConnectionTimeout 1) 10000,
               Emit ''connected'' established_msg, Emit ''connection-established'' established_msg]\<rparr>"
  by (simp add: connected_client_def new_SignalingClient_def any_url_def established_msg_def
        message_def client_defs Let_def)

lemma connecting_state:
  "connecting_client =
     \<lparr>this_socket = Some 1, this_eventListeners = [],
      this_playerId = None, this_roomId = None, this_roomCode = None,
      this_reconnectAttempts = 0, this_reconnectTimeout = None,
      ws_readyState = (\<lambda>k. CLOSED)(1 := CONNECTING), promise = (\<lambda>k. Pending)(1 := Pending),
      call_url = (\<lambda>k. [])(1 := ''ws://relay''), call_retry = (\<lambda>k. False)(1 := False),
      timers = [ConnectionTimeout 1], next_handle = 2,
      trace = [WsNew 1 ''ws://relay'', SetTimeout (ConnectionTimeout 1) 10000]\<rparr>"
  by (simp add: connecting_client_def new_SignalingClient_def any_url_def client_defs Let_def)

subsection \<open>Listener dispatch\<close>

lemma count_list_Call: "count_list (map (\<lambda>cb. Call cb m) cbs) (Call c m) = count_list cbs c"
  by (induction cbs) auto

lemma count_list_append_sum: "count_list (xs @ ys) x = count_list xs x + count_list ys x"
  by (induction xs) auto

lemma dispatched_emit:
  assumes "dispatched s0 m c s n"
  shows "dispatched s0 m c (emit ev m s) (n + count_list (listeners_for s0 ev) c)"
  using assms
  by (simp add: dispatched_def emit_def log_def listeners_for_def count_list_append_sum count_list_Call)

lemma dispatched_emit_if:
  assumes "dispatched s0 m c s n"
  shows "dispatched s0 m c (if b then emit ev m s else s)
           (n + (if b then count_list (listeners_for s0 ev) c else 0))"
  using assms dispatched_emit[OF assms, of ev] by simp

lemma dispatched_start:
  "dispatched s0 m c
     (let s1 = (if truthy_str (playerId m) then s0\<lparr>this_playerId := playerId m\<rparr> else s0);
          s2 = (if truthy_str (roomId m) then s1\<lparr>this_roomId := roomId m\<rparr> else s1)
      in (if truthy_str (roomCode m) then s2\<lparr>this_roomCode := roomCode m\<rparr> else s2)) 0"
  by (simp add: dispatched_def Let_def)

lemma handleMessage_dispatched:
  "dispatched s m c (client_handleMessage m s)
     ((if msg_type m = ''connection-established'' then count_list (listeners_for s ''connected'') c else 0) +
      (if msg_type m = ''room-created'' then count_list (listeners_for s ''room-created'') c else 0) +
      (if msg_type m = ''room-joined'' then count_list (listeners_for s ''room-joined'') c else 0) +
      (if msg_type m = ''player-joined'' then count_list (listeners_for s ''player-joined'') c else 0) +
      (if msg_type m = ''player-disconnected'' then count_list (listeners_for s ''player-disconnected'') c else 0) +
      (if msg_type m = ''error'' then count_list (listeners_for s ''error'') c else 0) +
      count_list (listeners_for s (msg_type m)) c)"
proof -
  note d0 = dispatched_start[of s m c]
  note d1 = dispatched_emit_if[OF d0, of "msg_type m = ''connection-established''" "''connected''"]
  note d2 = dispatched_emit_if[OF d1, of "msg_type m = ''room-created''" "''room-created''"]
  note d3 = dispatched_emit_if[OF d2, of "msg_type m = ''room-joined''" "''room-joined''"]
  note d4 = dispatched_emit_if[OF d3, of "msg_type m = ''player-joined''" "''player-joined''"]
  note d5 = dispatched_emit_if[OF d4, of "msg_type m = ''player-disconnected''" "''player-disconnected''"]
  note d6 = dispatched_emit_if[OF d5, of "msg_type m = ''error''" "''error''"]
  note d7 = dispatched_emit[OF d6, of "msg_type m"]
  show ?thesis
    unfolding client_handleMessage_def Let_def
    using d7 unfolding Let_def by (simp only: add_0)
qed

text \<open>
  Claim C10. While \<open>handleMessage\<close> processes a message of type \<open>T\<close>, a listener is
  invoked twice for each of its registrations for \<open>T\<close> when \<open>T\<close> is one of room-created,
  room-joined, player-joined, player-disconnected and error, and once for each of its
  registrations for \<open>T\<close> otherwise. (The only further invocations are those owed to
  registrations for the separate event name connected, which is emitted for a
  connection-established message.)
\<close>

theorem listener_invocations_per_message:
  "count_list (new_actions s (client_handleMessage m s)) (Call c m) =
     (if msg_type m \<in> set twice_types then 2 else 1) * count_list (listeners_for s (msg_type m)) c +
     (if msg_type m = ''connection-established'' then count_list (listeners_for s ''connected'') c else 0)"
proof -
  have "count_list (new_actions s (client_handleMessage m s)) (Call c m) =
      (if msg_type m = ''connection-established'' then count_list (listeners_for s ''connected'') c else 0) +
      (if msg_type m = ''room-created'' then count_list (listeners_for s ''room-created'') c else 0) +
      (if msg_type m = ''room-joined'' then count_list (listeners_for s ''room-joined'') c else 0) +
      (if msg_type m = ''player-joined'' then count_list (listeners_for s ''player-joined'') c else 0) +
      (if msg_type m = ''player-disconnected'' then count_list (listeners_for s ''player-disconnected'') c else 0) +
      (if msg_type m = ''error'' then count_list (listeners_for s ''error'') c else 0) +
      count_list (listeners_for s (msg_type m)) c"
    using handleMessage_dispatched[of s m c] by (simp add: dispatched_def new_actions_def)
  then show ?thesis
    by (auto simp: twice_types_def)
qed

theorem listener_invocations_per_message_witness:
  "count_list (new_actions (on ''error'' 3 (on ''offer'' 3 new_SignalingClient))
       (client_handleMessage (message ''error'') (on ''error'' 3 (on ''offer'' 3 new_SignalingClient))))
     (Call 3 (message ''error'')) = 2 \<and>
   count_list (new_actions (on ''error'' 3 (on ''offer'' 3 new_SignalingClient))
       (client_handleMessage (message ''offer'') (on ''error'' 3 (on ''offer'' 3 new_SignalingClient))))
     (Call 3 (message ''offer'')) = 1"
proof -
  let ?s = "on ''error'' 3 (on ''offer'' 3 new_SignalingClient)"
  have l: "listeners_for ?s ''error'' = [3]" "listeners_for ?s ''offer'' = [3]"
    by (simp_all add: on_def listeners_for_def new_SignalingClient_def)
  show ?thesis
    using listener_invocations_per_message[of ?s "message ''error''" 3]
          listener_invocations_per_message[of ?s "message ''offer''" 3]
    by (simp add: l message_def twice_types_def)
qed

subsection \<open>The promise of a \<open>connect\<close> call\<close>

lemma promise_log [simp]: "promise (log as s) = promise s"
  by (simp add: log_def)

lemma promise_emit [simp]: "promise (emit ev m s) = promise s"
  by (simp add: emit_def)

lemma promise_send [simp]: "promise (send m s) = promise s"
  by (simp add: send_def split: option.splits)

lemma promise_joinRoom [simp]: "promise (joinRoom c s) = promise s"
  by (simp add: joinRoom_def)

lemma promise_reconnected [simp]: "promise (reconnected s) = promise s"
  by (simp add: reconnected_def Let_def)

lemma promise_ws_close [simp]: "promise (ws_close k s) = promise s"
  by (simp add: ws_close_def)

lemma promise_clearTimeout [simp]: "promise (clearTimeout t s) = promise s"
  by (simp add: clearTimeout_def)

lemma promise_clearTimeout_handle [simp]: "promise (clearTimeout_handle h s) = promise s"
  by (simp add: clearTimeout_handle_def)

lemma promise_resolve:
  "promise (resolve k s) = (if promise s k = Pending then (promise s)(k := Resolved) else promise s)"
  by (simp add: resolve_def Let_def)

lemma promise_reject:
  "promise (reject k e s) = (if promise s k = Pending then (promise s)(k := Rejected e) else promise s)"
  by (simp add: reject_def)

lemma promise_attemptReconnect [simp]: "promise (attemptReconnect u s) = promise s"
  by (simp add: attemptReconnect_def Let_def)

lemma promise_handleMessage [simp]: "promise (client_handleMessage m s) = promise s"
  by (simp add: client_handleMessage_def Let_def)

lemma unresolved_reject: "promise (reject k e s) j = Resolved \<Longrightarrow> promise s j = Resolved"
  by (simp add: promise_reject split: if_splits)

lemma unresolved_connect: "promise (connect ok u r s) j = Resolved \<Longrightarrow> promise s j = Resolved"
  by (auto simp: connect_def Let_def promise_reject split: option.splits if_splits)

lemma unresolved_disconnect: "promise (disconnect s) j = Resolved \<Longrightarrow> promise s j = Resolved"
  by (auto simp: disconnect_def Let_def split: option.splits if_splits)

lemma unresolved_onclose: "promise (onclose k wc cd rsn s) j = Resolved \<Longrightarrow> promise s j = Resolved"
  by (auto simp: onclose_def Let_def promise_reject split: option.splits if_splits)

lemma unresolved_onopen:
  "promise (onopen k s) j = Resolved \<Longrightarrow> j \<noteq> k \<Longrightarrow> promise s j = Resolved"
  by (auto simp: onopen_def promise_resolve split: option.splits if_splits)

lemma unresolved_timeout:
  "promise (connectionTimeout_fired k s) j = Resolved \<Longrightarrow> promise s j = Resolved"
  by (auto simp: connectionTimeout_fired_def promise_reject split: option.splits if_splits)

lemma resolved_only_by_open:
  assumes "promise s k \<noteq> Resolved" "promise (client_step ok ev s) k = Resolved"
  shows "ev = WsOpen k"
proof (cases ev)
  case (ApiConnect u)
  then show ?thesis using assms by (auto dest!: unresolved_connect)
next
  case ApiDisconnect
  then show ?thesis using assms by (auto dest!: unresolved_disconnect)
next
  case (WsOpen j)
  show ?thesis
  proof (cases "ws_readyState s j = CONNECTING")
    case True
    have "j = k"
    proof (rule ccontr)
      assume "j \<noteq> k"
      then have "promise (s\<lparr>ws_readyState := (ws_readyState s)(j := OPEN)\<rparr>) k = Resolved"
        using assms WsOpen True
          unresolved_onopen[of j "s\<lparr>ws_readyState := (ws_readyState s)(j := OPEN)\<rparr>" k]
        by simp
      then show False using assms by simp
    qed
    then show ?thesis using WsOpen by simp
  next
    case False
    then show ?thesis using assms WsOpen by simp
  qed
next
  case (WsClosed j wc cd rsn)
  then show ?thesis using assms
    by (auto split: if_splits dest!: unresolved_onclose)
next
  case (TimerFired t)
  then show ?thesis using assms
    by (auto simp: reconnectTimeout_fired_def clearTimeout_def split: if_splits timer.splits
             dest!: unresolved_timeout unresolved_connect)
qed (use assms in \<open>auto simp: on_def off_def client_createRoom_def sendOffer_def sendAnswer_def
        sendIceCandidate_def onmessage_def split: option.splits if_splits\<close>)

subsection \<open>Reconnecting with backoff\<close>

lemma filter_retry_Call [simp]: "filter retry_action (map (\<lambda>cb. Call cb m) cbs) = []"
  by (induction cbs) auto

lemma client_run_append: "client_run ok (xs @ ys) s = client_run ok ys (client_run ok xs s)"
  by (induction xs arbitrary: s) auto

lemma first_close:
  assumes "truthy_str (this_playerId s)" "this_socket s = Some k" "ws_readyState s k \<noteq> CLOSED"
    "this_reconnectAttempts s = 0" "timers s = []" "call_url s k = u"
  shows "awaiting_retry u (next_handle s) 0 (client_step ok (WsClosed k wc cd rsn) s) \<and>
         filter retry_action (trace (client_step ok (WsClosed k wc cd rsn) s)) =
           filter retry_action (trace s) @
             [Emit ''reconnecting'' (reconnecting_msg 1 5 1000),
              SetTimeout (ReconnectTimeout (next_handle s) u) 1000]"
  using assms
  by (simp add: awaiting_retry_def reconnecting_msg_def client_defs Let_def)

lemma retry_cycle:
  assumes "awaiting_retry u h j s" "ok u" "Suc j < 5"
  shows "awaiting_retry u (Suc (Suc h)) (Suc j)
           (client_run ok [TimerFired (ReconnectTimeout h u), WsClosed (Suc h) False 1006 []] s) \<and>
         filter retry_action
           (trace (client_run ok [TimerFired (ReconnectTimeout h u), WsClosed (Suc h) False 1006 []] s)) =
           filter retry_action (trace s) @
             [WsNew (Suc h) u,
              Emit ''reconnecting'' (reconnecting_msg (Suc (Suc j)) 5 (2 ^ Suc j * 1000)),
              SetTimeout (ReconnectTimeout (Suc (Suc h)) u) (2 ^ Suc j * 1000)]"
  using assms
  by (auto simp: awaiting_retry_def reconnecting_msg_def client_defs Let_def split: option.splits)

lemma last_cycle:
  assumes "awaiting_retry u h 4 s" "ok u"
  shows "timers (client_run ok [TimerFired (ReconnectTimeout h u), WsClosed (Suc h) False 1006 []] s) = [] \<and>
         this_reconnectAttempts
           (client_run ok [TimerFired (ReconnectTimeout h u), WsClosed (Suc h) False 1006 []] s) = 5 \<and>
         filter retry_action
           (trace (client_run ok [TimerFired (ReconnectTimeout h u), WsClosed (Suc h) False 1006 []] s)) =
           filter retry_action (trace s) @
             [WsNew (Suc h) u,
              Emit ''max-reconnect-attempts'' (message ''max-reconnect-attempts'')]"
  using assms
  by (auto simp: awaiting_retry_def client_defs Let_def split: option.splits)

lemma Suc_numerals:
  "Suc (Suc 0) = 2" "Suc (Suc (Suc 0)) = 3" "Suc (Suc (Suc (Suc 0))) = 4"
  "Suc (Suc (Suc (Suc (Suc 0)))) = 5"
  by simp_all

lemma retry_rounds_5:
  "concat (map (retry_round n u) [1..<6]) =
     [Emit ''reconnecting'' (reconnecting_msg 1 5 1000),
      SetTimeout (ReconnectTimeout n u) 1000, WsNew (Suc n) u,
      Emit ''reconnecting'' (reconnecting_msg 2 5 2000),
      SetTimeout (ReconnectTimeout (Suc (Suc n)) u) 2000, WsNew (Suc (Suc (Suc n))) u,
      Emit ''reconnecting'' (reconnecting_msg 3 5 4000),
      SetTimeout (ReconnectTimeout (Suc (Suc (Suc (Suc n)))) u) 4000,
      WsNew (Suc (Suc (Suc (Suc (Suc n))))) u,
      Emit ''reconnecting'' (reconnecting_msg 4 5 8000),
      SetTimeout (ReconnectTimeout (Suc (Suc (Suc (Suc (Suc (Suc n)))))) u) 8000,
      WsNew (Suc (Suc (Suc (Suc (Suc (Suc (Suc n))))))) u,
      Emit ''reconnecting'' (reconnecting_msg 5 5 16000),
      SetTimeout (ReconnectTimeout (Suc (Suc (Suc (Suc (Suc (Suc (Suc (Suc n)))))))) u) 16000,
      WsNew (Suc (Suc (Suc (Suc (Suc (Suc (Suc (Suc (Suc n))))))))) u]"
  by (simp add: retry_round_def upt_conv_Cons Suc_numerals)

text \<open>
  Claim C4. The client knows its player id (an earlier connection succeeded), its
  current socket \<open>k\<close> closes, and each of the five retries that follow fails: the retry
  timer fires, \<open>connect\<close> opens a new socket, and that socket closes without having
  opened. Then the events emitted, retry timers set and sockets created are, in order:
  for \<open>i\<close> from 1 to 5 the event reconnecting with attempt \<open>i\<close>, maxAttempts 5 and delay
  \<open>2 ^ (i - 1) * 1000\<close> ms, the retry timer with that delay, and the new socket of the
  retry; then, after the fifth failure, the event max-reconnect-attempts, once. At the
  end no timer is pending, so no further retry is scheduled.
\<close>

theorem reconnect_backoff_schedule:
  assumes "truthy_str (this_playerId s)" "this_socket s = Some k" "ws_readyState s k \<noteq> CLOSED"
    "this_reconnectAttempts s = 0" "timers s = []" "call_url s k = u" "ok u"
  shows "filter retry_action
           (trace (client_run ok (WsClosed k wc cd rsn # retry_events (next_handle s) u 5) s)) =
           filter retry_action (trace s) @ concat (map (retry_round (next_handle s) u) [1..<6]) @
             [Emit ''max-reconnect-attempts'' (message ''max-reconnect-attempts'')] \<and>
         timers (client_run ok (WsClosed k wc cd rsn # retry_events (next_handle s) u 5) s) = [] \<and>
         this_reconnectAttempts
           (client_run ok (WsClosed k wc cd rsn # retry_events (next_handle s) u 5) s) = 5"
proof -
  define n where "n = next_handle s"
  define cyc where "cyc = (\<lambda>h t. client_run ok [TimerFired (ReconnectTimeout h u), WsClosed (Suc h) False 1006 []] t)"
  define s1 where "s1 = client_step ok (WsClosed k wc cd rsn) s"
  define s2 where "s2 = cyc n s1"
  define s3 where "s3 = cyc (Suc (Suc n)) s2"
  define s4 where "s4 = cyc (Suc (Suc (Suc (Suc n)))) s3"
  define s5 where "s5 = cyc (Suc (Suc (Suc (Suc (Suc (Suc n)))))) s4"
  define s6 where "s6 = cyc (Suc (Suc (Suc (Suc (Suc (Suc (Suc (Suc n)))))))) s5"
  have five: "(5::nat) = Suc (Suc (Suc (Suc (Suc 0))))" by simp
  have fin: "client_run ok (WsClosed k wc cd rsn # retry_events (next_handle s) u 5) s = s6"
    unfolding s6_def s5_def s4_def s3_def s2_def s1_def cyc_def n_def five
    by (simp only: retry_events.simps client_run.simps)
  have a1: "awaiting_retry u n 0 s1"
    and t1: "filter retry_action (trace s1) = filter retry_action (trace s) @
             [Emit ''reconnecting'' (reconnecting_msg 1 5 1000), SetTimeout (ReconnectTimeout n u) 1000]"
    using first_close[OF assms(1-6), of ok wc cd rsn] by (simp_all add: s1_def n_def)
  have c2: "awaiting_retry u (Suc (Suc n)) (Suc 0) s2 \<and> filter retry_action (trace s2) =
      filter retry_action (trace s1) @ [WsNew (Suc n) u,
        Emit ''reconnecting'' (reconnecting_msg (Suc (Suc 0)) 5 (2 ^ Suc 0 * 1000)),
        SetTimeout (ReconnectTimeout (Suc (Suc n)) u) (2 ^ Suc 0 * 1000)]"
    unfolding s2_def cyc_def by (rule retry_cycle[where ok = ok, OF a1 assms(7)]) simp
  have c3: "awaiting_retry u (Suc (Suc (Suc (Suc n)))) (Suc (Suc 0)) s3 \<and> filter retry_action (trace s3) =
      filter retry_action (trace s2) @ [WsNew (Suc (Suc (Suc n))) u,
        Emit ''reconnecting'' (reconnecting_msg (Suc (Suc (Suc 0))) 5 (2 ^ Suc (Suc 0) * 1000)),
        SetTimeout (ReconnectTimeout (Suc (Suc (Suc (Suc n)))) u) (2 ^ Suc (Suc 0) * 1000)]"
    unfolding s3_def cyc_def by (rule retry_cycle[where ok = ok, OF conjunct1[OF c2] assms(7)]) simp
  have c4: "awaiting_retry u (Suc (Suc (Suc (Suc (Suc (Suc n)))))) (Suc (Suc (Suc 0))) s4 \<and>
      filter retry_action (trace s4) =
      filter retry_action (trace s3) @ [WsNew (Suc (Suc (Suc (Suc (Suc n))))) u,
        Emit ''reconnecting'' (reconnecting_msg (Suc (Suc (Suc (Suc 0)))) 5 (2 ^ Suc (Suc (Suc 0)) * 1000)),
        SetTimeout (ReconnectTimeout (Suc (Suc (Suc (Suc (Suc (Suc n)))))) u) (2 ^ Suc (Suc (Suc 0)) * 1000)]"
    unfolding s4_def cyc_def by (rule retry_cycle[where ok = ok, OF conjunct1[OF c3] assms(7)]) simp
  have c5: "awaiting_retry u (Suc (Suc (Suc (Suc (Suc (Suc (Suc (Suc n)))))))) (Suc (Suc (Suc (Suc 0)))) s5 \<and>
      filter retry_action (trace s5) =
      filter retry_action (trace s4) @ [WsNew (Suc (Suc (Suc (Suc (Suc (Suc (Suc n))))))) u,
        Emit ''reconnecting'' (reconnecting_msg (Suc (Suc (Suc (Suc (Suc 0))))) 5 (2 ^ Suc (Suc (Suc (Suc 0))) * 1000)),
        SetTimeout (ReconnectTimeout (Suc (Suc (Suc (Suc (Suc (Suc (Suc (Suc n)))))))) u) (2 ^ Suc (Suc (Suc (Suc 0))) * 1000)]"
    unfolding s5_def cyc_def by (rule retry_cycle[where ok = ok, OF conjunct1[OF c4] assms(7)]) simp
  have a5: "awaiting_retry u (Suc (Suc (Suc (Suc (Suc (Suc (Suc (Suc n)))))))) 4 s5"
    using conjunct1[OF c5] by (simp add: eval_nat_numeral)
  have c6: "timers s6 = [] \<and> this_reconnectAttempts s6 = 5 \<and> filter retry_action (trace s6) =
      filter retry_action (trace s5) @ [WsNew (Suc (Suc (Suc (Suc (Suc (Suc (Suc (Suc (Suc n))))))))) u,
        Emit ''max-reconnect-attempts'' (message ''max-reconnect-attempts'')]"
    unfolding s6_def cyc_def by (rule last_cycle[where ok = ok, OF a5 assms(7)])
  have tr: "filter retry_action (trace s6) =
      filter retry_action (trace s) @
     [Emit ''reconnecting'' (reconnecting_msg 1 5 1000),
      SetTimeout (ReconnectTimeout n u) 1000, WsNew (Suc n) u,
      Emit ''reconnecting'' (reconnecting_msg 2 5 2000),
      SetTimeout (ReconnectTimeout (Suc (Suc n)) u) 2000, WsNew (Suc (Suc (Suc n))) u,
      Emit ''reconnecting'' (reconnecting_msg 3 5 4000),
      SetTimeout (ReconnectTimeout (Suc (Suc (Suc (Suc n)))) u) 4000,
      WsNew (Suc (Suc (Suc (Suc (Suc n))))) u,
      Emit ''reconnecting'' (reconnecting_msg 4 5 8000),
      SetTimeout (ReconnectTimeout (Suc (Suc (Suc (Suc (Suc (Suc n)))))) u) 8000,
      WsNew (Suc (Suc (Suc (Suc (Suc (Suc (Suc n))))))) u,
      Emit ''reconnecting'' (reconnecting_msg 5 5 16000),
      SetTimeout (ReconnectTimeout (Suc (Suc (Suc (Suc (Suc (Suc (Suc (Suc n)))))))) u) 16000,
      WsNew (Suc (Suc (Suc (Suc (Suc (Suc (Suc (Suc (Suc n))))))))) u] @
        [Emit ''max-reconnect-attempts'' (message ''max-reconnect-attempts'')]"
    using t1 c2 c3 c4 c5 c6 by (simp add: Suc_numerals)
  show ?thesis
    unfolding fin retry_rounds_5
    using tr c6 by (simp add: n_def)
qed

theorem reconnect_backoff_schedule_witness:
  "truthy_str (this_playerId connected_client) \<and> this_socket connected_client = Some 1 \<and>
   ws_readyState connected_client 1 \<noteq> CLOSED \<and> this_reconnectAttempts connected_client = 0 \<and>
   timers connected_client = [] \<and> call_url connected_client 1 = ''ws://relay'' \<and>
   any_url ''ws://relay'' \<and> next_handle connected_client = 2 \<and>
   filter retry_action
     (trace (client_run any_url (WsClosed 1 False 1006 [] # retry_events 2 ''ws://relay'' 5) connected_client)) =
     filter retry_action (trace connected_client) @ concat (map (retry_round 2 ''ws://relay'') [1..<6]) @
       [Emit ''max-reconnect-attempts'' (message ''max-reconnect-attempts'')] \<and>
   timers (client_run any_url (WsClosed 1 False 1006 [] # retry_events 2 ''ws://relay'' 5) connected_client) = []"
proof -
  have h: "truthy_str (this_playerId connected_client)" "this_socket connected_client = Some 1"
    "ws_readyState connected_client 1 \<noteq> CLOSED" "this_reconnectAttempts connected_client = 0"
    "timers connected_client = []" "call_url connected_client 1 = ''ws://relay''"
    "any_url ''ws://relay''"
    by (simp_all add: connected_state any_url_def)
  have n: "next_handle connected_client = 2"
    by (simp add: connected_state)
  show ?thesis
    using h n reconnect_backoff_schedule[where ok = any_url and wc = False and cd = 1006 and rsn = "[]", OF h]
    by simp
qed
subsection \<open>A connecting socket is the client's current socket\<close>

lemma fields_log [simp]:
  "ws_readyState (log as s) = ws_readyState s" "this_socket (log as s) = this_socket s"
  by (simp_all add: log_def)

lemma fields_emit [simp]:
  "ws_readyState (emit ev m s) = ws_readyState s" "this_socket (emit ev m s) = this_socket s"
  by (simp_all add: emit_def)

lemma fields_send [simp]:
  "ws_readyState (send m s) = ws_readyState s" "this_socket (send m s) = this_socket s"
  by (simp_all add: send_def split: option.splits)

lemma fields_reconnected [simp]:
  "ws_readyState (reconnected s) = ws_readyState s" "this_socket (reconnected s) = this_socket s"
  by (simp_all add: reconnected_def joinRoom_def Let_def)

lemma fields_clearTimeout [simp]:
  "ws_readyState (clearTimeout t s) = ws_readyState s" "this_socket (clearTimeout t s) = this_socket s"
  by (simp_all add: clearTimeout_def)

lemma fields_clearTimeout_handle [simp]:
  "ws_readyState (clearTimeout_handle h s) = ws_readyState s"
  "this_socket (clearTimeout_handle h s) = this_socket s"
  by (simp_all add: clearTimeout_handle_def)

lemma fields_reject [simp]:
  "ws_readyState (reject k e s) = ws_readyState s" "this_socket (reject k e s) = this_socket s"
  by (simp_all add: reject_def)

lemma fields_resolve [simp]:
  "ws_readyState (resolve k s) = ws_readyState s" "this_socket (resolve k s) = this_socket s"
  by (simp_all add: resolve_def Let_def)

lemma fields_attemptReconnect [simp]:
  "ws_readyState (attemptReconnect u s) = ws_readyState s"
  "this_socket (attemptReconnect u s) = this_socket s"
  by (simp_all add: attemptReconnect_def Let_def)

lemma fields_handleMessage [simp]:
  "ws_readyState (client_handleMessage m s) = ws_readyState s"
  "this_socket (client_handleMessage m s) = this_socket s"
  by (simp_all add: client_handleMessage_def Let_def)

lemma fields_ws_close [simp]:
  "ws_readyState (ws_close k s) = (ws_readyState s)(k := (if ws_readyState s k = CLOSED then CLOSED else CLOSING))"
  "this_socket (ws_close k s) = this_socket s"
  by (simp_all add: ws_close_def)

lemma held_connect:
  assumes "\<And>j. ws_readyState s j = CONNECTING \<Longrightarrow> this_socket s = Some j \<and> promise s j = Pending"
    and "ws_readyState (connect ok u r s) k = CONNECTING"
  shows "this_socket (connect ok u r s) = Some k \<and> promise (connect ok u r s) k = Pending"
  using assms(2) assms(1)[of k]
  by (auto simp: connect_def Let_def promise_reject split: option.splits if_splits)

lemma held_disconnect:
  assumes "\<And>j. ws_readyState s j = CONNECTING \<Longrightarrow> this_socket s = Some j \<and> promise s j = Pending"
    and "ws_readyState (disconnect s) k = CONNECTING"
  shows "this_socket (disconnect s) = Some k \<and> promise (disconnect s) k = Pending"
  using assms(2) assms(1)[of k]
  by (auto simp: disconnect_def Let_def split: option.splits if_splits)

lemma held_onopen:
  assumes "\<And>j. ws_readyState s j = CONNECTING \<Longrightarrow> this_socket s = Some j \<and> promise s j = Pending"
    and "ws_readyState s i = CONNECTING"
    and "ws_readyState (onopen i (s\<lparr>ws_readyState := (ws_readyState s)(i := OPEN)\<rparr>)) k = CONNECTING"
  shows "False"
  using assms(3) assms(1)[of k] assms(1)[of i] assms(2)
  by (auto simp: onopen_def split: option.splits if_splits)

lemma held_onclose:
  assumes "\<And>j. ws_readyState s j = CONNECTING \<Longrightarrow> this_socket s = Some j \<and> promise s j = Pending"
    and "ws_readyState (onclose i wc cd rsn (s\<lparr>ws_readyState := (ws_readyState s)(i := CLOSED)\<rparr>)) k = CONNECTING"
  shows "this_socket (onclose i wc cd rsn (s\<lparr>ws_readyState := (ws_readyState s)(i := CLOSED)\<rparr>)) = Some k \<and>
         promise (onclose i wc cd rsn (s\<lparr>ws_readyState := (ws_readyState s)(i := CLOSED)\<rparr>)) k = Pending"
  using assms(2) assms(1)[of k]
  by (auto simp: onclose_def Let_def promise_reject split: option.splits if_splits)

lemma held_timeout:
  assumes "\<And>j. ws_readyState s j = CONNECTING \<Longrightarrow> this_socket s = Some j \<and> promise s j = Pending"
    and "ws_readyState (connectionTimeout_fired i (clearTimeout t s)) k = CONNECTING"
  shows "this_socket (connectionTimeout_fired i (clearTimeout t s)) = Some k \<and>
         promise (connectionTimeout_fired i (clearTimeout t s)) k = Pending"
  using assms(2) assms(1)[of k]
  by (auto simp: connectionTimeout_fired_def promise_reject split: option.splits if_splits)

lemma held_step:
  assumes inv: "\<And>j. ws_readyState s j = CONNECTING \<Longrightarrow> this_socket s = Some j \<and> promise s j = Pending"
    and c: "ws_readyState (client_step ok ev s) k = CONNECTING"
  shows "this_socket (client_step ok ev s) = Some k \<and> promise (client_step ok ev s) k = Pending"
proof (cases ev)
  case (ApiConnect u)
  then show ?thesis using held_connect[of s ok u False k] inv c by simp
next
  case ApiDisconnect
  then show ?thesis using held_disconnect[of s k] inv c by simp
next
  case (WsOpen i)
  show ?thesis
  proof (cases "ws_readyState s i = CONNECTING")
    case True
    then have False using held_onopen[of s i k] inv c WsOpen by simp
    then show ?thesis ..
  next
    case False
    then show ?thesis using inv[of k] c WsOpen by simp
  qed
next
  case (WsClosed i wc cd rsn)
  show ?thesis
  proof (cases "ws_readyState s i = CLOSED")
    case True
    then show ?thesis using inv[of k] c WsClosed by simp
  next
    case False
    then show ?thesis using held_onclose[of s i wc cd rsn k] inv c WsClosed by simp
  qed
next
  case (TimerFired t)
  show ?thesis
  proof (cases "t \<in> set (timers s)")
    case False
    then show ?thesis using inv[of k] c TimerFired by simp
  next
    case True
    show ?thesis
    proof (cases t)
      case (ConnectionTimeout i)
      then show ?thesis using held_timeout[of s i t k] inv c TimerFired True by simp
    next
      case (ReconnectTimeout h u)
      let ?s = "(clearTimeout t s)\<lparr>this_reconnectAttempts := Suc (this_reconnectAttempts (clearTimeout t s))\<rparr>"
      have "\<And>j. ws_readyState ?s j = CONNECTING \<Longrightarrow> this_socket ?s = Some j \<and> promise ?s j = Pending"
        using inv by simp
      then show ?thesis
        using held_connect[of ?s ok u True k] c TimerFired True ReconnectTimeout
        by (simp add: reconnectTimeout_fired_def)
    qed
  qed
qed (use inv[of k] c in \<open>auto simp: on_def off_def client_createRoom_def joinRoom_def sendOffer_def
        sendAnswer_def sendIceCandidate_def onmessage_def split: option.splits if_splits\<close>)

lemma held_run:
  assumes "\<And>j. ws_readyState s j = CONNECTING \<Longrightarrow> this_socket s = Some j \<and> promise s j = Pending"
  shows "ws_readyState (client_run ok evs s) k = CONNECTING \<Longrightarrow>
         this_socket (client_run ok evs s) = Some k \<and> promise (client_run ok evs s) k = Pending"
  using assms
proof (induction evs arbitrary: s)
  case Nil
  then show ?case by simp
next
  case (Cons ev evs)
  have "\<And>j. ws_readyState (client_step ok ev s) j = CONNECTING \<Longrightarrow>
          this_socket (client_step ok ev s) = Some j \<and> promise (client_step ok ev s) j = Pending"
    using held_step[of s ok ev] Cons.prems(2) by blast
  then show ?case using Cons.IH[of "client_step ok ev s"] Cons.prems(1) by simp
qed

lemma held_reachable:
  "ws_readyState (client_run ok evs new_SignalingClient) k = CONNECTING \<Longrightarrow>
   this_socket (client_run ok evs new_SignalingClient) = Some k \<and>
   promise (client_run ok evs new_SignalingClient) k = Pending"
  by (rule held_run) (simp_all add: new_SignalingClient_def)

subsection \<open>What \<open>connect\<close> sets up\<close>

lemma connect_ok:
  assumes "ok u"
  shows "promise (connect ok u r s) (next_handle s) = Pending \<and>
         this_socket (connect ok u r s) = Some (next_handle s) \<and>
         ws_readyState (connect ok u r s) (next_handle s) = CONNECTING \<and>
         ConnectionTimeout (next_handle s) \<in> set (timers (connect ok u r s)) \<and>
         last (trace (connect ok u r s)) = SetTimeout (ConnectionTimeout (next_handle s)) 10000"
  using assms by (simp add: connect_def Let_def log_def split: option.splits)

lemma connect_throws:
  assumes "\<not> ok u"
  shows "promise (connect ok u r s) (next_handle s) = Rejected ConstructorThrew"
  using assms by (simp add: connect_def Let_def promise_reject split: option.splits)

lemma no_socket_inert:
  assumes "this_socket s = None"
  shows "promise (client_step ok (WsOpen k) s) = promise s"
    "promise (client_step ok (WsClosed k wc cd rsn) s) = promise s"
    "promise (client_step ok (TimerFired (ConnectionTimeout k)) s) = promise s"
  using assms
  by (simp_all add: onopen_def onclose_def connectionTimeout_fired_def clearTimeout_def)

subsection \<open>A pending connection timer belongs to a pending promise\<close>

lemma timers_log [simp]: "timers (log as s) = timers s" "next_handle (log as s) = next_handle s"
  by (simp_all add: log_def)

lemma timers_emit [simp]: "timers (emit ev m s) = timers s" "next_handle (emit ev m s) = next_handle s"
  by (simp_all add: emit_def)

lemma timers_send [simp]: "timers (send m s) = timers s" "next_handle (send m s) = next_handle s"
  by (simp_all add: send_def split: option.splits)

lemma timers_reconnected [simp]:
  "timers (reconnected s) = timers s" "next_handle (reconnected s) = next_handle s"
  by (simp_all add: reconnected_def joinRoom_def Let_def)

lemma timers_reject [simp]: "timers (reject k e s) = timers s" "next_handle (reject k e s) = next_handle s"
  by (simp_all add: reject_def)

lemma timers_resolve [simp]: "timers (resolve k s) = timers s" "next_handle (resolve k s) = next_handle s"
  by (simp_all add: resolve_def Let_def)

lemma timers_ws_close [simp]: "timers (ws_close k s) = timers s" "next_handle (ws_close k s) = next_handle s"
  by (simp_all add: ws_close_def)

lemma timers_handleMessage [simp]:
  "timers (client_handleMessage m s) = timers s" "next_handle (client_handleMessage m s) = next_handle s"
  by (simp_all add: client_handleMessage_def Let_def)

lemma timers_clearTimeout [simp]:
  "timers (clearTimeout t s) = removeAll t (timers s)" "next_handle (clearTimeout t s) = next_handle s"
  by (simp_all add: clearTimeout_def)

lemma timers_attemptReconnect:
  "ConnectionTimeout j \<in> set (timers (attemptReconnect u s)) \<Longrightarrow> ConnectionTimeout j \<in> set (timers s)"
  "next_handle s \<le> next_handle (attemptReconnect u s)"
  by (auto simp: attemptReconnect_def Let_def clearTimeout_handle_def split: if_splits)

lemma armed_connect:
  assumes "\<And>j. ConnectionTimeout j \<in> set (timers s) \<Longrightarrow> promise s j = Pending \<and> j < next_handle s"
    and "ConnectionTimeout k \<in> set (timers (connect ok u r s))"
  shows "promise (connect ok u r s) k = Pending \<and> k < next_handle (connect ok u r s)"
  using assms(2) assms(1)[of k]
  by (auto simp: connect_def Let_def promise_reject split: option.splits if_splits)

lemma armed_disconnect:
  assumes "\<And>j. ConnectionTimeout j \<in> set (timers s) \<Longrightarrow> promise s j = Pending \<and> j < next_handle s"
    and "ConnectionTimeout k \<in> set (timers (disconnect s))"
  shows "promise (disconnect s) k = Pending \<and> k < next_handle (disconnect s)"
  using assms(2) assms(1)[of k]
  by (auto simp: disconnect_def Let_def clearTimeout_handle_def split: option.splits if_splits)

lemma armed_onopen:
  assumes "\<And>j. ConnectionTimeout j \<in> set (timers s) \<Longrightarrow> promise s j = Pending \<and> j < next_handle s"
    and "ConnectionTimeout k \<in> set (timers (onopen i s))"
  shows "promise (onopen i s) k = Pending \<and> k < next_handle (onopen i s)"
  using assms(2) assms(1)[of k]
  by (auto simp: onopen_def promise_resolve split: option.splits if_splits)

lemma armed_onclose:
  assumes "\<And>j. ConnectionTimeout j \<in> set (timers s) \<Longrightarrow> promise s j = Pending \<and> j < next_handle s"
    and "ConnectionTimeout k \<in> set (timers (onclose i wc cd rsn s))"
  shows "promise (onclose i wc cd rsn s) k = Pending \<and> k < next_handle (onclose i wc cd rsn s)"
proof (cases "this_socket s")
  case None
  then show ?thesis using assms(2) assms(1)[of k] by (simp add: onclose_def)
next
  case (Some cur)
  let ?s1 = "clearTimeout (ConnectionTimeout i) s"
  show ?thesis
  proof (cases "truthy_str (this_playerId s)")
    case True
    then have eq: "onclose i wc cd rsn s = attemptReconnect (call_url s i) ?s1"
      using Some by (simp add: onclose_def Let_def clearTimeout_def)
    have "ConnectionTimeout k \<in> set (timers ?s1)"
      using assms(2) timers_attemptReconnect(1)[of k "call_url s i" ?s1] by (simp add: eq)
    then have "promise s k = Pending \<and> k < next_handle s" using assms(1)[of k] by simp
    then show ?thesis
      using timers_attemptReconnect(2)[of ?s1 "call_url s i"] by (simp add: eq)
  next
    case False
    then show ?thesis using Some assms(2) assms(1)[of k]
      by (auto simp: onclose_def Let_def promise_reject clearTimeout_def split: if_splits)
  qed
qed

lemma armed_timeout:
  assumes "\<And>j. ConnectionTimeout j \<in> set (timers s) \<Longrightarrow> promise s j = Pending \<and> j < next_handle s"
    and "ConnectionTimeout k \<in> set (timers (connectionTimeout_fired i (clearTimeout (ConnectionTimeout i) s)))"
  shows "promise (connectionTimeout_fired i (clearTimeout (ConnectionTimeout i) s)) k = Pending \<and>
         k < next_handle (connectionTimeout_fired i (clearTimeout (ConnectionTimeout i) s))"
  using assms(2) assms(1)[of k]
  by (auto simp: connectionTimeout_fired_def promise_reject split: option.splits if_splits)

lemma armed_step:
  assumes inv: "\<And>j. ConnectionTimeout j \<in> set (timers s) \<Longrightarrow> promise s j = Pending \<and> j < next_handle s"
    and c: "ConnectionTimeout k \<in> set (timers (client_step ok ev s))"
  shows "promise (client_step ok ev s) k = Pending \<and> k < next_handle (client_step ok ev s)"
proof (cases ev)
  case (ApiConnect u)
  then show ?thesis using armed_connect[of s k ok u False] inv c by simp
next
  case ApiDisconnect
  then show ?thesis using armed_disconnect[of s k] inv c by simp
next
  case (WsOpen i)
  show ?thesis
  proof (cases "ws_readyState s i = CONNECTING")
    case True
    let ?s = "s\<lparr>ws_readyState := (ws_readyState s)(i := OPEN)\<rparr>"
    have "\<And>j. ConnectionTimeout j \<in> set (timers ?s) \<Longrightarrow> promise ?s j = Pending \<and> j < next_handle ?s"
      using inv by simp
    then show ?thesis using armed_onopen[of ?s k i] c WsOpen True by simp
  next
    case False
    then show ?thesis using inv[of k] c WsOpen by simp
  qed
next
  case (WsClosed i wc cd rsn)
  show ?thesis
  proof (cases "ws_readyState s i = CLOSED")
    case True
    then show ?thesis using inv[of k] c WsClosed by simp
  next
    case False
    let ?s = "s\<lparr>ws_readyState := (ws_readyState s)(i := CLOSED)\<rparr>"
    have "\<And>j. ConnectionTimeout j \<in> set (timers ?s) \<Longrightarrow> promise ?s j = Pending \<and> j < next_handle ?s"
      using inv by simp
    then show ?thesis using armed_onclose[of ?s k i wc cd rsn] c WsClosed False by simp
  qed
next
  case (TimerFired t)
  show ?thesis
  proof (cases "t \<in> set (timers s)")
    case False
    then show ?thesis using inv[of k] c TimerFired by simp
  next
    case True
    show ?thesis
    proof (cases t)
      case (ConnectionTimeout i)
      then show ?thesis using armed_timeout[of s k i] inv c TimerFired True by simp
    next
      case (ReconnectTimeout h u)
      let ?s = "(clearTimeout t s)\<lparr>this_reconnectAttempts := Suc (this_reconnectAttempts (clearTimeout t s))\<rparr>"
      have "\<And>j. ConnectionTimeout j \<in> set (timers ?s) \<Longrightarrow> promise ?s j = Pending \<and> j < next_handle ?s"
        using inv by simp
      then show ?thesis
        using armed_connect[of ?s k ok u True] c TimerFired True ReconnectTimeout
        by (simp add: reconnectTimeout_fired_def)
    qed
  qed
qed (use inv[of k] c in \<open>auto simp: on_def off_def client_createRoom_def joinRoom_def sendOffer_def
        sendAnswer_def sendIceCandidate_def onmessage_def split: option.splits if_splits\<close>)

lemma armed_run:
  assumes "\<And>j. ConnectionTimeout j \<in> set (timers s) \<Longrightarrow> promise s j = Pending \<and> j < next_handle s"
  shows "ConnectionTimeout k \<in> set (timers (client_run ok evs s)) \<Longrightarrow>
         promise (client_run ok evs s) k = Pending \<and> k < next_handle (client_run ok evs s)"
  using assms
proof (induction evs arbitrary: s)
  case Nil
  then show ?case by simp
next
  case (Cons ev evs)
  have "\<And>j. ConnectionTimeout j \<in> set (timers (client_step ok ev s)) \<Longrightarrow>
          promise (client_step ok ev s) j = Pending \<and> j < next_handle (client_step ok ev s)"
    using armed_step[of s _ ok ev] Cons.prems(2) by blast
  then show ?case using Cons.IH[of "client_step ok ev s"] Cons.prems(1) by simp
qed

lemma armed_reachable:
  "ConnectionTimeout k \<in> set (timers (client_run ok evs new_SignalingClient)) \<Longrightarrow>
   promise (client_run ok evs new_SignalingClient) k = Pending"
  using armed_run[of new_SignalingClient k ok evs] by (simp add: new_SignalingClient_def)

subsection \<open>Settlement of the promise\<close>

lemma dropped_state:
  "dropped_client =
     \<lparr>this_socket = None, this_eventListeners = [],
      this_playerId = None, this_roomId = None, this_roomCode = None,
      this_reconnectAttempts = 0, this_reconnectTimeout = None,
      ws_readyState = (\<lambda>k. CLOSED)(1 := CLOSING), promise = (\<lambda>k. Pending)(1 := Pending),
      call_url = (\<lambda>k. [])(1 := ''ws://relay''), call_retry = (\<lambda>k. False)(1 := False),
      timers = [ConnectionTimeout 1], next_handle = 2,
      trace = [WsNew 1 ''ws://relay'', SetTimeout (ConnectionTimeout 1) 10000, WsClose 1]\<rparr>"
  by (simp add: dropped_client_def new_SignalingClient_def any_url_def disconnect_def client_defs Let_def)

text \<open>
  Claim C5, as amended. \<open>connect\<close> creates the socket, arms a timer of 10000 ms for the
  call and leaves the promise of the call pending; when the \<open>WebSocket\<close> constructor
  throws, the promise is rejected at once. In every state that a new client can reach,
  the open event of a connecting socket resolves the promise of its call, whatever has
  or has not been received, and the firing of the 10-second timer of a call rejects its
  promise with the timeout error when the client then holds a socket that is not open.
  In any state at all, the same holds of a pending promise while the client holds a
  socket; no event other than the open event of its socket resolves a promise; an
  unclean close of the socket rejects a pending promise when no player id has been
  received and the client holds a socket; once a player id is known, a close of the
  socket of a client that holds a socket leaves every promise as it is, and what runs
  instead is \<open>attemptReconnect\<close> with the URL of the call; and while the client holds
  no socket, as it does after \<open>disconnect\<close>, neither the open event, nor a close, nor
  the timer changes any promise.
\<close>

theorem connect_promise_settlement:
  "(ok url \<longrightarrow>
      promise (client_step ok (ApiConnect url) s0) (next_handle s0) = Pending \<and>
      this_socket (client_step ok (ApiConnect url) s0) = Some (next_handle s0) \<and>
      ws_readyState (client_step ok (ApiConnect url) s0) (next_handle s0) = CONNECTING \<and>
      ConnectionTimeout (next_handle s0) \<in> set (timers (client_step ok (ApiConnect url) s0)) \<and>
      last (trace (client_step ok (ApiConnect url) s0)) = SetTimeout (ConnectionTimeout (next_handle s0)) 10000) \<and>
   (\<not> ok url \<longrightarrow>
      promise (client_step ok (ApiConnect url) s0) (next_handle s0) = Rejected ConstructorThrew) \<and>
   (ws_readyState (client_run ok evs new_SignalingClient) k = CONNECTING \<longrightarrow>
      promise (client_step ok (WsOpen k) (client_run ok evs new_SignalingClient)) k = Resolved) \<and>
   (ConnectionTimeout k \<in> set (timers (client_run ok evs new_SignalingClient)) \<and>
    this_socket (client_run ok evs new_SignalingClient) = Some cur \<and>
    ws_readyState (client_run ok evs new_SignalingClient) cur \<noteq> OPEN \<longrightarrow>
      promise (client_step ok (TimerFired (ConnectionTimeout k)) (client_run ok evs new_SignalingClient)) k
        = Rejected ConnectionTimeout_error) \<and>
   (ws_readyState s k = CONNECTING \<and> this_socket s \<noteq> None \<and> promise s k = Pending \<longrightarrow>
      promise (client_step ok (WsOpen k) s) k = Resolved) \<and>
   (promise s k \<noteq> Resolved \<and> promise (client_step ok ev s) k = Resolved \<longrightarrow> ev = WsOpen k) \<and>
   (ConnectionTimeout k \<in> set (timers s) \<and> this_socket s = Some cur \<and> ws_readyState s cur \<noteq> OPEN \<and>
    promise s k = Pending \<longrightarrow>
      promise (client_step ok (TimerFired (ConnectionTimeout k)) s) k = Rejected ConnectionTimeout_error) \<and>
   (ws_readyState s k \<noteq> CLOSED \<and> this_socket s \<noteq> None \<and> \<not> truthy_str (this_playerId s) \<and>
    promise s k = Pending \<longrightarrow>
      promise (client_step ok (WsClosed k False cd rsn) s) k =
        Rejected (ConnectionClosed (if rsn = [] then ''Unknown reason'' else rsn) cd)) \<and>
   (ws_readyState s k \<noteq> CLOSED \<and> this_socket s \<noteq> None \<and> truthy_str (this_playerId s) \<longrightarrow>
      client_step ok (WsClosed k wc cd rsn) s =
        attemptReconnect (call_url s k)
          (clearTimeout (ConnectionTimeout k) (s\<lparr>ws_readyState := (ws_readyState s)(k := CLOSED)\<rparr>)) \<and>
      promise (client_step ok (WsClosed k wc cd rsn) s) = promise s) \<and>
   (this_socket s = None \<longrightarrow>
      promise (client_step ok (WsOpen k) s) = promise s \<and>
      promise (client_step ok (WsClosed k wc cd rsn) s) = promise s \<and>
      promise (client_step ok (TimerFired (ConnectionTimeout k)) s) = promise s) \<and>
   this_socket (client_step ok ApiDisconnect s) = None"
proof -
  have timeout: "promise (client_step ok (TimerFired (ConnectionTimeout k)) s') k = Rejected ConnectionTimeout_error"
    if "ConnectionTimeout k \<in> set (timers s')" "this_socket s' = Some cur" "ws_readyState s' cur \<noteq> OPEN"
       "promise s' k = Pending" for s'
    using that by (simp add: connectionTimeout_fired_def promise_reject clearTimeout_def)
  have opened: "promise (client_step ok (WsOpen k) s') k = Resolved"
    if "ws_readyState s' k = CONNECTING" "this_socket s' \<noteq> None" "promise s' k = Pending" for s'
    using that by (auto simp: onopen_def promise_resolve)
  have c1: "ok url \<longrightarrow>
      promise (client_step ok (ApiConnect url) s0) (next_handle s0) = Pending \<and>
      this_socket (client_step ok (ApiConnect url) s0) = Some (next_handle s0) \<and>
      ws_readyState (client_step ok (ApiConnect url) s0) (next_handle s0) = CONNECTING \<and>
      ConnectionTimeout (next_handle s0) \<in> set (timers (client_step ok (ApiConnect url) s0)) \<and>
      last (trace (client_step ok (ApiConnect url) s0)) = SetTimeout (ConnectionTimeout (next_handle s0)) 10000"
    using connect_ok[of ok url False s0] by simp
  have c2: "\<not> ok url \<longrightarrow>
      promise (client_step ok (ApiConnect url) s0) (next_handle s0) = Rejected ConstructorThrew"
    using connect_throws[of ok url False s0] by simp
  have c3: "ws_readyState (client_run ok evs new_SignalingClient) k = CONNECTING \<longrightarrow>
      promise (client_step ok (WsOpen k) (client_run ok evs new_SignalingClient)) k = Resolved"
    using held_reachable[of ok evs k] opened[of "client_run ok evs new_SignalingClient"] by simp
  have c4: "ConnectionTimeout k \<in> set (timers (client_run ok evs new_SignalingClient)) \<and>
    this_socket (client_run ok evs new_SignalingClient) = Some cur \<and>
    ws_readyState (client_run ok evs new_SignalingClient) cur \<noteq> OPEN \<longrightarrow>
      promise (client_step ok (TimerFired (ConnectionTimeout k)) (client_run ok evs new_SignalingClient)) k
        = Rejected ConnectionTimeout_error"
    using armed_reachable[of k ok evs] timeout[of "client_run ok evs new_SignalingClient"] by blast
  have c5: "ws_readyState s k = CONNECTING \<and> this_socket s \<noteq> None \<and> promise s k = Pending \<longrightarrow>
      promise (client_step ok (WsOpen k) s) k = Resolved"
    using opened[of s] by blast
  have c6: "promise s k \<noteq> Resolved \<and> promise (client_step ok ev s) k = Resolved \<longrightarrow> ev = WsOpen k"
    using resolved_only_by_open by blast
  have c7: "ConnectionTimeout k \<in> set (timers s) \<and> this_socket s = Some cur \<and> ws_readyState s cur \<noteq> OPEN \<and>
    promise s k = Pending \<longrightarrow>
      promise (client_step ok (TimerFired (ConnectionTimeout k)) s) k = Rejected ConnectionTimeout_error"
    using timeout[of s] by blast
  have c8: "ws_readyState s k \<noteq> CLOSED \<and> this_socket s \<noteq> None \<and> \<not> truthy_str (this_playerId s) \<and>
    promise s k = Pending \<longrightarrow>
      promise (client_step ok (WsClosed k False cd rsn) s) k =
        Rejected (ConnectionClosed (if rsn = [] then ''Unknown reason'' else rsn) cd)"
    by (auto simp: onclose_def Let_def promise_reject clearTimeout_def)
  have c9: "ws_readyState s k \<noteq> CLOSED \<and> this_socket s \<noteq> None \<and> truthy_str (this_playerId s) \<longrightarrow>
      client_step ok (WsClosed k wc cd rsn) s =
        attemptReconnect (call_url s k)
          (clearTimeout (ConnectionTimeout k) (s\<lparr>ws_readyState := (ws_readyState s)(k := CLOSED)\<rparr>)) \<and>
      promise (client_step ok (WsClosed k wc cd rsn) s) = promise s"
    by (auto simp: onclose_def Let_def clearTimeout_def)
  have c10: "this_socket s = None \<longrightarrow>
      promise (client_step ok (WsOpen k) s) = promise s \<and>
      promise (client_step ok (WsClosed k wc cd rsn) s) = promise s \<and>
      promise (client_step ok (TimerFired (ConnectionTimeout k)) s) = promise s"
    using no_socket_inert[of s ok k] no_socket_inert(2)[of s ok k wc cd rsn] by blast
  have c11: "this_socket (client_step ok ApiDisconnect s) = None"
    by (simp add: disconnect_def Let_def split: option.splits)
  show ?thesis
    using c1 c2 c3 c4 c5 c6 c7 c8 c9 c10 c11 by blast
qed

text \<open>
  Claim C5 as stated fails in its first part: after \<open>connect\<close> and the open event of the
  socket the promise is resolved, although no message of any kind has been received and
  no player id is known.
\<close>

theorem connect_resolves_before_established_counterexample:
  "promise (client_run any_url [ApiConnect ''ws://relay'', WsOpen 1] new_SignalingClient) 1 = Resolved \<and>
   filter is_message [ApiConnect ''ws://relay'', WsOpen 1] = [] \<and>
   this_playerId (client_run any_url [ApiConnect ''ws://relay'', WsOpen 1] new_SignalingClient) = None"
  by (simp add: new_SignalingClient_def any_url_def client_defs Let_def)

theorem connect_promise_settlement_witness:
  "any_url ''ws://relay'' \<and> \<not> no_url ''ws://relay'' \<and> next_handle new_SignalingClient = 1 \<and>
   client_step any_url (ApiConnect ''ws://relay'') new_SignalingClient = connecting_client \<and>
   promise connecting_client 1 = Pending \<and> this_socket connecting_client = Some 1 \<and>
   ws_readyState connecting_client 1 = CONNECTING \<and>
   ConnectionTimeout 1 \<in> set (timers connecting_client) \<and>
   last (trace connecting_client) = SetTimeout (ConnectionTimeout 1) 10000 \<and>
   promise (client_step no_url (ApiConnect ''ws://relay'') new_SignalingClient) 1 = Rejected ConstructorThrew \<and>
   \<not> truthy_str (this_playerId connecting_client) \<and>
   promise (client_step any_url (WsOpen 1) connecting_client) 1 = Resolved \<and>
   promise (client_step any_url (TimerFired (ConnectionTimeout 1)) connecting_client) 1
     = Rejected ConnectionTimeout_error \<and>
   promise (client_step any_url (WsClosed 1 False 1006 []) connecting_client) 1
     = Rejected (ConnectionClosed ''Unknown reason'' 1006) \<and>
   ws_readyState connected_client 1 = OPEN \<and> this_socket connected_client = Some 1 \<and>
   truthy_str (this_playerId connected_client) \<and>
   promise (client_step any_url (WsClosed 1 False 1006 []) connected_client) 1 = Resolved \<and>
   client_step any_url ApiDisconnect connecting_client = dropped_client \<and>
   this_socket dropped_client = None \<and> ws_readyState dropped_client 1 = CLOSING \<and>
   promise (client_step any_url (WsClosed 1 False 1006 []) dropped_client) 1 = Pending \<and>
   promise (client_step any_url (TimerFired (ConnectionTimeout 1)) dropped_client) 1 = Pending"
proof -
  have s0: "any_url ''ws://relay''" "\<not> no_url ''ws://relay''" "next_handle new_SignalingClient = 1"
    "client_step any_url (ApiConnect ''ws://relay'') new_SignalingClient = connecting_client"
    by (simp_all add: any_url_def no_url_def new_SignalingClient_def connecting_client_def)
  have a: "ws_readyState connecting_client 1 = CONNECTING" "this_socket connecting_client = Some 1"
    "promise connecting_client 1 = Pending" "ConnectionTimeout 1 \<in> set (timers connecting_client)"
    "\<not> truthy_str (this_playerId connecting_client)"
    "ws_readyState connecting_client 1 \<noteq> OPEN" "ws_readyState connecting_client 1 \<noteq> CLOSED"
    by (simp_all add: connecting_state)
  have d: "ws_readyState connected_client 1 = OPEN" "this_socket connected_client = Some 1"
    "truthy_str (this_playerId connected_client)" "promise connected_client 1 = Resolved"
    "ws_readyState connected_client 1 \<noteq> CLOSED"
    by (simp_all add: connected_state)
  have g: "this_socket dropped_client = None" "ws_readyState dropped_client 1 = CLOSING"
    "promise dropped_client 1 = Pending"
    by (simp_all add: dropped_state)
  have g0: "client_step any_url ApiDisconnect connecting_client = dropped_client"
    by (simp add: dropped_client_def connecting_client_def)
  note t1 = connect_promise_settlement[where ok = any_url and url = "''ws://relay''"
      and ?s0.0 = new_SignalingClient and evs = "[ApiConnect ''ws://relay'']" and k = 1 and cur = 1
      and s = connecting_client and ev = "WsOpen 1" and cd = 1006 and rsn = "[]" and wc = False,
      folded connecting_client_def, unfolded s0(3,4)]
  note t2 = connect_promise_settlement[where ok = any_url and url = "''ws://relay''"
      and ?s0.0 = new_SignalingClient and evs = "[ApiConnect ''ws://relay'']" and k = 1 and cur = 1
      and s = connected_client and ev = "WsOpen 1" and cd = 1006 and rsn = "[]" and wc = False]
  note t3 = connect_promise_settlement[where ok = any_url and url = "''ws://relay''"
      and ?s0.0 = new_SignalingClient and evs = "[ApiConnect ''ws://relay'']" and k = 1 and cur = 1
      and s = dropped_client and ev = "WsOpen 1" and cd = 1006 and rsn = "[]" and wc = False]
  note t4 = connect_promise_settlement[where ok = no_url and url = "''ws://relay''"
      and ?s0.0 = new_SignalingClient and evs = "[]" and k = 1 and cur = 1
      and s = connecting_client and ev = "WsOpen 1" and cd = 1006 and rsn = "[]" and wc = False,
      unfolded s0(3)]
  have r0: "last (trace connecting_client) = SetTimeout (ConnectionTimeout 1) 10000"
    using t1 s0(1) by blast
  have r1: "promise (client_step any_url (WsOpen 1) connecting_client) 1 = Resolved"
    using t1 a by blast
  have r2: "promise (client_step any_url (TimerFired (ConnectionTimeout 1)) connecting_client) 1
     = Rejected ConnectionTimeout_error"
    using t1 a by blast
  have r3: "promise (client_step any_url (WsClosed 1 False 1006 []) connecting_client) 1
     = Rejected (ConnectionClosed ''Unknown reason'' 1006)"
    using t1 a by simp
  have "promise (client_step any_url (WsClosed 1 False 1006 []) connected_client) = promise connected_client"
    using t2 d(1,2,3,5) by blast
  then have r4: "promise (client_step any_url (WsClosed 1 False 1006 []) connected_client) 1 = Resolved"
    using d(4) by simp
  have r5: "promise (client_step any_url (WsClosed 1 False 1006 []) dropped_client) 1 = Pending"
    "promise (client_step any_url (TimerFired (ConnectionTimeout 1)) dropped_client) 1 = Pending"
    using t3 g by simp_all
  have r6: "promise (client_step no_url (ApiConnect ''ws://relay'') new_SignalingClient) 1 = Rejected ConstructorThrew"
    using t4 s0(2) by blast
  show ?thesis
    using s0 a d g g0 r0 r1 r2 r3 r4 r5 r6 by blast
qed

section \<open>Properties of the peer session\<close>

text \<open>The definitions to unfold when a step of the session is computed.\<close>

lemmas rtc_defs =
  effect_def notifyMessageListeners_def stopHeartbeat_def sendMessage_def closePeerConnection_def
  createPeerConnection_def createOffer_def restartConnection_def handleDisconnection_def
  handleSuccessfulReconnection_def startHeartbeat_def heartbeat_tick_def channel_onopen_def
  channel_onclose_def channel_onmessage_def oniceconnectionstatechange_def ondatachannel_def
  offer_created_def offer_description_set_def rtc_handleOffer_def

subsection \<open>Three concrete sessions\<close>

lemma guest_state:
  "guest_session =
     \<lparr>peerConnection = Some 1, dataChannel = None, remoteDataChannel = Some 2, rtc_isHost = False,
      isConnected = True, messageListeners = [], sequence = 0, heartbeatInterval = Some 3,
      heartbeatTimeout = None, lastHeartbeatAck = 20, reconnecting = False,
      channel_readyState = (\<lambda>c. ch_closed)(2 := ch_open),
      iceConnectionState = (\<lambda>p. ice_closed)(1 := ice_new),
      next_id = 4,
      effects = [PcNew 1, PcSetRemoteDescription 1 (Some (JObj ''sdp'')), SetInterval 3 2000]\<rparr>"
  by (simp add: guest_session_def new_WebRTCConnection_def rtc_defs Let_def Suc_numerals)

lemma host_state:
  "host_session =
     \<lparr>peerConnection = Some 1, dataChannel = Some 2, remoteDataChannel = None, rtc_isHost = True,
      isConnected = True, messageListeners = [], sequence = 0, heartbeatInterval = Some 3,
      heartbeatTimeout = None, lastHeartbeatAck = 20, reconnecting = False,
      channel_readyState = (\<lambda>c. ch_closed)(2 := ch_open),
      iceConnectionState = (\<lambda>p. ice_closed)(1 := ice_new),
      next_id = 4,
      effects = [PcNew 1, ChannelNew 1 2, PcCreateOffer 1, SetInterval 3 2000]\<rparr>"
  by (simp add: host_session_def new_WebRTCConnection_def rtc_defs Let_def Suc_numerals)

lemma ice_dropped_state:
  "ice_dropped_guest =
     \<lparr>peerConnection = Some 1, dataChannel = None, remoteDataChannel = Some 2, rtc_isHost = False,
      isConnected = False, messageListeners = [], sequence = 1, heartbeatInterval = None,
      heartbeatTimeout = None, lastHeartbeatAck = 20, reconnecting = False,
      channel_readyState = (\<lambda>c. ch_closed)(2 := ch_open),
      iceConnectionState = (\<lambda>p. ice_closed)(1 := ice_disconnected),
      next_id = 4,
      effects = [PcNew 1, PcSetRemoteDescription 1 (Some (JObj ''sdp'')), SetInterval 3 2000,
                 ClearInterval 3]\<rparr>"
  by (simp add: ice_dropped_guest_def guest_state rtc_defs Let_def)

subsection \<open>Restart after a disconnection\<close>

lemma filter_initiates_Notify [simp]: "filter initiates (map (\<lambda>cb. Notify cb m) cbs) = []"
  by (induction cbs) auto

lemma guest_restartConnection: "\<not> rtc_isHost s \<Longrightarrow> restartConnection s = s"
  by (simp add: restartConnection_def)

lemma guest_stopHeartbeat:
  "filter initiates (effects (stopHeartbeat s)) = filter initiates (effects s)"
  "peerConnection (stopHeartbeat s) = peerConnection s"
  "rtc_isHost (stopHeartbeat s) = rtc_isHost s"
  by (simp_all add: stopHeartbeat_def effect_def Let_def)

lemma guest_handleDisconnection:
  assumes "\<not> rtc_isHost s"
  shows "filter initiates (effects (handleDisconnection now s)) = filter initiates (effects s) \<and>
         peerConnection (handleDisconnection now s) = peerConnection s \<and>
         \<not> rtc_isHost (handleDisconnection now s)"
  using assms
  by (simp add: handleDisconnection_def Let_def restartConnection_def notifyMessageListeners_def
        effect_def guest_stopHeartbeat)

lemma guest_sendMessage:
  "filter initiates (effects (snd (sendMessage m s))) = filter initiates (effects s)"
  "peerConnection (snd (sendMessage m s)) = peerConnection s"
  "rtc_isHost (snd (sendMessage m s)) = rtc_isHost s"
  by (simp_all add: sendMessage_def effect_def split: option.splits)

lemma guest_heartbeat_tick:
  assumes "\<not> rtc_isHost s"
  shows "filter initiates (effects (heartbeat_tick pid now s)) = filter initiates (effects s) \<and>
         peerConnection (heartbeat_tick pid now s) = peerConnection s \<and>
         \<not> rtc_isHost (heartbeat_tick pid now s)"
proof -
  let ?s1 = "snd (sendMessage (game_message HEARTBEAT (playerId_or_unknown pid) now (sequence s))
                      (s\<lparr>sequence := Suc (sequence s)\<rparr>))"
  have g: "\<not> rtc_isHost ?s1" using assms by (simp add: guest_sendMessage)
  show ?thesis
    using guest_handleDisconnection[OF g, of now] assms
    by (simp add: heartbeat_tick_def Let_def guest_sendMessage)
qed

lemma guest_step:
  assumes "\<not> rtc_isHost s" "is_disconnection ev"
  shows "filter initiates (effects (rtc_step pid now ev s)) = filter initiates (effects s) \<and>
         peerConnection (rtc_step pid now ev s) = peerConnection s \<and>
         \<not> rtc_isHost (rtc_step pid now ev s)"
proof (cases ev)
  case SigPlayerDisconnected
  then show ?thesis using guest_handleDisconnection[OF assms(1)] by simp
next
  case SigReconnected
  then show ?thesis using assms(1) by (simp add: Let_def restartConnection_def)
next
  case (IceConnectionStateChange p st)
  have "\<not> rtc_isHost (s\<lparr>iceConnectionState := (iceConnectionState s)(p := st)\<rparr>)"
    using assms(1) by simp
  from guest_handleDisconnection[OF this, of now] show ?thesis
    using IceConnectionStateChange assms(1)
    by (simp add: oniceconnectionstatechange_def split: option.splits)
next
  case (ChannelClosed c)
  then show ?thesis using assms(1)
    by (simp add: channel_onclose_def guest_stopHeartbeat)
next
  case (HeartbeatTick h)
  then show ?thesis using guest_heartbeat_tick[OF assms(1)] assms(1) by simp
qed (use assms(2) in simp_all)

lemma stopHeartbeat_next_id [simp]:
  "next_id (stopHeartbeat s) = next_id s" "reconnecting (stopHeartbeat s) = reconnecting s"
  by (simp_all add: stopHeartbeat_def effect_def Let_def)

lemma closePeerConnection_keeps:
  "filter initiates (effects (closePeerConnection s)) = filter initiates (effects s)"
  "next_id (closePeerConnection s) = next_id s"
  "rtc_isHost (closePeerConnection s) = rtc_isHost s"
  by (simp_all add: closePeerConnection_def Let_def effect_def guest_stopHeartbeat split: option.splits)

lemma host_createPeerConnection:
  assumes "rtc_isHost s"
  shows "peerConnection (createPeerConnection s) = Some (next_id s) \<and>
         filter initiates (effects (createPeerConnection s)) =
           filter initiates (effects s) @ [PcNew (next_id s), ChannelNew (next_id s) (Suc (next_id s))]"
  using assms
  by (simp add: createPeerConnection_def Let_def effect_def closePeerConnection_keeps)

lemma host_restartConnection:
  assumes "rtc_isHost s"
  shows "peerConnection (restartConnection s) = Some (next_id s) \<and>
         filter initiates (effects (restartConnection s)) =
           filter initiates (effects s) @
             [PcNew (next_id s), ChannelNew (next_id s) (Suc (next_id s)), PcCreateOffer (next_id s)]"
  using assms host_createPeerConnection[OF assms]
  by (simp add: restartConnection_def createOffer_def effect_def)

lemma host_handleDisconnection:
  assumes "rtc_isHost s" "\<not> reconnecting s"
  shows "peerConnection (handleDisconnection now s) = Some (next_id s) \<and>
         filter initiates (effects (handleDisconnection now s)) =
           filter initiates (effects s) @
             [PcNew (next_id s), ChannelNew (next_id s) (Suc (next_id s)), PcCreateOffer (next_id s)]"
proof -
  let ?s1 = "stopHeartbeat (s\<lparr>isConnected := False\<rparr>)"
  let ?s2 = "notifyMessageListeners
                 ((game_message GAME_STATE ''system'' now (sequence ?s1))\<lparr>gm_data := Some disconnected_event\<rparr>)
                 (?s1\<lparr>sequence := Suc (sequence ?s1)\<rparr>)"
  have h: "rtc_isHost ?s2" "\<not> reconnecting ?s2" "next_id ?s2 = next_id s"
    "filter initiates (effects ?s2) = filter initiates (effects s)"
    using assms by (simp_all add: notifyMessageListeners_def effect_def guest_stopHeartbeat)
  have "handleDisconnection now s = restartConnection ?s2"
    using h(2) by (simp add: handleDisconnection_def Let_def)
  then show ?thesis
    using host_restartConnection[OF h(1)] h(3,4) by simp
qed

lemma offer_continuation:
  assumes "peerConnection s = Some p"
  shows "effects (rtc_step pid now' (OfferDescriptionSet j) (rtc_step pid now (OfferCreated j) s)) =
           effects s @ [PcSetLocalDescription p j, SigSendOffer j]"
  using assms by (simp add: offer_created_def offer_description_set_def effect_def)

text \<open>
  Claim C3. In a session whose role is Answerer (\<open>isHost\<close> false) \<open>restartConnection\<close>
  changes nothing, and no disconnection of the data path (the peer leaving, an ICE
  state change, a closed channel, a heartbeat tick that finds the peer silent, the
  signaling client having reconnected) makes it create a peer connection or a data
  channel or start an offer; its peer connection and its role stay as they are. In a
  session whose role is Offerer, \<open>handleDisconnection\<close> (unless the signaling client is
  reconnecting) creates the replacement peer connection with its data channel and
  starts the offer, which is sent through the signaling client once the browser has
  produced it and set it as the local description.
\<close>

theorem only_offerer_restarts:
  "(\<not> rtc_isHost s \<longrightarrow>
      restartConnection s = s \<and>
      (is_disconnection ev \<longrightarrow>
         filter initiates (effects (rtc_step pid now ev s)) = filter initiates (effects s) \<and>
         peerConnection (rtc_step pid now ev s) = peerConnection s \<and>
         \<not> rtc_isHost (rtc_step pid now ev s))) \<and>
   (rtc_isHost s \<and> \<not> reconnecting s \<longrightarrow>
      peerConnection (handleDisconnection now s) = Some (next_id s) \<and>
      filter initiates (effects (handleDisconnection now s)) =
        filter initiates (effects s) @
          [PcNew (next_id s), ChannelNew (next_id s) (Suc (next_id s)), PcCreateOffer (next_id s)] \<and>
      effects (rtc_step pid now (OfferDescriptionSet j)
                 (rtc_step pid now (OfferCreated j) (handleDisconnection now s))) =
        effects (handleDisconnection now s) @ [PcSetLocalDescription (next_id s) j, SigSendOffer j])"
proof (intro conjI impI)
  assume "\<not> rtc_isHost s"
  then show "restartConnection s = s" by (rule guest_restartConnection)
next
  assume g: "\<not> rtc_isHost s" and d: "is_disconnection ev"
  from guest_step[OF g d, of pid now]
  show "filter initiates (effects (rtc_step pid now ev s)) = filter initiates (effects s)"
    and "peerConnection (rtc_step pid now ev s) = peerConnection s"
    and "\<not> rtc_isHost (rtc_step pid now ev s)"
    by simp_all
next
  assume h: "rtc_isHost s \<and> \<not> reconnecting s"
  then have r: "peerConnection (handleDisconnection now s) = Some (next_id s) \<and>
         filter initiates (effects (handleDisconnection now s)) =
           filter initiates (effects s) @
             [PcNew (next_id s), ChannelNew (next_id s) (Suc (next_id s)), PcCreateOffer (next_id s)]"
    using host_handleDisconnection by blast
  from r show "peerConnection (handleDisconnection now s) = Some (next_id s)" by simp
  from r show "filter initiates (effects (handleDisconnection now s)) =
        filter initiates (effects s) @
          [PcNew (next_id s), ChannelNew (next_id s) (Suc (next_id s)), PcCreateOffer (next_id s)]"
    by simp
  from r show "effects (rtc_step pid now (OfferDescriptionSet j)
                 (rtc_step pid now (OfferCreated j) (handleDisconnection now s))) =
        effects (handleDisconnection now s) @ [PcSetLocalDescription (next_id s) j, SigSendOffer j]"
    using offer_continuation[of "handleDisconnection now s" "next_id s" pid now j now] by simp
qed

theorem only_offerer_restarts_witness:
  "\<not> rtc_isHost guest_session \<and> is_disconnection SigPlayerDisconnected \<and>
   restartConnection guest_session = guest_session \<and>
   filter initiates (effects (rtc_step (Some ''p2'') 30 SigPlayerDisconnected guest_session)) =
     filter initiates (effects guest_session) \<and>
   peerConnection (rtc_step (Some ''p2'') 30 SigPlayerDisconnected guest_session) = Some 1 \<and>
   rtc_isHost host_session \<and> \<not> reconnecting host_session \<and>
   peerConnection (handleDisconnection 30 host_session) = Some 4 \<and>
   filter initiates (effects (handleDisconnection 30 host_session)) =
     [PcNew 1, ChannelNew 1 2, PcCreateOffer 1, PcNew 4, ChannelNew 4 5, PcCreateOffer 4]"
proof -
  have g: "\<not> rtc_isHost guest_session" "peerConnection guest_session = Some 1"
    by (simp_all add: guest_state)
  have d: "is_disconnection SigPlayerDisconnected" by simp
  have h: "rtc_isHost host_session" "\<not> reconnecting host_session" "next_id host_session = 4"
    "filter initiates (effects host_session) = [PcNew 1, ChannelNew 1 2, PcCreateOffer 1]"
    by (simp_all add: host_state)
  note t1 = only_offerer_restarts[of guest_session SigPlayerDisconnected "Some ''p2''" 30 "JObj ''sdp''"]
  note t2 = only_offerer_restarts[of host_session SigPlayerDisconnected "Some ''p1''" 30 "JObj ''sdp''"]
  have r1: "restartConnection guest_session = guest_session"
    "filter initiates (effects (rtc_step (Some ''p2'') 30 SigPlayerDisconnected guest_session)) =
       filter initiates (effects guest_session)"
    "peerConnection (rtc_step (Some ''p2'') 30 SigPlayerDisconnected guest_session) = Some 1"
    using t1 g d by simp_all
  have r2: "peerConnection (handleDisconnection 30 host_session) = Some 4"
    "filter initiates (effects (handleDisconnection 30 host_session)) =
       [PcNew 1, ChannelNew 1 2, PcCreateOffer 1, PcNew 4, ChannelNew 4 5, PcCreateOffer 4]"
    using t2 h by simp_all
  show ?thesis
    using g d h r1 r2 by simp
qed

subsection \<open>Heartbeat\<close>

lemma stopHeartbeat_fields [simp]:
  "sequence (stopHeartbeat s) = sequence s"
  "isConnected (stopHeartbeat s) = isConnected s"
  "lastHeartbeatAck (stopHeartbeat s) = lastHeartbeatAck s"
  "messageListeners (stopHeartbeat s) = messageListeners s"
  by (simp_all add: stopHeartbeat_def effect_def Let_def)

lemma stopHeartbeat_clears:
  "heartbeatInterval s = Some h \<Longrightarrow> 0 < h \<Longrightarrow> heartbeatInterval (stopHeartbeat s) = None"
  "heartbeatInterval s = None \<Longrightarrow> heartbeatInterval (stopHeartbeat s) = None"
  by (simp_all add: stopHeartbeat_def effect_def Let_def)

lemma stopHeartbeat_effects: "\<exists>es. effects (stopHeartbeat s) = effects s @ es"
  by (simp add: stopHeartbeat_def effect_def Let_def)

lemma closePeerConnection_fields:
  "sequence (closePeerConnection s) = sequence s"
  "\<not> isConnected (closePeerConnection s)"
  by (simp_all add: closePeerConnection_def Let_def effect_def split: option.splits)

lemma closePeerConnection_clears:
  "heartbeatInterval s = None \<Longrightarrow> heartbeatInterval (closePeerConnection s) = None"
  by (simp add: closePeerConnection_def Let_def effect_def stopHeartbeat_clears split: option.splits)

lemma createPeerConnection_fields:
  "sequence (createPeerConnection s) = sequence s"
  "\<not> isConnected (createPeerConnection s)"
  "heartbeatInterval s = None \<Longrightarrow> heartbeatInterval (createPeerConnection s) = None"
  by (simp_all add: createPeerConnection_def Let_def effect_def closePeerConnection_fields
        closePeerConnection_clears)

lemma createOffer_fields [simp]:
  "sequence (createOffer s) = sequence s"
  "isConnected (createOffer s) = isConnected s"
  "heartbeatInterval (createOffer s) = heartbeatInterval s"
  by (simp_all add: createOffer_def effect_def split: option.splits)

lemma restartConnection_fields:
  "sequence (restartConnection s) = sequence s"
  "\<not> isConnected s \<Longrightarrow> \<not> isConnected (restartConnection s)"
  "heartbeatInterval s = None \<Longrightarrow> heartbeatInterval (restartConnection s) = None"
  by (simp_all add: restartConnection_def createPeerConnection_fields)

lemma handleDisconnection_sequence: "sequence (handleDisconnection now s) = Suc (sequence s)"
  by (simp add: handleDisconnection_def Let_def notifyMessageListeners_def effect_def
        restartConnection_fields)

lemma handleDisconnection_disconnects:
  assumes "heartbeatInterval s = None \<or> (\<exists>h. heartbeatInterval s = Some h \<and> 0 < h)"
  shows "\<not> isConnected (handleDisconnection now s) \<and> heartbeatInterval (handleDisconnection now s) = None"
proof -
  let ?s1 = "stopHeartbeat (s\<lparr>isConnected := False\<rparr>)"
  let ?s2 = "notifyMessageListeners
                 ((game_message GAME_STATE ''system'' now (sequence ?s1))\<lparr>gm_data := Some disconnected_event\<rparr>)
                 (?s1\<lparr>sequence := Suc (sequence ?s1)\<rparr>)"
  have "heartbeatInterval ?s1 = None"
    using assms by (auto simp: stopHeartbeat_clears)
  then have h: "heartbeatInterval ?s2 = None" "\<not> isConnected ?s2"
    by (simp_all add: notifyMessageListeners_def effect_def)
  have "handleDisconnection now s = (if \<not> reconnecting ?s2 then restartConnection ?s2 else ?s2)"
    by (simp add: handleDisconnection_def Let_def)
  then show ?thesis
    using h restartConnection_fields(2,3)[of ?s2] by simp
qed

lemma sendMessage_fields [simp]:
  "sequence (snd (sendMessage m s)) = sequence s"
  "isConnected (snd (sendMessage m s)) = isConnected s"
  "heartbeatInterval (snd (sendMessage m s)) = heartbeatInterval s"
  "lastHeartbeatAck (snd (sendMessage m s)) = lastHeartbeatAck s"
  by (simp_all add: sendMessage_def effect_def split: option.splits)

lemma send_channel_sequence [simp]: "send_channel (s\<lparr>sequence := x\<rparr>) = send_channel s"
  by (simp add: send_channel_def)

lemma sendMessage_sent:
  assumes "isConnected s" "send_channel s = Some c" "channel_readyState s c = ch_open"
  shows "sendMessage m s = (True, s\<lparr>effects := effects s @ [ChannelSend c m]\<rparr>)"
  using assms by (auto simp: sendMessage_def send_channel_def effect_def split: if_splits)

lemma sendMessage_not_connected: "\<not> isConnected s \<Longrightarrow> sendMessage m s = (False, s)"
  by (simp add: sendMessage_def)

lemma closePeerConnection_effects: "\<exists>es. effects (closePeerConnection s) = effects s @ es"
proof -
  obtain e1 where e1: "effects (stopHeartbeat s) = effects s @ e1"
    using stopHeartbeat_effects by blast
  show ?thesis
    by (cases "dataChannel (stopHeartbeat s)"; cases "peerConnection (stopHeartbeat s)")
       (simp_all add: closePeerConnection_def Let_def effect_def e1)
qed

lemma createPeerConnection_effects: "\<exists>es. effects (createPeerConnection s) = effects s @ es"
proof -
  obtain e1 where e1: "effects (closePeerConnection s) = effects s @ e1"
    using closePeerConnection_effects by blast
  show ?thesis
    by (simp add: createPeerConnection_def Let_def effect_def e1)
qed

lemma restartConnection_effects: "\<exists>es. effects (restartConnection s) = effects s @ es"
proof -
  obtain e1 where e1: "effects (createPeerConnection s) = effects s @ e1"
    using createPeerConnection_effects by blast
  show ?thesis
    by (simp add: restartConnection_def createOffer_def effect_def e1 split: option.splits)
qed

lemma handleDisconnection_effects: "\<exists>es. effects (handleDisconnection now s) = effects s @ es"
proof -
  let ?s1 = "stopHeartbeat (s\<lparr>isConnected := False\<rparr>)"
  let ?s2 = "notifyMessageListeners
                 ((game_message GAME_STATE ''system'' now (sequence ?s1))\<lparr>gm_data := Some disconnected_event\<rparr>)
                 (?s1\<lparr>sequence := Suc (sequence ?s1)\<rparr>)"
  obtain e1 where e1: "effects ?s1 = effects s @ e1"
    using stopHeartbeat_effects[of "s\<lparr>isConnected := False\<rparr>"] by auto
  then obtain e2 where e2: "effects ?s2 = effects s @ e2"
    by (simp add: notifyMessageListeners_def effect_def)
  obtain e3 where e3: "effects (restartConnection ?s2) = effects ?s2 @ e3"
    using restartConnection_effects by blast
  have "handleDisconnection now s = (if \<not> reconnecting ?s2 then restartConnection ?s2 else ?s2)"
    by (simp add: handleDisconnection_def Let_def)
  then show ?thesis
    using e2 e3 by simp
qed

lemma tick_sends:
  assumes "isConnected s" "send_channel s = Some c" "channel_readyState s c = ch_open"
  shows "take 1 (new_effects s (heartbeat_tick pid now s)) =
           [ChannelSend c (game_message HEARTBEAT (playerId_or_unknown pid) now (sequence s))] \<and>
         sequence s < sequence (heartbeat_tick pid now s)"
proof -
  let ?m = "game_message HEARTBEAT (playerId_or_unknown pid) now (sequence s)"
  let ?s0 = "s\<lparr>sequence := Suc (sequence s)\<rparr>"
  let ?s1 = "?s0\<lparr>effects := effects s @ [ChannelSend c ?m]\<rparr>"
  have snd: "snd (sendMessage ?m ?s0) = ?s1"
    using assms sendMessage_sent[of ?s0 c ?m] by simp
  obtain es where es: "effects (handleDisconnection now ?s1) = effects ?s1 @ es"
    using handleDisconnection_effects by blast
  show ?thesis
    using es by (simp add: heartbeat_tick_def Let_def snd new_effects_def handleDisconnection_sequence)
qed

lemma tick_timeout:
  assumes "heartbeatInterval s = Some h" "0 < h" "now - lastHeartbeatAck s > 10000"
  shows "\<not> isConnected (heartbeat_tick pid now s) \<and> heartbeatInterval (heartbeat_tick pid now s) = None"
proof -
  let ?s1 = "snd (sendMessage (game_message HEARTBEAT (playerId_or_unknown pid) now (sequence s))
                      (s\<lparr>sequence := Suc (sequence s)\<rparr>))"
  have "heartbeatInterval ?s1 = None \<or> (\<exists>h. heartbeatInterval ?s1 = Some h \<and> 0 < h)"
    using assms by simp
  from handleDisconnection_disconnects[OF this, of now] show ?thesis
    using assms by (simp add: heartbeat_tick_def Let_def)
qed

lemma tick_alive:
  assumes "now - lastHeartbeatAck s \<le> 10000"
  shows "isConnected (heartbeat_tick pid now s) = isConnected s \<and>
         heartbeatInterval (heartbeat_tick pid now s) = heartbeatInterval s"
  using assms by (simp add: heartbeat_tick_def Let_def)

lemma channel_open_starts_heartbeat:
  "isConnected (channel_onopen now s) \<and>
   heartbeatInterval (channel_onopen now s) = Some (next_id s) \<and>
   lastHeartbeatAck (channel_onopen now s) = now \<and>
   SetInterval (next_id s) 2000 \<in> set (new_effects s (channel_onopen now s))"
  by (simp add: channel_onopen_def startHeartbeat_def handleSuccessfulReconnection_def
        notifyMessageListeners_def new_effects_def effect_def stopHeartbeat_def Let_def)

lemma sequence_mono: "sequence s \<le> sequence (rtc_step pid now ev s)"
proof (cases ev)
  case SigPlayerJoined
  then show ?thesis by (simp add: createPeerConnection_fields)
next
  case (SigOffer j)
  then show ?thesis
    by (simp add: rtc_handleOffer_def effect_def createPeerConnection_fields split: option.splits)
next
  case (SigAnswer j)
  then show ?thesis by (simp add: rtc_handleAnswer_def effect_def split: option.splits)
next
  case (SigIceCandidate j)
  then show ?thesis by (simp add: rtc_handleIceCandidate_def effect_def split: option.splits)
next
  case SigPlayerDisconnected
  then show ?thesis by (simp add: handleDisconnection_sequence)
next
  case SigReconnected
  then show ?thesis by (simp add: Let_def restartConnection_fields)
next
  case (IceCandidate p cand)
  then show ?thesis by (simp add: effect_def split: option.splits)
next
  case (IceConnectionStateChange p st)
  then show ?thesis
    by (simp add: oniceconnectionstatechange_def handleDisconnection_sequence split: option.splits)
next
  case (DataChannel p)
  then show ?thesis by (simp add: ondatachannel_def Let_def)
next
  case (ChannelOpen c)
  then show ?thesis
    by (simp add: channel_onopen_def startHeartbeat_def handleSuccessfulReconnection_def
          notifyMessageListeners_def effect_def Let_def)
next
  case (ChannelClosed c)
  then show ?thesis by (simp add: channel_onclose_def)
next
  case (ChannelMessage c parsed)
  then show ?thesis
    by (simp add: channel_onmessage_def notifyMessageListeners_def effect_def split: option.splits)
next
  case (HeartbeatTick h)
  then show ?thesis by (simp add: heartbeat_tick_def Let_def handleDisconnection_sequence)
next
  case (OfferCreated j)
  then show ?thesis by (simp add: offer_created_def effect_def split: option.splits)
next
  case (OfferDescriptionSet j)
  then show ?thesis by (simp add: offer_description_set_def effect_def)
next
  case RemoteOfferSet
  then show ?thesis by (simp add: remote_offer_set_def effect_def split: option.splits)
next
  case (AnswerCreated j)
  then show ?thesis by (simp add: answer_created_def effect_def split: option.splits)
next
  case (AnswerDescriptionSet j)
  then show ?thesis by (simp add: answer_description_set_def effect_def)
next
  case (CallSendPositionUpdate x y)
  then show ?thesis by (simp add: sendPositionUpdate_def)
next
  case (CallSendPlayerAction a d)
  then show ?thesis by (simp add: sendPlayerAction_def)
next
  case CallDisconnect
  then show ?thesis by (simp add: closePeerConnection_fields)
qed (simp_all add: onMessage_def offMessage_def)

lemma heartbeat_replied:
  assumes "gm_type m = HEARTBEAT" "isConnected s" "send_channel s = Some c" "channel_readyState s c = ch_open"
  shows "new_effects s (channel_onmessage pid now (Some m) s) =
           [ChannelSend c (game_message HEARTBEAT_ACK (playerId_or_unknown pid) now (sequence s))]"
proof -
  let ?s0 = "s\<lparr>sequence := Suc (sequence s)\<rparr>"
  have "snd (sendMessage (game_message HEARTBEAT_ACK (playerId_or_unknown pid) now (sequence s)) ?s0) =
          ?s0\<lparr>effects := effects s @ [ChannelSend c (game_message HEARTBEAT_ACK (playerId_or_unknown pid) now (sequence s))]\<rparr>"
    using assms sendMessage_sent[of ?s0 c] by simp
  then show ?thesis
    using assms(1) by (simp add: channel_onmessage_def new_effects_def)
qed

lemma heartbeat_not_replied:
  assumes "gm_type m = HEARTBEAT" "\<not> isConnected s"
  shows "effects (channel_onmessage pid now (Some m) s) = effects s"
  using assms by (simp add: channel_onmessage_def sendMessage_not_connected)

text \<open>
  Claim C2, as amended. When a data channel opens, the session is connected, the time is
  recorded as that of the last acknowledgement, and the heartbeat interval is set with a
  period of 2000 ms. Each tick of a connected session whose channel is open sends a
  heartbeat carrying the current sequence number and leaves the counter larger; no
  event makes the counter smaller, so the numbers of successive heartbeats increase
  strictly. A heartbeat received while the session is connected and its channel open
  is answered by exactly one effect, the heartbeat-ack; while the session is not
  connected no answer is sent. A heartbeat-ack records the time and has no effect
  outside. At a tick at which more than 10000 ms have passed since the recorded time the
  session is disconnected and its heartbeat stopped; at a tick at which no more have
  passed it stays as it is.
\<close>

theorem heartbeat_liveness:
  "(channel_readyState s c = ch_connecting \<longrightarrow>
      isConnected (rtc_step pid now (ChannelOpen c) s) \<and>
      heartbeatInterval (rtc_step pid now (ChannelOpen c) s) = Some (next_id s) \<and>
      lastHeartbeatAck (rtc_step pid now (ChannelOpen c) s) = now \<and>
      SetInterval (next_id s) 2000 \<in> set (new_effects s (rtc_step pid now (ChannelOpen c) s))) \<and>
   (heartbeatInterval s = Some h \<and> isConnected s \<and> send_channel s = Some c \<and>
    channel_readyState s c = ch_open \<longrightarrow>
      take 1 (new_effects s (rtc_step pid now (HeartbeatTick h) s)) =
        [ChannelSend c (game_message HEARTBEAT (playerId_or_unknown pid) now (sequence s))] \<and>
      sequence s < sequence (rtc_step pid now (HeartbeatTick h) s)) \<and>
   sequence s \<le> sequence (rtc_step pid now ev s) \<and>
   (channel_readyState s c' = ch_open \<and> gm_type m = HEARTBEAT \<and> isConnected s \<and>
    send_channel s = Some c \<and> channel_readyState s c = ch_open \<longrightarrow>
      new_effects s (rtc_step pid now (ChannelMessage c' (Some m)) s) =
        [ChannelSend c (game_message HEARTBEAT_ACK (playerId_or_unknown pid) now (sequence s))]) \<and>
   (gm_type m = HEARTBEAT \<and> \<not> isConnected s \<longrightarrow>
      effects (rtc_step pid now (ChannelMessage c' (Some m)) s) = effects s) \<and>
   (channel_readyState s c' = ch_open \<and> gm_type m = HEARTBEAT_ACK \<longrightarrow>
      lastHeartbeatAck (rtc_step pid now (ChannelMessage c' (Some m)) s) = now \<and>
      effects (rtc_step pid now (ChannelMessage c' (Some m)) s) = effects s) \<and>
   (heartbeatInterval s = Some h \<and> 0 < h \<and> now - lastHeartbeatAck s > 10000 \<longrightarrow>
      \<not> isConnected (rtc_step pid now (HeartbeatTick h) s) \<and>
      heartbeatInterval (rtc_step pid now (HeartbeatTick h) s) = None) \<and>
   (heartbeatInterval s = Some h \<and> now - lastHeartbeatAck s \<le> 10000 \<longrightarrow>
      isConnected (rtc_step pid now (HeartbeatTick h) s) = isConnected s \<and>
      heartbeatInterval (rtc_step pid now (HeartbeatTick h) s) = Some h)"
proof (intro conjI impI)
  assume a: "channel_readyState s c = ch_connecting"
  let ?s0 = "s\<lparr>channel_readyState := (channel_readyState s)(c := ch_open)\<rparr>"
  have eq: "rtc_step pid now (ChannelOpen c) s = channel_onopen now ?s0"
    using a by simp
  note o = channel_open_starts_heartbeat[of now ?s0]
  show "isConnected (rtc_step pid now (ChannelOpen c) s)"
    unfolding eq using o by simp
  show "heartbeatInterval (rtc_step pid now (ChannelOpen c) s) = Some (next_id s)"
    unfolding eq using o by simp
  show "lastHeartbeatAck (rtc_step pid now (ChannelOpen c) s) = now"
    unfolding eq using o by simp
  show "SetInterval (next_id s) 2000 \<in> set (new_effects s (rtc_step pid now (ChannelOpen c) s))"
    unfolding eq using o by (simp add: new_effects_def)
next
  assume a: "heartbeatInterval s = Some h \<and> isConnected s \<and> send_channel s = Some c \<and>
    channel_readyState s c = ch_open"
  then have t: "take 1 (new_effects s (heartbeat_tick pid now s)) =
           [ChannelSend c (game_message HEARTBEAT (playerId_or_unknown pid) now (sequence s))] \<and>
         sequence s < sequence (heartbeat_tick pid now s)"
    using tick_sends by blast
  show "take 1 (new_effects s (rtc_step pid now (HeartbeatTick h) s)) =
        [ChannelSend c (game_message HEARTBEAT (playerId_or_unknown pid) now (sequence s))]"
    using a t by simp
  show "sequence s < sequence (rtc_step pid now (HeartbeatTick h) s)"
    using a t by simp
next
  show "sequence s \<le> sequence (rtc_step pid now ev s)" by (rule sequence_mono)
next
  assume a: "channel_readyState s c' = ch_open \<and> gm_type m = HEARTBEAT \<and> isConnected s \<and>
    send_channel s = Some c \<and> channel_readyState s c = ch_open"
  then show "new_effects s (rtc_step pid now (ChannelMessage c' (Some m)) s) =
        [ChannelSend c (game_message HEARTBEAT_ACK (playerId_or_unknown pid) now (sequence s))]"
    using heartbeat_replied[of m s c pid now] by simp
next
  assume a: "gm_type m = HEARTBEAT \<and> \<not> isConnected s"
  then show "effects (rtc_step pid now (ChannelMessage c' (Some m)) s) = effects s"
    using heartbeat_not_replied[of m s pid now] by simp
next
  assume a: "channel_readyState s c' = ch_open \<and> gm_type m = HEARTBEAT_ACK"
  then show "lastHeartbeatAck (rtc_step pid now (ChannelMessage c' (Some m)) s) = now"
    by (simp add: channel_onmessage_def)
  from a show "effects (rtc_step pid now (ChannelMessage c' (Some m)) s) = effects s"
    by (simp add: channel_onmessage_def)
next
  assume a: "heartbeatInterval s = Some h \<and> 0 < h \<and> now - lastHeartbeatAck s > 10000"
  then have t: "\<not> isConnected (heartbeat_tick pid now s) \<and> heartbeatInterval (heartbeat_tick pid now s) = None"
    using tick_timeout by blast
  show "\<not> isConnected (rtc_step pid now (HeartbeatTick h) s)" using a t by simp
  show "heartbeatInterval (rtc_step pid now (HeartbeatTick h) s) = None" using a t by simp
next
  assume a: "heartbeatInterval s = Some h \<and> now - lastHeartbeatAck s \<le> 10000"
  then have t: "isConnected (heartbeat_tick pid now s) = isConnected s \<and>
         heartbeatInterval (heartbeat_tick pid now s) = heartbeatInterval s"
    using tick_alive by blast
  show "isConnected (rtc_step pid now (HeartbeatTick h) s) = isConnected s" using a t by simp
  show "heartbeatInterval (rtc_step pid now (HeartbeatTick h) s) = Some h" using a t by simp
qed

text \<open>
  Claim C2 as stated fails in its second part. An Answerer whose channel 2 is open sees
  the ICE state of its connection change to disconnected: \<open>handleDisconnection\<close> marks the
  session as not connected and, the session not being the host, nothing is restarted.
  The channel is still open, and the heartbeat that then arrives on it is not answered:
  the step has no effect at all.
\<close>

theorem heartbeat_unanswered_counterexample:
  "channel_readyState ice_dropped_guest 2 = ch_open \<and>
   send_channel ice_dropped_guest = Some 2 \<and>
   effects (rtc_step (Some ''p2'') 40 (ChannelMessage 2 (Some (game_message HEARTBEAT ''p1'' 35 7)))
              ice_dropped_guest) = effects ice_dropped_guest"
  by (simp add: ice_dropped_state send_channel_def channel_onmessage_def sendMessage_def
        game_message_def)

theorem heartbeat_liveness_witness:
  "heartbeatInterval guest_session = Some 3 \<and> isConnected guest_session \<and>
   send_channel guest_session = Some 2 \<and> channel_readyState guest_session 2 = ch_open \<and>
   lastHeartbeatAck guest_session = 20 \<and>
   take 1 (new_effects guest_session (rtc_step (Some ''p2'') 2020 (HeartbeatTick 3) guest_session)) =
     [ChannelSend 2 (game_message HEARTBEAT ''p2'' 2020 0)] \<and>
   new_effects guest_session
       (rtc_step (Some ''p2'') 2500 (ChannelMessage 2 (Some (game_message HEARTBEAT ''p1'' 2400 1))) guest_session) =
     [ChannelSend 2 (game_message HEARTBEAT_ACK ''p2'' 2500 0)] \<and>
   isConnected (rtc_step (Some ''p2'') 10020 (HeartbeatTick 3) guest_session) \<and>
   \<not> isConnected (rtc_step (Some ''p2'') 12020 (HeartbeatTick 3) guest_session) \<and>
   \<not> isConnected ice_dropped_guest \<and>
   effects (rtc_step (Some ''p2'') 40 (ChannelMessage 2 (Some (game_message HEARTBEAT ''p1'' 35 7)))
              ice_dropped_guest) = effects ice_dropped_guest"
proof -
  have g: "heartbeatInterval guest_session = Some 3" "isConnected guest_session"
    "send_channel guest_session = Some 2" "channel_readyState guest_session 2 = ch_open"
    "lastHeartbeatAck guest_session = 20" "sequence guest_session = 0"
    by (simp_all add: guest_state send_channel_def)
  have d: "\<not> isConnected ice_dropped_guest"
    by (simp add: ice_dropped_state)
  have hb: "gm_type (game_message HEARTBEAT ''p1'' 2400 1) = HEARTBEAT"
    "gm_type (game_message HEARTBEAT ''p1'' 35 7) = HEARTBEAT"
    by (simp_all add: game_message_def)
  have p: "playerId_or_unknown (Some ''p2'') = ''p2''"
    by (simp add: playerId_or_unknown_def)
  note t1 = heartbeat_liveness[of guest_session 2 "Some ''p2''" 2020 3 "HeartbeatTick 3" 2
      "game_message HEARTBEAT ''p1'' 2400 1"]
  note t2 = heartbeat_liveness[of guest_session 2 "Some ''p2''" 2500 3 "HeartbeatTick 3" 2
      "game_message HEARTBEAT ''p1'' 2400 1"]
  note t3 = heartbeat_liveness[of guest_session 2 "Some ''p2''" 10020 3 "HeartbeatTick 3" 2
      "game_message HEARTBEAT ''p1'' 2400 1"]
  note t4 = heartbeat_liveness[of guest_session 2 "Some ''p2''" 12020 3 "HeartbeatTick 3" 2
      "game_message HEARTBEAT ''p1'' 2400 1"]
  note t5 = heartbeat_liveness[of ice_dropped_guest 2 "Some ''p2''" 40 3 "HeartbeatTick 3" 2
      "game_message HEARTBEAT ''p1'' 35 7"]
  have r1: "take 1 (new_effects guest_session (rtc_step (Some ''p2'') 2020 (HeartbeatTick 3) guest_session)) =
     [ChannelSend 2 (game_message HEARTBEAT ''p2'' 2020 0)]"
    using t1 g p by simp
  have r2: "new_effects guest_session
       (rtc_step (Some ''p2'') 2500 (ChannelMessage 2 (Some (game_message HEARTBEAT ''p1'' 2400 1))) guest_session) =
     [ChannelSend 2 (game_message HEARTBEAT_ACK ''p2'' 2500 0)]"
    using t2 g p hb by simp
  have r3: "isConnected (rtc_step (Some ''p2'') 10020 (HeartbeatTick 3) guest_session)"
    using t3 g by simp
  have r4: "\<not> isConnected (rtc_step (Some ''p2'') 12020 (HeartbeatTick 3) guest_session)"
    using t4 g by simp
  have r5: "effects (rtc_step (Some ''p2'') 40 (ChannelMessage 2 (Some (game_message HEARTBEAT ''p1'' 35 7)))
              ice_dropped_guest) = effects ice_dropped_guest"
    using t5 d hb by simp
  show ?thesis
    using g d r1 r2 r3 r4 r5 by simp
qed

end
